theory Spec2Isabelle
  imports Complex_Main
begin

unbundle bit_operations_syntax

section \<open>The canonical motion front end (emccanon.cc)\<close>

text \<open>
  A shallow embedding of \<^verbatim>\<open>src/emc/task/emccanon.cc\<close>. A C \<^verbatim>\<open>double\<close> is a
  \<^typ>\<open>real\<close>: rounding, infinities and NaN are outside the model, except where the
  round trip of rotation and offsets is read a second time in double arithmetic. A C \<^verbatim>\<open>int\<close> is an
  \<^typ>\<open>int\<close>; the functions embedded here compare and copy integers and never add them,
  so no wrap-around can occur.
\<close>

subsection \<open>Data\<close>

text \<open>
  \<^verbatim>\<open>CANON_POSITION\<close> and \<^verbatim>\<open>EmcPose\<close>: nine doubles. The fields \<^verbatim>\<open>x\<close>, ...,
  \<^verbatim>\<open>w\<close> of the source are \<open>px\<close>, ..., \<open>pw\<close> here, single letters being needed for
  variables. \<^verbatim>\<open>struct pt\<close> of the segment buffer is such a pose and a line number.
  Where a function of the source takes or updates nine doubles \<^verbatim>\<open>x\<close>, ..., \<^verbatim>\<open>w\<close>,
  its model takes or returns a pose.
\<close>

record pose =
  px :: real
  py :: real
  pz :: real
  pa :: real
  pb :: real
  pc :: real
  pu :: real
  pv :: real
  pw :: real

record pt =
  pt_pose :: pose
  line_no :: int

datatype CANON_UNITS = CANON_UNITS_INCHES | CANON_UNITS_MM | CANON_UNITS_CM

datatype CANON_PLANE = CANON_PLANE_XY | CANON_PLANE_YZ | CANON_PLANE_XZ

datatype CANON_MOTION_MODE = CANON_EXACT_STOP | CANON_EXACT_PATH | CANON_CONTINUOUS

datatype motion_type = EMC_MOTION_TYPE_TRAVERSE | EMC_MOTION_TYPE_FEED

text \<open>
  The messages appended to the interpreter list, one record per message class, with the
  fields the embedded functions assign. A field that a function assigns on one path only
  (\<^verbatim>\<open>factor\<close> and \<^verbatim>\<open>xoffset\<close> of the spindle messages, \<^verbatim>\<open>tolerance\<close> of the
  termination condition) is an option: \<open>None\<close> is "never assigned". \<open>tc_blend\<close> is
  \<^verbatim>\<open>cond\<close>, which is \<^verbatim>\<open>EMC_TRAJ_TERM_COND_BLEND\<close> or \<^verbatim>\<open>EMC_TRAJ_TERM_COND_STOP\<close>.
\<close>

record linear_move =
  lm_feed_mode :: int
  lm_end :: pose
  lm_vel :: real
  lm_ini_maxvel :: real
  lm_ini_maxjerk :: real
  lm_acc :: real
  lm_type :: motion_type

record rigid_tap =
  rt_pos :: pose
  rt_vel :: real
  rt_ini_maxvel :: real
  rt_acc :: real

record spindle_cmd =
  sp_speed :: real
  sp_factor :: "real option"
  sp_xoffset :: "real option"

record spindlesync =
  feed_per_revolution :: real
  velocity_mode :: bool

record set_term_cond =
  tc_blend :: bool
  tc_tolerance :: "real option"

record input_wait =
  iw_index :: int
  iw_input_type :: int
  iw_wait_type :: int
  iw_timeout :: real

datatype msg =
    EMC_TRAJ_LINEAR_MOVE linear_move
  | EMC_TRAJ_RIGID_TAP rigid_tap
  | EMC_TRAJ_SET_ROTATION real
  | EMC_TRAJ_SET_ORIGIN pose
  | EMC_TRAJ_SET_OFFSET pose
  | EMC_TRAJ_SET_TERM_COND set_term_cond
  | EMC_TRAJ_SET_SPINDLESYNC spindlesync
  | EMC_SPINDLE_ON spindle_cmd
  | EMC_SPINDLE_SPEED spindle_cmd
  | EMC_AUX_INPUT_WAIT input_wait
  | EMC_OPERATOR_ERROR string

text \<open>
  What the canon reads and never writes: the status buffer \<^verbatim>\<open>emcStatus\<close>, the per-axis
  limits \<^verbatim>\<open>emcAxisGetMax...\<close>, and the constants of headers that are not part of the
  sources at hand. \<open>uninit_vel\<close> is the value found in the local \<^verbatim>\<open>vel\<close> of
  \<^verbatim>\<open>getStraightVelocity\<close>, which the function declares without initialising it.
\<close>

record emc_env =
  axis_mask :: int
  linearUnits :: real
  angularUnits :: real
  input_timeout :: int
  synch_di :: "int \<Rightarrow> int"
  emcAxisGetMaxVelocity :: "nat \<Rightarrow> real"
  emcAxisGetMaxAcceleration :: "nat \<Rightarrow> real"
  emcAxisGetMaxJerk :: "nat \<Rightarrow> real"
  EMCMOT_MAX_DIO :: int
  EMCMOT_MAX_AIO :: int
  DIGITAL_INPUT :: int
  ANALOG_INPUT :: int
  uninit_vel :: real

text \<open>
  Everything the canon writes: the fields of \<^verbatim>\<open>canon\<close>, the segment buffer
  \<^verbatim>\<open>chained_points()\<close>, the interpreter list and \<^verbatim>\<open>emcStatus->task.programUnits\<close>.
\<close>

record world =
  endPoint :: pose
  programOrigin :: pose
  toolOffset :: pose
  xy_rotation :: real
  lengthUnits :: CANON_UNITS
  activePlane :: CANON_PLANE
  motionMode :: CANON_MOTION_MODE
  motionTolerance :: real
  naivecamTolerance :: real
  feed_mode :: int
  linearFeedRate :: real
  angularFeedRate :: real
  spindleSpeed :: real
  css_maximum :: real
  css_numerator :: real
  cartesian_move :: bool
  angular_move :: bool
  synched :: bool
  block_delete :: bool
  optional_program_stop :: bool
  chained_points :: "pt list"
  interp_line :: int
  interp_list :: "(int \<times> msg) list"
  programUnits :: CANON_UNITS

subsection \<open>Calls that change the world and may not return\<close>

text \<open>
  A function of the source is a function from the world to its result and the new world,
  or to \<open>None\<close> when the call does not return: a failed \<^verbatim>\<open>assert\<close> aborts the
  process, and unbounded recursion ends it too.
\<close>

type_synonym 'a canon = "world \<Rightarrow> ('a \<times> world) option"

definition ret :: "'a \<Rightarrow> 'a canon" where
  "ret v = (\<lambda>s. Some (v, s))"

definition bnd :: "'a canon \<Rightarrow> ('a \<Rightarrow> 'b canon) \<Rightarrow> 'b canon" where
  "bnd m f = (\<lambda>s. case m s of None \<Rightarrow> None | Some (v, s') \<Rightarrow> f v s')"

definition get_world :: "world canon" where
  "get_world = (\<lambda>s. Some (s, s))"

definition modify :: "(world \<Rightarrow> world) \<Rightarrow> unit canon" where
  "modify g = (\<lambda>s. Some ((), g s))"

definition assert :: "bool \<Rightarrow> unit canon" where
  "assert b = (\<lambda>s. if b then Some ((), s) else None)"

text \<open>
  Modelled from the spec: the interpreter list (\<^verbatim>\<open>interpl.hh\<close> is not among the
  sources). Messages are appended in generation order and each carries a line number,
  the one last given to \<^verbatim>\<open>set_line_number\<close>.
\<close>

definition interp_list_set_line_number :: "int \<Rightarrow> unit canon" where
  "interp_list_set_line_number n = modify (\<lambda>s. s\<lparr>interp_line := n\<rparr>)"

definition interp_list_append :: "msg \<Rightarrow> unit canon" where
  "interp_list_append m = modify (\<lambda>s. s\<lparr>interp_list := interp_list s @ [(interp_line s, m)]\<rparr>)"

subsection \<open>Units and offsets\<close>

definition tiny :: real where
  "tiny = 1 / 10000000"

definition huge :: real where
  "huge = 1000000000"

definition MIN2 :: "real \<Rightarrow> real \<Rightarrow> real" where
  "MIN2 a b = (if a < b then a else b)"

definition MIN3 :: "real \<Rightarrow> real \<Rightarrow> real \<Rightarrow> real" where
  "MIN3 a b c = MIN2 (MIN2 a b) c"

definition MIN4 :: "real \<Rightarrow> real \<Rightarrow> real \<Rightarrow> real \<Rightarrow> real" where
  "MIN4 a b c d = MIN2 (MIN2 a b) (MIN2 c d)"

definition prog_len_factor :: "world \<Rightarrow> real" where
  "prog_len_factor s =
     (if lengthUnits s = CANON_UNITS_INCHES then 254 / 10
      else if lengthUnits s = CANON_UNITS_CM then 10 else 1)"

definition FROM_PROG_LEN :: "world \<Rightarrow> real \<Rightarrow> real" where
  "FROM_PROG_LEN s prog = prog * prog_len_factor s"

definition FROM_PROG_ANG :: "real \<Rightarrow> real" where
  "FROM_PROG_ANG prog = prog"

definition offset_pos :: "world \<Rightarrow> pose \<Rightarrow> pose" where
  "offset_pos s p =
     \<lparr>px = px p + px (programOrigin s) + px (toolOffset s),
      py = py p + py (programOrigin s) + py (toolOffset s),
      pz = pz p + pz (programOrigin s) + pz (toolOffset s),
      pa = pa p + pa (programOrigin s) + pa (toolOffset s),
      pb = pb p + pb (programOrigin s) + pb (toolOffset s),
      pc = pc p + pc (programOrigin s) + pc (toolOffset s),
      pu = pu p + pu (programOrigin s) + pu (toolOffset s),
      pv = pv p + pv (programOrigin s) + pv (toolOffset s),
      pw = pw p + pw (programOrigin s) + pw (toolOffset s)\<rparr>"

definition unoffset_pos :: "world \<Rightarrow> pose \<Rightarrow> pose" where
  "unoffset_pos s p =
     \<lparr>px = px p - px (programOrigin s) - px (toolOffset s),
      py = py p - py (programOrigin s) - py (toolOffset s),
      pz = pz p - pz (programOrigin s) - pz (toolOffset s),
      pa = pa p - pa (programOrigin s) - pa (toolOffset s),
      pb = pb p - pb (programOrigin s) - pb (toolOffset s),
      pc = pc p - pc (programOrigin s) - pc (toolOffset s),
      pu = pu p - pu (programOrigin s) - pu (toolOffset s),
      pv = pv p - pv (programOrigin s) - pv (toolOffset s),
      pw = pw p - pw (programOrigin s) - pw (toolOffset s)\<rparr>"

definition D2R :: "real \<Rightarrow> real" where
  "D2R r = r * pi / 180"

definition rotate :: "pose \<Rightarrow> real \<Rightarrow> pose" where
  "rotate p theta =
     (let t = D2R theta; xx = px p; yy = py p
      in p\<lparr>px := xx * cos t - yy * sin t, py := xx * sin t + yy * cos t\<rparr>)"

definition rotate_and_offset_pos :: "world \<Rightarrow> pose \<Rightarrow> pose" where
  "rotate_and_offset_pos s p = offset_pos s (rotate p (xy_rotation s))"

definition unoffset_and_unrotate_pos :: "world \<Rightarrow> pose \<Rightarrow> pose" where
  "unoffset_and_unrotate_pos s pos = rotate (unoffset_pos s pos) (- xy_rotation s)"

definition from_prog :: "world \<Rightarrow> pose \<Rightarrow> pose" where
  "from_prog s p =
     \<lparr>px = FROM_PROG_LEN s (px p), py = FROM_PROG_LEN s (py p), pz = FROM_PROG_LEN s (pz p),
      pa = FROM_PROG_ANG (pa p), pb = FROM_PROG_ANG (pb p), pc = FROM_PROG_ANG (pc p),
      pu = FROM_PROG_LEN s (pu p), pv = FROM_PROG_LEN s (pv p), pw = FROM_PROG_LEN s (pw p)\<rparr>"

definition canonUpdateEndPoint :: "pose \<Rightarrow> unit canon" where
  "canonUpdateEndPoint p = modify (\<lambda>s. s\<lparr>endPoint := p\<rparr>)"

subsection \<open>External units\<close>

text \<open>
  \<^verbatim>\<open>GET_EXTERNAL_LENGTH_UNITS\<close> and \<^verbatim>\<open>GET_EXTERNAL_ANGLE_UNITS\<close> report a zero unit
  through \<^verbatim>\<open>CANON_ERROR\<close> and answer 1. \<^verbatim>\<open>CANON_ERROR\<close> flushes the segment buffer
  before it appends its message, and \<^verbatim>\<open>flush_segments\<close> converts the buffered point
  with these same two functions before it clears the buffer. So under a zero unit the
  report of a zero unit with points in the buffer calls itself without end and never
  returns; with an empty buffer the flush returns at once and the message is appended.
  \<open>CANON_ERROR_zero_units\<close> is \<^verbatim>\<open>CANON_ERROR\<close> as these two callers meet it; the
  lemma \<open>CANON_ERROR_zero_units_eq\<close> below checks it against \<open>CANON_ERROR\<close> itself.
\<close>

definition CANON_ERROR_zero_units :: "string \<Rightarrow> unit canon" where
  "CANON_ERROR_zero_units txt =
     bnd get_world (\<lambda>s.
       if chained_points s = [] then interp_list_append (EMC_OPERATOR_ERROR txt)
       else (\<lambda>_. None))"

definition GET_EXTERNAL_LENGTH_UNITS :: "emc_env \<Rightarrow> real canon" where
  "GET_EXTERNAL_LENGTH_UNITS env =
     (let u = linearUnits env
      in if u = 0
         then bnd (CANON_ERROR_zero_units ''external length units are zero'') (\<lambda>_. ret 1)
         else ret u)"

definition GET_EXTERNAL_ANGLE_UNITS :: "emc_env \<Rightarrow> real canon" where
  "GET_EXTERNAL_ANGLE_UNITS env =
     (let u = angularUnits env
      in if u = 0
         then bnd (CANON_ERROR_zero_units ''external angle units are zero'') (\<lambda>_. ret 1)
         else ret u)"

definition TO_EXT_LEN :: "emc_env \<Rightarrow> real \<Rightarrow> real canon" where
  "TO_EXT_LEN env mm = bnd (GET_EXTERNAL_LENGTH_UNITS env) (\<lambda>u. ret (mm * u))"

definition TO_EXT_ANG :: "emc_env \<Rightarrow> real \<Rightarrow> real canon" where
  "TO_EXT_ANG env deg = bnd (GET_EXTERNAL_ANGLE_UNITS env) (\<lambda>u. ret (deg * u))"

definition FROM_EXT_LEN :: "emc_env \<Rightarrow> real \<Rightarrow> real canon" where
  "FROM_EXT_LEN env ext = bnd (GET_EXTERNAL_LENGTH_UNITS env) (\<lambda>u. ret (ext / u))"

definition FROM_EXT_ANG :: "emc_env \<Rightarrow> real \<Rightarrow> real canon" where
  "FROM_EXT_ANG env ext = bnd (GET_EXTERNAL_ANGLE_UNITS env) (\<lambda>u. ret (ext / u))"

definition to_ext_pose :: "emc_env \<Rightarrow> pose \<Rightarrow> pose canon" where
  "to_ext_pose env p =
     bnd (TO_EXT_LEN env (px p)) (\<lambda>ex.
     bnd (TO_EXT_LEN env (py p)) (\<lambda>ey.
     bnd (TO_EXT_LEN env (pz p)) (\<lambda>ez.
     bnd (TO_EXT_ANG env (pa p)) (\<lambda>ea.
     bnd (TO_EXT_ANG env (pb p)) (\<lambda>eb.
     bnd (TO_EXT_ANG env (pc p)) (\<lambda>ec.
     bnd (TO_EXT_LEN env (pu p)) (\<lambda>eu.
     bnd (TO_EXT_LEN env (pv p)) (\<lambda>ev.
     bnd (TO_EXT_LEN env (pw p)) (\<lambda>ew.
     ret \<lparr>px = ex, py = ey, pz = ez, pa = ea, pb = eb, pc = ec,
          pu = eu, pv = ev, pw = ew\<rparr>)))))))))"

definition axis_valid :: "emc_env \<Rightarrow> nat \<Rightarrow> bool" where
  "axis_valid env n = (axis_mask env AND push_bit n 1 \<noteq> 0)"

definition toExtVel :: "emc_env \<Rightarrow> real \<Rightarrow> real canon" where
  "toExtVel env vel =
     bnd get_world (\<lambda>s.
       if cartesian_move s \<and> \<not> angular_move s then TO_EXT_LEN env vel
       else if \<not> cartesian_move s \<and> angular_move s then TO_EXT_ANG env vel
       else if cartesian_move s \<and> angular_move s then TO_EXT_LEN env vel
       else TO_EXT_LEN env vel)"

definition toExtAcc :: "emc_env \<Rightarrow> real \<Rightarrow> real canon" where
  "toExtAcc env acc = toExtVel env acc"

subsection \<open>Kinematic envelope\<close>

text \<open>
  \<^verbatim>\<open>getStraightVelocity\<close>, \<^verbatim>\<open>getStraightAcceleration\<close> and \<^verbatim>\<open>getStraightJerk\<close>
  are one text three times over, which differs in the per-axis limit it asks for, in the
  value the result has before the branches (the move to nowhere), and in the last
  statement of \<^verbatim>\<open>getStraightVelocity\<close>. \<open>straight_limit\<close> is that text, with the
  limit and the initial value as parameters. \<open>axis_delta\<close> is the two statements
  \<^verbatim>\<open>dx = fabs(x - canon.endPoint.x); if(!axis_valid(0) || dx < tiny) dx = 0.0;\<close> and
  \<open>axis_limit\<close> is \<^verbatim>\<open>(dx ? emcAxisGetMax...(0) : 1e9)\<close>.
\<close>

definition axis_delta :: "emc_env \<Rightarrow> nat \<Rightarrow> real \<Rightarrow> real \<Rightarrow> real" where
  "axis_delta env n t e = (let d = \<bar>t - e\<bar> in if \<not> axis_valid env n \<or> d < tiny then 0 else d)"

definition axis_limit :: "(nat \<Rightarrow> real) \<Rightarrow> real \<Rightarrow> nat \<Rightarrow> real" where
  "axis_limit lmt d n = (if d \<noteq> 0 then lmt n else huge)"

definition straight_limit :: "emc_env \<Rightarrow> (nat \<Rightarrow> real) \<Rightarrow> real \<Rightarrow> pose \<Rightarrow> real canon" where
  "straight_limit env lmt nowhere p =
     bnd get_world (\<lambda>s0.
     let dx = axis_delta env 0 (px p) (px (endPoint s0));
         dy = axis_delta env 1 (py p) (py (endPoint s0));
         dz = axis_delta env 2 (pz p) (pz (endPoint s0));
         da = axis_delta env 3 (pa p) (pa (endPoint s0));
         db = axis_delta env 4 (pb p) (pb (endPoint s0));
         dc = axis_delta env 5 (pc p) (pc (endPoint s0));
         du = axis_delta env 6 (pu p) (pu (endPoint s0));
         dv = axis_delta env 7 (pv p) (pv (endPoint s0));
         dw = axis_delta env 8 (pw p) (pw (endPoint s0))
     in
     bnd (modify (\<lambda>s. s\<lparr>cartesian_move :=
            \<not> (dx \<le> 0 \<and> dy \<le> 0 \<and> dz \<le> 0 \<and> du \<le> 0 \<and> dv \<le> 0 \<and> dw \<le> 0)\<rparr>)) (\<lambda>_.
     bnd (modify (\<lambda>s. s\<lparr>angular_move := \<not> (da \<le> 0 \<and> db \<le> 0 \<and> dc \<le> 0)\<rparr>)) (\<lambda>_.
     bnd get_world (\<lambda>s1.
     if cartesian_move s1 \<and> \<not> angular_move s1 then
       bnd (FROM_EXT_LEN env
             (MIN4 (MIN3 (axis_limit lmt dx 0) (axis_limit lmt dy 1) (axis_limit lmt dz 2))
                   (axis_limit lmt du 6) (axis_limit lmt dv 7) (axis_limit lmt dw 8))) (\<lambda>r.
       bnd (assert (r > 0)) (\<lambda>_. ret r))
     else if \<not> cartesian_move s1 \<and> angular_move s1 then
       bnd (FROM_EXT_ANG env
             (MIN3 (axis_limit lmt da 3) (axis_limit lmt db 4) (axis_limit lmt dc 5))) (\<lambda>r.
       bnd (assert (r > 0)) (\<lambda>_. ret r))
     else if cartesian_move s1 \<and> angular_move s1 then
       bnd (FROM_EXT_LEN env
             (MIN4 (MIN3 (axis_limit lmt dx 0) (axis_limit lmt dy 1) (axis_limit lmt dz 2))
                   (axis_limit lmt du 6) (axis_limit lmt dv 7) (axis_limit lmt dw 8))) (\<lambda>r.
       bnd (FROM_EXT_ANG env
             (MIN3 (axis_limit lmt da 3) (axis_limit lmt db 4) (axis_limit lmt dc 5))) (\<lambda>ang.
       bnd (assert (MIN2 r ang > 0)) (\<lambda>_. ret (MIN2 r ang))))
     else ret nowhere))))"

definition getStraightJerk :: "emc_env \<Rightarrow> pose \<Rightarrow> real canon" where
  "getStraightJerk env p = straight_limit env (emcAxisGetMaxJerk env) 0 p"

definition getStraightAcceleration :: "emc_env \<Rightarrow> pose \<Rightarrow> real canon" where
  "getStraightAcceleration env p = straight_limit env (emcAxisGetMaxAcceleration env) 0 p"

definition getStraightVelocity :: "emc_env \<Rightarrow> pose \<Rightarrow> real canon" where
  "getStraightVelocity env p =
     bnd (straight_limit env (emcAxisGetMaxVelocity env) (uninit_vel env) p) (\<lambda>vel.
     bnd get_world (\<lambda>s. ret (MIN2 vel (linearFeedRate s))))"

subsection \<open>Segment buffer\<close>

text \<open>
  The clamp of \<^verbatim>\<open>vel\<close> in \<^verbatim>\<open>flush_segments\<close>, by the linear or the angular feed
  rate according to the two move flags.
\<close>

definition feed_clamp :: "world \<Rightarrow> real \<Rightarrow> real" where
  "feed_clamp s vel =
     (if cartesian_move s \<and> \<not> angular_move s then
        (if vel > linearFeedRate s then linearFeedRate s else vel)
      else if \<not> cartesian_move s \<and> angular_move s then
        (if vel > angularFeedRate s then angularFeedRate s else vel)
      else if cartesian_move s \<and> angular_move s then
        (if vel > linearFeedRate s then linearFeedRate s else vel)
      else vel)"

text \<open>
  \<^verbatim>\<open>flush_segments\<close> returns at once on an empty buffer. \<open>flush_last\<close> is the rest of
  its body, for the last buffered point \<^verbatim>\<open>pos = chained_points().back()\<close>. In
  \<^verbatim>\<open>TO_EXT_LEN(getStraightJerk(...))\<close> the jerk is computed before the unit is asked
  for; C++ leaves the order open, and here it makes no difference, since the buffer is
  not empty and the unit query then either has no effect or does not return.
\<close>

definition flush_last :: "emc_env \<Rightarrow> pt \<Rightarrow> unit canon" where
  "flush_last env pos =
     (let p = pt_pose pos; line = line_no pos in
       bnd (getStraightVelocity env p) (\<lambda>ini_maxvel.
       bnd get_world (\<lambda>s1.
       let vel = feed_clamp s1 ini_maxvel; fm = feed_mode s1 in
       bnd (TO_EXT_LEN env (px p)) (\<lambda>ex.
       bnd (TO_EXT_LEN env (py p)) (\<lambda>ey.
       bnd (TO_EXT_LEN env (pz p)) (\<lambda>ez.
       bnd (TO_EXT_LEN env (pu p)) (\<lambda>eu.
       bnd (TO_EXT_LEN env (pv p)) (\<lambda>ev.
       bnd (TO_EXT_LEN env (pw p)) (\<lambda>ew.
       bnd (TO_EXT_ANG env (pa p)) (\<lambda>ea.
       bnd (TO_EXT_ANG env (pb p)) (\<lambda>eb.
       bnd (TO_EXT_ANG env (pc p)) (\<lambda>ec.
       bnd (toExtVel env vel) (\<lambda>mvel.
       bnd (toExtVel env ini_maxvel) (\<lambda>mini.
       bnd (getStraightJerk env p) (\<lambda>jerk.
       bnd (TO_EXT_LEN env jerk) (\<lambda>mjerk.
       bnd (getStraightAcceleration env p) (\<lambda>acc.
       bnd (toExtAcc env acc) (\<lambda>macc.
       bnd get_world (\<lambda>s2.
       bnd (if (vel \<noteq> 0 \<and> acc \<noteq> 0) \<or> synched s2 then
              bnd (interp_list_set_line_number line) (\<lambda>_.
              interp_list_append (EMC_TRAJ_LINEAR_MOVE
                \<lparr>lm_feed_mode = fm,
                 lm_end = \<lparr>px = ex, py = ey, pz = ez, pa = ea, pb = eb, pc = ec,
                           pu = eu, pv = ev, pw = ew\<rparr>,
                 lm_vel = mvel, lm_ini_maxvel = mini, lm_ini_maxjerk = mjerk,
                 lm_acc = macc, lm_type = EMC_MOTION_TYPE_FEED\<rparr>))
            else ret ()) (\<lambda>_.
       bnd (canonUpdateEndPoint p) (\<lambda>_.
       modify (\<lambda>s. s\<lparr>chained_points := []\<rparr>))))))))))))))))))))))"

definition flush_segments :: "emc_env \<Rightarrow> unit canon" where
  "flush_segments env =
     bnd get_world (\<lambda>s0.
     if chained_points s0 = [] then ret ()
     else flush_last env (last (chained_points s0)))"

definition CANON_ERROR :: "emc_env \<Rightarrow> string \<Rightarrow> unit canon" where
  "CANON_ERROR env txt =
     bnd (flush_segments env) (\<lambda>_. interp_list_append (EMC_OPERATOR_ERROR txt))"

text \<open>
  Modelled from the spec: \<^verbatim>\<open>PM_CARTESIAN\<close> with \<^verbatim>\<open>dot\<close> and \<^verbatim>\<open>mag\<close> (posemath is
  not among the sources): vectors of three reals, the inner product and the Euclidean
  length, \<open>D = |P - (B + t\<cdot>M)|\<close>.
\<close>

type_synonym PM_CARTESIAN = "real \<times> real \<times> real"

fun dot :: "PM_CARTESIAN \<Rightarrow> PM_CARTESIAN \<Rightarrow> real" where
  "dot (x1, y1, z1) (x2, y2, z2) = x1 * x2 + y1 * y2 + z1 * z2"

fun mag :: "PM_CARTESIAN \<Rightarrow> real" where
  "mag (x1, y1, z1) = sqrt (x1 * x1 + y1 * y1 + z1 * z1)"

fun cart_add :: "PM_CARTESIAN \<Rightarrow> PM_CARTESIAN \<Rightarrow> PM_CARTESIAN" where
  "cart_add (x1, y1, z1) (x2, y2, z2) = (x1 + x2, y1 + y2, z1 + z2)"

fun cart_sub :: "PM_CARTESIAN \<Rightarrow> PM_CARTESIAN \<Rightarrow> PM_CARTESIAN" where
  "cart_sub (x1, y1, z1) (x2, y2, z2) = (x1 - x2, y1 - y2, z1 - z2)"

fun cart_scale :: "real \<Rightarrow> PM_CARTESIAN \<Rightarrow> PM_CARTESIAN" where
  "cart_scale t (x1, y1, z1) = (t * x1, t * y1, t * z1)"

text \<open>The body of the loop of \<^verbatim>\<open>linkable\<close>, up to the distance \<open>D\<close>.\<close>

definition chord_distance :: "world \<Rightarrow> pose \<Rightarrow> pt \<Rightarrow> real" where
  "chord_distance s p it =
     (let M = (px p - px (endPoint s), py p - py (endPoint s), pz p - pz (endPoint s));
          B = (px (endPoint s), py (endPoint s), pz (endPoint s));
          P = (px (pt_pose it), py (pt_pose it), pz (pt_pose it));
          t0 = dot M (cart_sub P B) / dot M M;
          t1 = (if t0 < 0 then 0 else t0);
          t2 = (if t1 > 1 then 1 else t1)
      in mag (cart_sub P (cart_add B (cart_scale t2 M))))"

fun linkable_loop :: "world \<Rightarrow> pose \<Rightarrow> pt list \<Rightarrow> bool" where
  "linkable_loop s p [] = True"
| "linkable_loop s p (it # rest) =
     (if chord_distance s p it > naivecamTolerance s then False else linkable_loop s p rest)"

text \<open>
  \<^verbatim>\<open>linkable\<close> reads \<^verbatim>\<open>chained_points().back()\<close> first, which is undefined on an
  empty buffer: there the model answers \<open>None\<close>. \<^verbatim>\<open>see_segment\<close> calls it on a
  non-empty buffer only.
\<close>

definition linkable :: "world \<Rightarrow> pose \<Rightarrow> bool option" where
  "linkable s p =
     (if chained_points s = [] then None
      else
        let pos = pt_pose (last (chained_points s)) in
        Some (if motionMode s \<noteq> CANON_CONTINUOUS \<or> naivecamTolerance s = 0 then False
              else if length (chained_points s) > 100 then False
              else if pa p \<noteq> pa pos then False
              else if pb p \<noteq> pb pos then False
              else if pc p \<noteq> pc pos then False
              else if pu p \<noteq> pu pos then False
              else if pv p \<noteq> pv pos then False
              else if pw p \<noteq> pw pos then False
              else if px p = px (endPoint s) \<and> py p = py (endPoint s) \<and> pz p = pz (endPoint s)
                then False
              else linkable_loop s p (chained_points s)))"

definition see_segment :: "emc_env \<Rightarrow> int \<Rightarrow> pose \<Rightarrow> unit canon" where
  "see_segment env line_number p =
     bnd get_world (\<lambda>s0.
     let changed_abc = (pa p \<noteq> pa (endPoint s0) \<or> pb p \<noteq> pb (endPoint s0)
                        \<or> pc p \<noteq> pc (endPoint s0));
         changed_uvw = (pu p \<noteq> pu (endPoint s0) \<or> pv p \<noteq> pv (endPoint s0)
                        \<or> pw p \<noteq> pw (endPoint s0))
     in
     bnd (if chained_points s0 \<noteq> [] \<and> linkable s0 p \<noteq> Some True then flush_segments env
          else ret ()) (\<lambda>_.
     bnd (modify (\<lambda>s. s\<lparr>chained_points :=
            chained_points s @ [\<lparr>pt_pose = p, line_no = line_number\<rparr>]\<rparr>)) (\<lambda>_.
     if changed_abc \<or> changed_uvw then flush_segments env else ret ())))"

definition FINISH :: "emc_env \<Rightarrow> unit canon" where
  "FINISH env = flush_segments env"

definition STRAIGHT_FEED :: "emc_env \<Rightarrow> int \<Rightarrow> pose \<Rightarrow> unit canon" where
  "STRAIGHT_FEED env line_number p =
     bnd get_world (\<lambda>s.
     see_segment env line_number (rotate_and_offset_pos s (from_prog s p)))"

subsection \<open>Canonical commands\<close>

definition START_SPEED_FEED_SYNCH :: "emc_env \<Rightarrow> real \<Rightarrow> bool \<Rightarrow> unit canon" where
  "START_SPEED_FEED_SYNCH env fpr vmode =
     bnd (flush_segments env) (\<lambda>_.
     bnd get_world (\<lambda>s.
     bnd (TO_EXT_LEN env (FROM_PROG_LEN s fpr)) (\<lambda>f.
     bnd (interp_list_append (EMC_TRAJ_SET_SPINDLESYNC
            \<lparr>feed_per_revolution = f, velocity_mode = vmode\<rparr>)) (\<lambda>_.
     modify (\<lambda>s. s\<lparr>synched := True\<rparr>)))))"

definition STOP_SPEED_FEED_SYNCH :: "emc_env \<Rightarrow> unit canon" where
  "STOP_SPEED_FEED_SYNCH env =
     bnd (flush_segments env) (\<lambda>_.
     bnd (interp_list_append (EMC_TRAJ_SET_SPINDLESYNC
            \<lparr>feed_per_revolution = 0, velocity_mode = False\<rparr>)) (\<lambda>_.
     modify (\<lambda>s. s\<lparr>synched := False\<rparr>)))"

definition send_origin_msg :: "emc_env \<Rightarrow> unit canon" where
  "send_origin_msg env =
     bnd (flush_segments env) (\<lambda>_.
     bnd get_world (\<lambda>s.
     bnd (TO_EXT_LEN env (px (programOrigin s))) (\<lambda>ex.
     bnd (TO_EXT_LEN env (py (programOrigin s))) (\<lambda>ey.
     bnd (TO_EXT_LEN env (pz (programOrigin s))) (\<lambda>ez.
     bnd (TO_EXT_ANG env (pa (programOrigin s))) (\<lambda>ea.
     bnd (TO_EXT_ANG env (pb (programOrigin s))) (\<lambda>eb.
     bnd (TO_EXT_ANG env (pc (programOrigin s))) (\<lambda>ec.
     bnd (TO_EXT_LEN env (pu (programOrigin s))) (\<lambda>eu.
     bnd (TO_EXT_LEN env (pv (programOrigin s))) (\<lambda>ev.
     bnd (TO_EXT_LEN env (pw (programOrigin s))) (\<lambda>ew.
     bnd (if css_maximum s \<noteq> 0 then
            bnd (TO_EXT_LEN env (px (programOrigin s) + px (toolOffset s))) (\<lambda>xo.
            interp_list_append (EMC_SPINDLE_SPEED
              \<lparr>sp_speed = css_maximum s, sp_factor = Some (css_numerator s),
               sp_xoffset = Some xo\<rparr>))
          else ret ()) (\<lambda>_.
     interp_list_append (EMC_TRAJ_SET_ORIGIN
       \<lparr>px = ex, py = ey, pz = ez, pa = ea, pb = eb, pc = ec,
        pu = eu, pv = ev, pw = ew\<rparr>)))))))))))))"

definition SET_XY_ROTATION :: "real \<Rightarrow> unit canon" where
  "SET_XY_ROTATION t =
     bnd (interp_list_append (EMC_TRAJ_SET_ROTATION t)) (\<lambda>_.
     modify (\<lambda>s. s\<lparr>xy_rotation := t\<rparr>))"

definition SET_ORIGIN_OFFSETS :: "emc_env \<Rightarrow> pose \<Rightarrow> unit canon" where
  "SET_ORIGIN_OFFSETS env p =
     bnd (modify (\<lambda>s. s\<lparr>programOrigin := from_prog s p\<rparr>)) (\<lambda>_.
     send_origin_msg env)"

definition USE_LENGTH_UNITS :: "CANON_UNITS \<Rightarrow> unit canon" where
  "USE_LENGTH_UNITS in_unit =
     bnd (modify (\<lambda>s. s\<lparr>lengthUnits := in_unit\<rparr>)) (\<lambda>_.
     modify (\<lambda>s. s\<lparr>programUnits := in_unit\<rparr>))"

definition SET_FEED_MODE :: "emc_env \<Rightarrow> int \<Rightarrow> unit canon" where
  "SET_FEED_MODE env mode =
     bnd (flush_segments env) (\<lambda>_.
     bnd (modify (\<lambda>s. s\<lparr>feed_mode := mode\<rparr>)) (\<lambda>_.
     bnd get_world (\<lambda>s.
     if feed_mode s = 0 then STOP_SPEED_FEED_SYNCH env else ret ())))"

definition SET_FEED_RATE :: "emc_env \<Rightarrow> real \<Rightarrow> unit canon" where
  "SET_FEED_RATE env rate =
     bnd get_world (\<lambda>s.
     if feed_mode s \<noteq> 0 then
       bnd (START_SPEED_FEED_SYNCH env rate True) (\<lambda>_.
       modify (\<lambda>s. s\<lparr>linearFeedRate := rate\<rparr>))
     else
       let rate60 = rate / 60;
           newLinearFeedRate = FROM_PROG_LEN s rate60;
           newAngularFeedRate = FROM_PROG_ANG rate60
       in
       bnd (if newLinearFeedRate \<noteq> linearFeedRate s \<or> newAngularFeedRate \<noteq> angularFeedRate s
            then flush_segments env else ret ()) (\<lambda>_.
       bnd (modify (\<lambda>s. s\<lparr>linearFeedRate := newLinearFeedRate\<rparr>)) (\<lambda>_.
       modify (\<lambda>s. s\<lparr>angularFeedRate := newAngularFeedRate\<rparr>))))"

text \<open>
  \<^verbatim>\<open>RIGID_TAP\<close> hands one local \<^verbatim>\<open>unused\<close>, which is 0, to \<^verbatim>\<open>from_prog\<close> and to
  \<^verbatim>\<open>rotate_and_offset_pos\<close> for all six of \<^verbatim>\<open>a\<close>, ..., \<^verbatim>\<open>w\<close>, and never reads it
  again; \<^verbatim>\<open>x\<close>, \<^verbatim>\<open>y\<close> and \<^verbatim>\<open>z\<close> come back converted, rotated and offset. Every
  later call takes \<^verbatim>\<open>x, y, z\<close> and the six other coordinates of \<^verbatim>\<open>canon.endPoint\<close> as
  they are at that call: \<open>tap_target\<close>.
\<close>

definition tap_target :: "pose \<Rightarrow> pose canon" where
  "tap_target q =
     bnd get_world (\<lambda>s. ret ((endPoint s)\<lparr>px := px q, py := py q, pz := pz q\<rparr>))"

definition RIGID_TAP :: "emc_env \<Rightarrow> int \<Rightarrow> real \<Rightarrow> real \<Rightarrow> real \<Rightarrow> unit canon" where
  "RIGID_TAP env line_number x y z =
     bnd get_world (\<lambda>s0.
     let q = rotate_and_offset_pos s0 (from_prog s0
               \<lparr>px = x, py = y, pz = z, pa = 0, pb = 0, pc = 0, pu = 0, pv = 0, pw = 0\<rparr>)
     in
     bnd (tap_target q) (\<lambda>t1.
     bnd (getStraightVelocity env t1) (\<lambda>vel.
     let ini_maxvel = vel in
     bnd (tap_target q) (\<lambda>t2.
     bnd (getStraightAcceleration env t2) (\<lambda>acc.
     bnd (tap_target q) (\<lambda>t3.
     bnd (to_ext_pose env t3) (\<lambda>pos.
     bnd (toExtVel env vel) (\<lambda>mvel.
     bnd (toExtVel env ini_maxvel) (\<lambda>mini.
     bnd (toExtAcc env acc) (\<lambda>macc.
     bnd (flush_segments env) (\<lambda>_.
     if vel \<noteq> 0 \<and> acc \<noteq> 0 then
       bnd (interp_list_set_line_number line_number) (\<lambda>_.
       interp_list_append (EMC_TRAJ_RIGID_TAP
         \<lparr>rt_pos = pos, rt_vel = mvel, rt_ini_maxvel = mini, rt_acc = macc\<rparr>))
     else ret ())))))))))))"

definition SET_MOTION_CONTROL_MODE :: "emc_env \<Rightarrow> CANON_MOTION_MODE \<Rightarrow> real \<Rightarrow> unit canon" where
  "SET_MOTION_CONTROL_MODE env mode tolerance =
     bnd (flush_segments env) (\<lambda>_.
     bnd (modify (\<lambda>s. s\<lparr>motionMode := mode\<rparr>)) (\<lambda>_.
     bnd (modify (\<lambda>s. s\<lparr>motionTolerance := FROM_PROG_LEN s tolerance\<rparr>)) (\<lambda>_.
     bnd get_world (\<lambda>s.
     bnd (case mode of
            CANON_CONTINUOUS \<Rightarrow>
              bnd (TO_EXT_LEN env (motionTolerance s)) (\<lambda>tol.
              ret \<lparr>tc_blend = True, tc_tolerance = Some tol\<rparr>)
          | _ \<Rightarrow> ret \<lparr>tc_blend = False, tc_tolerance = None\<rparr>) (\<lambda>m.
     interp_list_append (EMC_TRAJ_SET_TERM_COND m))))))"



definition SET_SPINDLE_SPEED :: "emc_env \<Rightarrow> real \<Rightarrow> unit canon" where
  "SET_SPINDLE_SPEED env r =
     bnd (modify (\<lambda>s. s\<lparr>spindleSpeed := r\<rparr>)) (\<lambda>_.
     bnd (flush_segments env) (\<lambda>_.
     bnd get_world (\<lambda>s.
     if css_maximum s \<noteq> 0 then
       bnd (if lengthUnits s = CANON_UNITS_INCHES then
              modify (\<lambda>s. s\<lparr>css_numerator := 12 / (2 * pi) * spindleSpeed s\<rparr>)
            else
              modify (\<lambda>s. s\<lparr>css_numerator := 1000 / (2 * pi) * spindleSpeed s\<rparr>)) (\<lambda>_.
       bnd get_world (\<lambda>s1.
       bnd (TO_EXT_LEN env (px (programOrigin s1) + px (toolOffset s1))) (\<lambda>xo.
       interp_list_append (EMC_SPINDLE_SPEED
         \<lparr>sp_speed = css_maximum s1, sp_factor = Some (css_numerator s1),
          sp_xoffset = Some xo\<rparr>))))
     else
       bnd (modify (\<lambda>s. s\<lparr>css_numerator := 0\<rparr>)) (\<lambda>_.
       interp_list_append (EMC_SPINDLE_SPEED
         \<lparr>sp_speed = spindleSpeed s, sp_factor = None, sp_xoffset = None\<rparr>)))))"

definition USE_TOOL_LENGTH_OFFSET :: "emc_env \<Rightarrow> pose \<Rightarrow> unit canon" where
  "USE_TOOL_LENGTH_OFFSET env offset =
     bnd (flush_segments env) (\<lambda>_.
     bnd (modify (\<lambda>s. s\<lparr>toolOffset := from_prog s offset\<rparr>)) (\<lambda>_.
     bnd get_world (\<lambda>s.
     bnd (TO_EXT_LEN env (px (toolOffset s))) (\<lambda>ex.
     bnd (TO_EXT_LEN env (py (toolOffset s))) (\<lambda>ey.
     bnd (TO_EXT_LEN env (pz (toolOffset s))) (\<lambda>ez.
     bnd (TO_EXT_ANG env (pa (toolOffset s))) (\<lambda>ea.
     bnd (TO_EXT_ANG env (pb (toolOffset s))) (\<lambda>eb.
     bnd (TO_EXT_ANG env (pc (toolOffset s))) (\<lambda>ec.
     bnd (TO_EXT_LEN env (pu (toolOffset s))) (\<lambda>eu.
     bnd (TO_EXT_LEN env (pv (toolOffset s))) (\<lambda>ev.
     bnd (TO_EXT_LEN env (pw (toolOffset s))) (\<lambda>ew.
     bnd (if css_maximum s \<noteq> 0 then
            bnd (TO_EXT_LEN env (px (programOrigin s) + px (toolOffset s))) (\<lambda>xo.
            interp_list_append (EMC_SPINDLE_SPEED
              \<lparr>sp_speed = css_maximum s, sp_factor = Some (css_numerator s),
               sp_xoffset = Some xo\<rparr>))
          else ret ()) (\<lambda>_.
     interp_list_append (EMC_TRAJ_SET_OFFSET
       \<lparr>px = ex, py = ey, pz = ez, pa = ea, pb = eb, pc = ec,
        pu = eu, pv = ev, pw = ew\<rparr>))))))))))))))"

definition WAIT :: "emc_env \<Rightarrow> int \<Rightarrow> int \<Rightarrow> int \<Rightarrow> real \<Rightarrow> int canon" where
  "WAIT env index input_type wait_type timeout =
     (let proceed =
            bnd (flush_segments env) (\<lambda>_.
            bnd (interp_list_append (EMC_AUX_INPUT_WAIT
                   \<lparr>iw_index = index, iw_input_type = input_type, iw_wait_type = wait_type,
                    iw_timeout = timeout\<rparr>)) (\<lambda>_.
            ret 0))
      in if input_type = DIGITAL_INPUT env then
           (if index < 0 \<or> index \<ge> EMCMOT_MAX_DIO env then ret (- 1) else proceed)
         else if input_type = ANALOG_INPUT env then
           (if index < 0 \<or> index \<ge> EMCMOT_MAX_AIO env then ret (- 1) else proceed)
         else proceed)"

subsection \<open>Queries of the external status\<close>

definition GET_EXTERNAL_DIGITAL_INPUT :: "emc_env \<Rightarrow> int \<Rightarrow> int \<Rightarrow> int" where
  "GET_EXTERNAL_DIGITAL_INPUT env index def =
     (if index < 0 \<or> index \<ge> EMCMOT_MAX_DIO env then - 1
      else if input_timeout env = 1 then - 1
      else if synch_di env index \<noteq> 0 then 1 else 0)"

subsection \<open>Notions used in the statements\<close>

text \<open>
  \<open>frame R m\<close>: whenever the call \<open>m\<close> returns, the world before and the world
  after are related by \<open>R\<close>.
\<close>

definition frame :: "(world \<Rightarrow> world \<Rightarrow> bool) \<Rightarrow> 'a canon \<Rightarrow> bool" where
  "frame R m = (\<forall>s v s'. m s = Some (v, s') \<longrightarrow> R s s')"

text \<open>
  The two frames of the development: a call that may set the two move flags and append
  messages and changes nothing else, and a call that may also move the end point, change
  the segment buffer and set the line number of the interpreter list.
\<close>

definition only_flags_msgs :: "world \<Rightarrow> world \<Rightarrow> bool" where
  "only_flags_msgs s s' =
     (\<exists>cm am il. s' = s\<lparr>cartesian_move := cm, angular_move := am, interp_list := il\<rparr>)"

definition flush_frame :: "world \<Rightarrow> world \<Rightarrow> bool" where
  "flush_frame s s' =
     (\<exists>ep cp ln cm am il.
        s' = s\<lparr>endPoint := ep, chained_points := cp, interp_line := ln,
               cartesian_move := cm, angular_move := am, interp_list := il\<rparr>)"

text \<open>The values \<^verbatim>\<open>GET_EXTERNAL_LENGTH_UNITS\<close> and \<^verbatim>\<open>GET_EXTERNAL_ANGLE_UNITS\<close> return.\<close>

definition ext_len :: "emc_env \<Rightarrow> real" where
  "ext_len env = (if linearUnits env = 0 then 1 else linearUnits env)"

definition ext_ang :: "emc_env \<Rightarrow> real" where
  "ext_ang env = (if angularUnits env = 0 then 1 else angularUnits env)"

subsection \<open>The setup of the end-to-end scenarios\<close>

text \<open>
  Axis mask XYZ, every axis with maximal velocity 100, acceleration 1000 and jerk 10000,
  external units 1 (a millimetre machine), program units millimetres, origin and tool
  offset zero, no rotation, continuous mode with naive-cam tolerance 0.1, feed mode 0,
  an empty buffer and an empty interpreter list. The feed rates before the scenario are
  parameters. The constants of the absent headers have sample values: 64 digital and 16
  analog inputs, the codes 1 and 0 for the two input types.
\<close>

definition zero_pose :: pose where
  "zero_pose = \<lparr>px = 0, py = 0, pz = 0, pa = 0, pb = 0, pc = 0, pu = 0, pv = 0, pw = 0\<rparr>"

definition scenario_env :: emc_env where
  "scenario_env =
     \<lparr>axis_mask = 7, linearUnits = 1, angularUnits = 1, input_timeout = 0,
      synch_di = (\<lambda>_. 0),
      emcAxisGetMaxVelocity = (\<lambda>_. 100),
      emcAxisGetMaxAcceleration = (\<lambda>_. 1000),
      emcAxisGetMaxJerk = (\<lambda>_. 10000),
      EMCMOT_MAX_DIO = 64, EMCMOT_MAX_AIO = 16, DIGITAL_INPUT = 1, ANALOG_INPUT = 0,
      uninit_vel = 0\<rparr>"

definition scenario_world :: "real \<Rightarrow> real \<Rightarrow> world" where
  "scenario_world lfr afr =
     \<lparr>endPoint = zero_pose, programOrigin = zero_pose, toolOffset = zero_pose,
      xy_rotation = 0, lengthUnits = CANON_UNITS_MM, activePlane = CANON_PLANE_XY,
      motionMode = CANON_CONTINUOUS, motionTolerance = 0, naivecamTolerance = 1 / 10,
      feed_mode = 0, linearFeedRate = lfr, angularFeedRate = afr,
      spindleSpeed = 0, css_maximum = 0, css_numerator = 0,
      cartesian_move = False, angular_move = False, synched = False,
      block_delete = True, optional_program_stop = True,
      chained_points = [], interp_line = 0, interp_list = [],
      programUnits = CANON_UNITS_MM\<rparr>"

definition feed_target :: pose where
  "feed_target = \<lparr>px = 10, py = 0, pz = 0, pa = 0, pb = 0, pc = 0, pu = 0, pv = 0, pw = 0\<rparr>"

text \<open>Scenario 1: \<^verbatim>\<open>SET_FEED_RATE(600)\<close>, \<^verbatim>\<open>STRAIGHT_FEED(10, 10, 0, 0, ...)\<close>, a flush.\<close>

definition scenario_1 :: "unit canon" where
  "scenario_1 =
     bnd (SET_FEED_RATE scenario_env 600) (\<lambda>_.
     bnd (STRAIGHT_FEED scenario_env 10 feed_target) (\<lambda>_.
     FINISH scenario_env))"

subsection \<open>Notions of the specification and instances\<close>

text \<open>
  The distance of the specification, in its words: with \<open>B\<close> the end point, \<open>M\<close>
  the candidate minus \<open>B\<close> and \<open>t = \<langle>M, P - B\<rangle> / \<langle>M, M\<rangle>\<close> clamped to \<open>[0, 1]\<close>,
  \<open>D = |P - (B + t\<cdot>M)|\<close>.
\<close>

definition spec_distance :: "world \<Rightarrow> pose \<Rightarrow> pt \<Rightarrow> real" where
  "spec_distance s p P =
     (let bx = px (endPoint s); by = py (endPoint s); bz = pz (endPoint s);
          mx = px p - bx; my = py p - by; mz = pz p - bz;
          qx = px (pt_pose P); qy = py (pt_pose P); qz = pz (pt_pose P);
          t = (mx * (qx - bx) + my * (qy - by) + mz * (qz - bz)) / (mx * mx + my * my + mz * mz);
          tc = max 0 (min 1 t)
      in sqrt ((qx - (bx + tc * mx))\<^sup>2 + (qy - (by + tc * my))\<^sup>2 + (qz - (bz + tc * mz))\<^sup>2))"

text \<open>
  Linkability in the words of the specification, for a buffer that may be linked to
  while it holds fewer than \<open>bound\<close> points.
\<close>

definition linkable_spec :: "nat \<Rightarrow> world \<Rightarrow> pose \<Rightarrow> bool" where
  "linkable_spec bound s p =
     (motionMode s = CANON_CONTINUOUS \<and> naivecamTolerance s > 0
      \<and> length (chained_points s) < bound
      \<and> pa p = pa (pt_pose (last (chained_points s)))
      \<and> pb p = pb (pt_pose (last (chained_points s)))
      \<and> pc p = pc (pt_pose (last (chained_points s)))
      \<and> pu p = pu (pt_pose (last (chained_points s)))
      \<and> pv p = pv (pt_pose (last (chained_points s)))
      \<and> pw p = pw (pt_pose (last (chained_points s)))
      \<and> (px p, py p, pz p) \<noteq> (px (endPoint s), py (endPoint s), pz (endPoint s))
      \<and> (\<forall>P \<in> set (chained_points s). spec_distance s p P \<le> naivecamTolerance s))"

text \<open>
  The index check of \<^verbatim>\<open>WAIT\<close>: a digital input outside \<open>[0, EMCMOT_MAX_DIO)\<close> or an
  analog input outside \<open>[0, EMCMOT_MAX_AIO)\<close>.
\<close>

definition bad_index :: "emc_env \<Rightarrow> int \<Rightarrow> int \<Rightarrow> bool" where
  "bad_index env index input_type =
     (input_type = DIGITAL_INPUT env \<and> (index < 0 \<or> index \<ge> EMCMOT_MAX_DIO env)
      \<or> input_type = ANALOG_INPUT env \<and> (index < 0 \<or> index \<ge> EMCMOT_MAX_AIO env))"

text \<open>
  The same feed, to \<open>(1, 0, 0)\<close>, issued \<open>n\<close> times in the scenario setup, and the
  world it leads to while the buffer keeps growing.
\<close>

definition unit_x :: pose where
  "unit_x = \<lparr>px = 1, py = 0, pz = 0, pa = 0, pb = 0, pc = 0, pu = 0, pv = 0, pw = 0\<rparr>"

fun repeat_feed :: "nat \<Rightarrow> unit canon" where
  "repeat_feed 0 = ret ()"
| "repeat_feed (Suc n) = bnd (repeat_feed n) (\<lambda>_. STRAIGHT_FEED scenario_env 1 unit_x)"

definition unit_x_buffer :: "nat \<Rightarrow> world" where
  "unit_x_buffer n =
     (scenario_world 10 10)\<lparr>chained_points := replicate n \<lparr>pt_pose = unit_x, line_no = 1\<rparr>\<rparr>"

text \<open>The external pose: what \<^verbatim>\<open>to_ext_pose\<close> returns when it returns.\<close>

definition ext_pose :: "emc_env \<Rightarrow> pose \<Rightarrow> pose" where
  "ext_pose env p =
     \<lparr>px = px p * ext_len env, py = py p * ext_len env, pz = pz p * ext_len env,
      pa = pa p * ext_ang env, pb = pb p * ext_ang env, pc = pc p * ext_ang env,
      pu = pu p * ext_len env, pv = pv p * ext_len env, pw = pw p * ext_len env\<rparr>"

text \<open>
  A rigid tap in the scenario setup: one feed to \<open>(10, 0, 0)\<close> is waiting in the buffer
  and the tap goes to \<open>z = -5\<close>.
\<close>

definition tap_world :: world where
  "tap_world = (scenario_world 10 10)\<lparr>chained_points := [\<lparr>pt_pose = feed_target, line_no = 10\<rparr>]\<rparr>"

definition tap_point :: pose where
  "tap_point = \<lparr>px = 0, py = 0, pz = - 5, pa = 0, pb = 0, pc = 0, pu = 0, pv = 0, pw = 0\<rparr>"



text \<open>
  \<open>indep g m\<close>: the call \<open>m\<close> neither reads nor writes what the update \<open>g\<close> sets, so
  that running it after \<open>g\<close> is running it before \<open>g\<close>. \<open>set_frame\<close> installs a
  rotation, a length unit, a program origin and a spindle speed, the four values that
  \<^verbatim>\<open>flush_segments\<close> does not read. \<open>emptied\<close> and \<open>stays_empty\<close> are the two frames about
  the segment buffer: empty after the call, and empty after the call if it was before.
\<close>

definition indep :: "(world \<Rightarrow> world) \<Rightarrow> 'a canon \<Rightarrow> bool" where
  "indep g m = (\<forall>s. m (g s) = map_option (\<lambda>(v, s'). (v, g s')) (m s))"

definition set_frame :: "real \<Rightarrow> CANON_UNITS \<Rightarrow> pose \<Rightarrow> real \<Rightarrow> world \<Rightarrow> world" where
  "set_frame t un po sp s =
     s\<lparr>xy_rotation := t, lengthUnits := un, programOrigin := po, spindleSpeed := sp\<rparr>"

definition emptied :: "world \<Rightarrow> world \<Rightarrow> bool" where
  "emptied s s' = (chained_points s' = [])"

definition stays_empty :: "world \<Rightarrow> world \<Rightarrow> bool" where
  "stays_empty s s' = (chained_points s = [] \<longrightarrow> chained_points s' = [])"

subsection \<open>Further notions and instances\<close>

text \<open>
  The unit \<^verbatim>\<open>toExtVel\<close> multiplies by, according to the two move flags.
\<close>

definition ext_vel_unit :: "emc_env \<Rightarrow> world \<Rightarrow> real" where
  "ext_vel_unit env s =
     (if \<not> cartesian_move s \<and> angular_move s then ext_ang env else ext_len env)"

text \<open>
  The rigid tap once more, from an end point whose \<open>a, b, c, u, v, w\<close> are
  \<open>1, ..., 6\<close>: the feed to \<open>x = 10\<close> is waiting in the buffer and the tap goes to
  \<open>z = -5\<close>.
\<close>

definition rest_pose :: pose where
  "rest_pose = \<lparr>px = 0, py = 0, pz = 0, pa = 1, pb = 2, pc = 3, pu = 4, pv = 5, pw = 6\<rparr>"

definition tap_world_abc :: world where
  "tap_world_abc = (scenario_world 10 10)
     \<lparr>endPoint := rest_pose,
      chained_points := [\<lparr>pt_pose = rest_pose\<lparr>px := 10\<rparr>, line_no = 10\<rparr>]\<rparr>"

text \<open>
  The linear move that a flush emits for the feed waiting in \<open>tap_world\<close>. The
  constant-surface-speed setup with that feed waiting in the buffer. A machine whose
  external length unit is zero. The report of a zero length unit, as the unit query
  appends it on an empty buffer.
\<close>

definition feed_move :: "int \<times> msg" where
  "feed_move = (10, EMC_TRAJ_LINEAR_MOVE
       \<lparr>lm_feed_mode = 0, lm_end = feed_target, lm_vel = 10, lm_ini_maxvel = 10,
        lm_ini_maxjerk = 10000, lm_acc = 1000, lm_type = EMC_MOTION_TYPE_FEED\<rparr>)"



definition len_report :: "emc_env \<Rightarrow> world \<Rightarrow> (int \<times> msg) list" where
  "len_report env s =
     (if linearUnits env = 0
      then [(interp_line s, EMC_OPERATOR_ERROR ''external length units are zero'')] else [])"

subsection \<open>The offsets and the rotation in double arithmetic\<close>

text \<open>
  Everywhere else a \<^verbatim>\<open>double\<close> is read as a real number. For the round trip of
  \<^verbatim>\<open>rotate_and_offset_pos\<close> and \<^verbatim>\<open>unoffset_and_unrotate_pos\<close> the same source
  text is read a second time with the rounding of IEEE 754 binary64: \<open>fl\<close> rounds a
  real to the nearest number with a significand of 53 bits, ties to the even significand
  (the exponent range is not bounded, so there is neither overflow nor a subnormal range),
  and every \<^verbatim>\<open>+\<close>, \<^verbatim>\<open>-\<close>, \<^verbatim>\<open>*\<close> and \<^verbatim>\<open>/\<close> of the source is followed by
  \<open>fl\<close>, in the order in which C evaluates them. \<open>expo x\<close> is the binary
  exponent of a positive \<open>x\<close>, the \<open>e\<close> with \<open>2\<^sup>e \<le> x < 2\<^sup>e\<^sup>+\<^sup>1\<close>, found by
  halving and doubling; \<open>rne\<close> rounds to the nearest integer, ties to even; and
  \<open>ulp x\<close> is the distance of neighbouring doubles at \<open>x\<close>. \<^verbatim>\<open>M_PI\<close> is the double nearest to \<open>\<pi>\<close>. The
  functions \<^verbatim>\<open>cos\<close> and \<^verbatim>\<open>sin\<close> of the C library are parameters; \<open>exact_libm\<close>
  is the library that rounds the exact value. \<^verbatim>\<open>offset_x\<close>, ..., \<^verbatim>\<open>offset_w\<close> are
  one text nine times, \<open>offset_double\<close>, and so are \<^verbatim>\<open>unoffset_x\<close>, ...,
  \<^verbatim>\<open>unoffset_w\<close>, \<open>unoffset_double\<close>.
\<close>

function expo :: "real \<Rightarrow> int" where
  "expo x = (if x \<le> 0 then 0
             else if x < 1 then expo (2 * x) - 1
             else if 2 \<le> x then expo (x / 2) + 1
             else 0)"
  by pat_completeness auto
termination
proof (relation "measure (\<lambda>x. if x < 1 then nat \<lceil>1 / x\<rceil> else nat \<lfloor>x\<rfloor>)")
  show "wf (measure (\<lambda>x::real. if x < 1 then nat \<lceil>1 / x\<rceil> else nat \<lfloor>x\<rfloor>))"
    by simp
next
  fix x :: real
  assume a: "\<not> x \<le> 0" "x < 1"
  define y where "y = 1 / x"
  have y: "1 < y" using a by (simp add: y_def)
  have h: "1 / (2 * x) = y / 2" by (simp add: y_def)
  show "(2 * x, x) \<in> measure (\<lambda>x. if x < 1 then nat \<lceil>1 / x\<rceil> else nat \<lfloor>x\<rfloor>)"
  proof (cases "2 * x < 1")
    case True
    then have "2 < y" using a by (simp add: y_def field_simps)
    then have c: "2 \<le> \<lceil>y\<rceil>" by linarith
    have "(2::real) \<le> of_int \<lceil>y\<rceil>" using c by linarith
    then have "y / 2 \<le> of_int \<lceil>y\<rceil> - 1"
      using le_of_int_ceiling [of y] by linarith
    then have "y / 2 \<le> of_int (\<lceil>y\<rceil> - 1)" by simp
    then have "\<lceil>y / 2\<rceil> \<le> \<lceil>y\<rceil> - 1" by (rule ceiling_le)
    then have "nat \<lceil>y / 2\<rceil> < nat \<lceil>y\<rceil>" using c by simp
    then have "nat \<lceil>1 / (2 * x)\<rceil> < nat \<lceil>1 / x\<rceil>"
      unfolding h [symmetric] unfolding y_def .
    then show ?thesis using True a by simp
  next
    case False
    then have "\<lfloor>2 * x\<rfloor> = 1" using a by linarith
    moreover have "2 \<le> \<lceil>y\<rceil>" using y by linarith
    then have "2 \<le> \<lceil>1 / x\<rceil>" unfolding y_def .
    ultimately show ?thesis using False a by simp
  qed
next
  fix x :: real
  assume a: "\<not> x \<le> 0" "\<not> x < 1" "2 \<le> x"
  have "\<lfloor>x / 2\<rfloor> < \<lfloor>x\<rfloor>" using a by linarith
  moreover have "0 < \<lfloor>x\<rfloor>" using a by linarith
  ultimately show "(x / 2, x) \<in> measure (\<lambda>x. if x < 1 then nat \<lceil>1 / x\<rceil> else nat \<lfloor>x\<rfloor>)"
    using a by simp
qed

declare expo.simps [simp del]

definition rne :: "real \<Rightarrow> int" where
  "rne x = (let f = \<lfloor>x\<rfloor>; d = x - of_int f
            in if d < 1 / 2 then f else if 1 / 2 < d then f + 1
               else if even f then f else f + 1)"

definition fl :: "real \<Rightarrow> real" where
  "fl x = (if x = 0 then 0
           else let e = expo \<bar>x\<bar>
                in of_int (rne (x / 2 powi (e - 52))) * 2 powi (e - 52))"

definition ulp :: "real \<Rightarrow> real" where
  "ulp x = 2 powi (expo \<bar>x\<bar> - 52)"

record libm =
  libm_cos :: "real \<Rightarrow> real"
  libm_sin :: "real \<Rightarrow> real"

definition M_PI :: real where
  "M_PI = 884279719003555 / 2 ^ 48"

definition offset_double :: "real \<Rightarrow> real \<Rightarrow> real \<Rightarrow> real" where
  "offset_double v origin tool = fl (fl (v + origin) + tool)"

definition unoffset_double :: "real \<Rightarrow> real \<Rightarrow> real \<Rightarrow> real" where
  "unoffset_double v origin tool = fl (fl (v - origin) - tool)"

definition offset_pos_double :: "world \<Rightarrow> pose \<Rightarrow> pose" where
  "offset_pos_double s p =
     \<lparr>px = offset_double (px p) (px (programOrigin s)) (px (toolOffset s)),
      py = offset_double (py p) (py (programOrigin s)) (py (toolOffset s)),
      pz = offset_double (pz p) (pz (programOrigin s)) (pz (toolOffset s)),
      pa = offset_double (pa p) (pa (programOrigin s)) (pa (toolOffset s)),
      pb = offset_double (pb p) (pb (programOrigin s)) (pb (toolOffset s)),
      pc = offset_double (pc p) (pc (programOrigin s)) (pc (toolOffset s)),
      pu = offset_double (pu p) (pu (programOrigin s)) (pu (toolOffset s)),
      pv = offset_double (pv p) (pv (programOrigin s)) (pv (toolOffset s)),
      pw = offset_double (pw p) (pw (programOrigin s)) (pw (toolOffset s))\<rparr>"

definition unoffset_pos_double :: "world \<Rightarrow> pose \<Rightarrow> pose" where
  "unoffset_pos_double s p =
     \<lparr>px = unoffset_double (px p) (px (programOrigin s)) (px (toolOffset s)),
      py = unoffset_double (py p) (py (programOrigin s)) (py (toolOffset s)),
      pz = unoffset_double (pz p) (pz (programOrigin s)) (pz (toolOffset s)),
      pa = unoffset_double (pa p) (pa (programOrigin s)) (pa (toolOffset s)),
      pb = unoffset_double (pb p) (pb (programOrigin s)) (pb (toolOffset s)),
      pc = unoffset_double (pc p) (pc (programOrigin s)) (pc (toolOffset s)),
      pu = unoffset_double (pu p) (pu (programOrigin s)) (pu (toolOffset s)),
      pv = unoffset_double (pv p) (pv (programOrigin s)) (pv (toolOffset s)),
      pw = unoffset_double (pw p) (pw (programOrigin s)) (pw (toolOffset s))\<rparr>"

definition D2R_double :: "real \<Rightarrow> real" where
  "D2R_double r = fl (fl (r * M_PI) / 180)"

definition rotate_double :: "libm \<Rightarrow> pose \<Rightarrow> real \<Rightarrow> pose" where
  "rotate_double lm p theta =
     (let t = D2R_double theta; xx = px p; yy = py p
      in p\<lparr>px := fl (fl (xx * libm_cos lm t) - fl (yy * libm_sin lm t)),
            py := fl (fl (xx * libm_sin lm t) + fl (yy * libm_cos lm t))\<rparr>)"

definition rotate_and_offset_pos_double :: "libm \<Rightarrow> world \<Rightarrow> pose \<Rightarrow> pose" where
  "rotate_and_offset_pos_double lm s p = offset_pos_double s (rotate_double lm p (xy_rotation s))"

definition unoffset_and_unrotate_pos_double :: "libm \<Rightarrow> world \<Rightarrow> pose \<Rightarrow> pose" where
  "unoffset_and_unrotate_pos_double lm s pos =
     rotate_double lm (unoffset_pos_double s pos) (- xy_rotation s)"

definition exact_libm :: libm where
  "exact_libm = \<lparr>libm_cos = (\<lambda>t. fl (cos t)), libm_sin = (\<lambda>t. fl (sin t))\<rparr>"

text \<open>
  A round trip in double arithmetic: no rotation, \<open>programOrigin.x = 1000\<close>, and the
  pose whose \<open>x\<close> is \<open>tenth\<close>, the double nearest to \<open>0.1\<close>. \<open>shifted\<close> is
  the double nearest to \<open>tenth + 1000\<close> and \<open>returned\<close> is \<open>shifted - 1000\<close>.
\<close>

definition origin_world :: world where
  "origin_world = (scenario_world 10 10)\<lparr>programOrigin := zero_pose\<lparr>px := 1000\<rparr>\<rparr>"

definition tenth :: real where
  "tenth = 3602879701896397 / 2 ^ 55"

definition shifted :: real where
  "shifted = 8796972631510221 / 2 ^ 43"

definition returned :: real where
  "returned = 7205759403794432 / 2 ^ 56"

section \<open>Properties\<close>

subsection \<open>Rules for calls\<close>

named_theorems canon_simps

lemma ret_apply [canon_simps]: "ret v s = Some (v, s)"
  by (simp add: ret_def)
lemma get_world_apply [canon_simps]: "get_world s = Some (s, s)"
  by (simp add: get_world_def)
lemma modify_apply [canon_simps]: "modify g s = Some ((), g s)"
  by (simp add: modify_def)
lemma assert_apply [canon_simps]: "assert b s = (if b then Some ((), s) else None)"
  by (simp add: assert_def)
lemma bnd_apply [canon_simps]: "bnd m f s = (case m s of None \<Rightarrow> None | Some (v, s') \<Rightarrow> f v s')"
  by (simp add: bnd_def)
lemma bnd_ret [canon_simps]: "bnd (ret v) f = f v"
  by (simp add: bnd_def ret_def)
lemma bnd_get_apply [canon_simps]: "bnd get_world f s = f s s"
  by (simp add: bnd_def get_world_def)
lemma bnd_modify_apply [canon_simps]: "bnd (modify g) f s = f () (g s)"
  by (simp add: bnd_def modify_def)
lemma bnd_SomeE:
  assumes "bnd m f s = Some (r, s')"
  obtains v s1 where "m s = Some (v, s1)" and "f v s1 = Some (r, s')"
  using assms by (auto simp: bnd_def split: option.splits)

lemma frameD: "frame R m \<Longrightarrow> m s = Some (v, s') \<Longrightarrow> R s s'"
  by (auto simp: frame_def)

lemma frame_ret: "reflp R \<Longrightarrow> frame R (ret v)"
  by (auto simp: frame_def ret_def reflp_def)
lemma frame_get: "reflp R \<Longrightarrow> frame R get_world"
  by (auto simp: frame_def get_world_def reflp_def)
lemma frame_assert: "reflp R \<Longrightarrow> frame R (assert b)"
  by (auto simp: frame_def assert_def reflp_def split: if_splits)
lemma frame_fail: "frame R (\<lambda>_. None)"
  by (auto simp: frame_def)
lemma frame_bnd: "transp R \<Longrightarrow> frame R m \<Longrightarrow> (\<And>v. frame R (f v)) \<Longrightarrow> frame R (bnd m f)"
  unfolding frame_def by (metis bnd_SomeE transpD)
lemma frame_if: "frame R a \<Longrightarrow> frame R b \<Longrightarrow> frame R (if c then a else b)"
  by simp
lemma frame_modify: "(\<And>s. R s (g s)) \<Longrightarrow> frame R (modify g)"
  by (auto simp: frame_def modify_def)
lemma frame_mono: "frame R m \<Longrightarrow> (\<And>s s'. R s s' \<Longrightarrow> R' s s') \<Longrightarrow> frame R' m"
  by (auto simp: frame_def)


lemma only_flags_msgs_refl: "only_flags_msgs s s"
  unfolding only_flags_msgs_def
  by (rule exI [of _ "cartesian_move s"], rule exI [of _ "angular_move s"],
      rule exI [of _ "interp_list s"]) simp

lemma only_flags_msgs_trans: "only_flags_msgs s s1 \<Longrightarrow> only_flags_msgs s1 s2 \<Longrightarrow> only_flags_msgs s s2"
  unfolding only_flags_msgs_def by (clarsimp, intro exI, rule refl)

lemma flush_frame_refl: "flush_frame s s"
  unfolding flush_frame_def
  by (rule exI [of _ "endPoint s"], rule exI [of _ "chained_points s"],
      rule exI [of _ "interp_line s"], rule exI [of _ "cartesian_move s"],
      rule exI [of _ "angular_move s"], rule exI [of _ "interp_list s"]) simp

lemma flush_frame_trans: "flush_frame s s1 \<Longrightarrow> flush_frame s1 s2 \<Longrightarrow> flush_frame s s2"
  unfolding flush_frame_def by (clarsimp, intro exI, rule refl)

lemma only_flags_msgs_flush_frame: "only_flags_msgs s s' \<Longrightarrow> flush_frame s s'"
  unfolding flush_frame_def only_flags_msgs_def
  apply clarify
  subgoal for cm am il
    by (rule exI [of _ "endPoint s"], rule exI [of _ "chained_points s"],
      rule exI [of _ "interp_line s"], rule exI [of _ cm],
      rule exI [of _ am], rule exI [of _ il]) simp
  done

lemma reflp_ofm: "reflp only_flags_msgs"
  by (simp add: reflp_def only_flags_msgs_refl)
lemma transp_ofm: "transp only_flags_msgs"
  by (auto simp: transp_def intro: only_flags_msgs_trans)
lemma reflp_ff: "reflp flush_frame"
  by (simp add: reflp_def flush_frame_refl)
lemma transp_ff: "transp flush_frame"
  by (auto simp: transp_def intro: flush_frame_trans)

lemmas frame_ofm_intros =
  frame_bnd [OF transp_ofm] frame_ret [OF reflp_ofm] frame_get [OF reflp_ofm]
  frame_assert [OF reflp_ofm] frame_if frame_fail

lemma frame_append_ofm: "frame only_flags_msgs (interp_list_append m)"
  unfolding interp_list_append_def
  apply (rule frame_modify)
  subgoal for s
    unfolding only_flags_msgs_def
    by (rule exI [of _ "cartesian_move s"], rule exI [of _ "angular_move s"],
      rule exI [of _ "interp_list s @ [(interp_line s, m)]"]) simp
  done

lemma frame_CANON_ERROR_zero_units: "frame only_flags_msgs (CANON_ERROR_zero_units txt)"
  unfolding CANON_ERROR_zero_units_def
  by (intro frame_ofm_intros frame_append_ofm)

lemma frame_GET_EXTERNAL_LENGTH_UNITS: "frame only_flags_msgs (GET_EXTERNAL_LENGTH_UNITS env)"
  unfolding GET_EXTERNAL_LENGTH_UNITS_def Let_def
  by (intro frame_ofm_intros frame_CANON_ERROR_zero_units)

lemma frame_GET_EXTERNAL_ANGLE_UNITS: "frame only_flags_msgs (GET_EXTERNAL_ANGLE_UNITS env)"
  unfolding GET_EXTERNAL_ANGLE_UNITS_def Let_def
  by (intro frame_ofm_intros frame_CANON_ERROR_zero_units)

lemma frame_TO_EXT_LEN: "frame only_flags_msgs (TO_EXT_LEN env v)"
  unfolding TO_EXT_LEN_def by (intro frame_ofm_intros frame_GET_EXTERNAL_LENGTH_UNITS)
lemma frame_TO_EXT_ANG: "frame only_flags_msgs (TO_EXT_ANG env v)"
  unfolding TO_EXT_ANG_def by (intro frame_ofm_intros frame_GET_EXTERNAL_ANGLE_UNITS)
lemma frame_FROM_EXT_LEN: "frame only_flags_msgs (FROM_EXT_LEN env v)"
  unfolding FROM_EXT_LEN_def by (intro frame_ofm_intros frame_GET_EXTERNAL_LENGTH_UNITS)
lemma frame_FROM_EXT_ANG: "frame only_flags_msgs (FROM_EXT_ANG env v)"
  unfolding FROM_EXT_ANG_def by (intro frame_ofm_intros frame_GET_EXTERNAL_ANGLE_UNITS)

lemmas frame_units = frame_TO_EXT_LEN frame_TO_EXT_ANG frame_FROM_EXT_LEN frame_FROM_EXT_ANG

lemma frame_toExtVel: "frame only_flags_msgs (toExtVel env v)"
  unfolding toExtVel_def by (intro frame_ofm_intros frame_units)

lemma frame_to_ext_pose: "frame only_flags_msgs (to_ext_pose env p)"
  unfolding to_ext_pose_def by (intro frame_ofm_intros frame_units)

lemma frame_flag_cm: "frame only_flags_msgs (modify (\<lambda>s. s\<lparr>cartesian_move := b\<rparr>))"
  apply (rule frame_modify)
  subgoal for s
    unfolding only_flags_msgs_def
    by (rule exI [of _ b], rule exI [of _ "angular_move s"], rule exI [of _ "interp_list s"]) simp
  done

lemma frame_flag_am: "frame only_flags_msgs (modify (\<lambda>s. s\<lparr>angular_move := b\<rparr>))"
  apply (rule frame_modify)
  subgoal for s
    unfolding only_flags_msgs_def
    by (rule exI [of _ "cartesian_move s"], rule exI [of _ b], rule exI [of _ "interp_list s"]) simp
  done

lemma frame_straight_limit: "frame only_flags_msgs (straight_limit env lmt nowhere p)"
  unfolding straight_limit_def Let_def
  by (intro frame_ofm_intros frame_units frame_flag_cm frame_flag_am)

lemma frame_getStraightVelocity: "frame only_flags_msgs (getStraightVelocity env p)"
  unfolding getStraightVelocity_def by (intro frame_ofm_intros frame_straight_limit)
lemma frame_getStraightAcceleration: "frame only_flags_msgs (getStraightAcceleration env p)"
  unfolding getStraightAcceleration_def by (intro frame_ofm_intros frame_straight_limit)
lemma frame_getStraightJerk: "frame only_flags_msgs (getStraightJerk env p)"
  unfolding getStraightJerk_def by (intro frame_ofm_intros frame_straight_limit)



lemma frame_bnd_post: "(\<And>v. frame (\<lambda>_. Q) (f v)) \<Longrightarrow> frame (\<lambda>_. Q) (bnd m f)"
  unfolding frame_def by (metis bnd_SomeE)

lemma flush_segments_empty: "chained_points s = [] \<Longrightarrow> flush_segments env s = Some ((), s)"
  by (simp add: flush_segments_def canon_simps)

lemma flush_segments_nonempty:
  "chained_points s \<noteq> [] \<Longrightarrow> flush_segments env s = flush_last env (last (chained_points s)) s"
  by (simp add: flush_segments_def canon_simps)

lemma flush_last_clears: "frame (\<lambda>_ s'. chained_points s' = []) (flush_last env pos)"
  unfolding flush_last_def Let_def
  by (intro frame_bnd_post frame_modify) simp

lemma flush_segments_clears:
  assumes "flush_segments env s = Some (v, s')"
  shows "chained_points s' = []"
proof (cases "chained_points s = []")
  case True
  with assms show ?thesis by (simp add: flush_segments_empty)
next
  case False
  with assms have "flush_last env (last (chained_points s)) s = Some (v, s')"
    by (simp add: flush_segments_nonempty)
  then show ?thesis
    using flush_last_clears by (rule frameD [rotated])
qed

lemmas frame_ff_intros =
  frame_bnd [OF transp_ff] frame_ret [OF reflp_ff] frame_get [OF reflp_ff]
  frame_assert [OF reflp_ff] frame_if frame_fail

lemmas frame_ff_prims =
  frame_units [THEN frame_mono, OF only_flags_msgs_flush_frame]
  frame_toExtVel [THEN frame_mono, OF only_flags_msgs_flush_frame]
  frame_to_ext_pose [THEN frame_mono, OF only_flags_msgs_flush_frame]
  frame_getStraightVelocity [THEN frame_mono, OF only_flags_msgs_flush_frame]
  frame_getStraightAcceleration [THEN frame_mono, OF only_flags_msgs_flush_frame]
  frame_getStraightJerk [THEN frame_mono, OF only_flags_msgs_flush_frame]
  frame_append_ofm [THEN frame_mono, OF only_flags_msgs_flush_frame]

lemma frame_set_line_ff: "frame flush_frame (interp_list_set_line_number n)"
  unfolding interp_list_set_line_number_def
  apply (rule frame_modify)
  subgoal for s
    unfolding flush_frame_def
    by (rule exI [of _ "endPoint s"], rule exI [of _ "chained_points s"],
      rule exI [of _ n], rule exI [of _ "cartesian_move s"],
      rule exI [of _ "angular_move s"], rule exI [of _ "interp_list s"]) simp
  done

lemma frame_update_endpoint_ff: "frame flush_frame (canonUpdateEndPoint p)"
  unfolding canonUpdateEndPoint_def
  apply (rule frame_modify)
  subgoal for s
    unfolding flush_frame_def
    by (rule exI [of _ p], rule exI [of _ "chained_points s"],
      rule exI [of _ "interp_line s"], rule exI [of _ "cartesian_move s"],
      rule exI [of _ "angular_move s"], rule exI [of _ "interp_list s"]) simp
  done

lemma frame_clear_ff: "frame flush_frame (modify (\<lambda>s. s\<lparr>chained_points := cp\<rparr>))"
  apply (rule frame_modify)
  subgoal for s
    unfolding flush_frame_def
    by (rule exI [of _ "endPoint s"], rule exI [of _ cp],
      rule exI [of _ "interp_line s"], rule exI [of _ "cartesian_move s"],
      rule exI [of _ "angular_move s"], rule exI [of _ "interp_list s"]) simp
  done

lemma frame_flush_last: "frame flush_frame (flush_last env pos)"
  unfolding flush_last_def Let_def toExtAcc_def
  by (intro frame_ff_intros frame_ff_prims frame_set_line_ff frame_update_endpoint_ff
      frame_clear_ff)

lemma frame_flush_segments: "frame flush_frame (flush_segments env)"
  unfolding flush_segments_def
  by (intro frame_ff_intros frame_flush_last)

subsection \<open>The round trip of rotation and offsets\<close>

lemma rotate_back: "rotate (rotate p theta) (- theta) = p"
proof -
  define co where "co = cos (D2R theta)"
  define si where "si = sin (D2R theta)"
  have sq: "co * co + si * si = 1"
    unfolding co_def si_def by simp
  have neg: "D2R (- theta) = - D2R theta"
    by (simp add: D2R_def)
  have "(px p * co - py p * si) * co + (px p * si + py p * co) * si
          = px p * (co * co + si * si)"
    by (simp only: algebra_simps)
  then have x: "(px p * co - py p * si) * co + (px p * si + py p * co) * si = px p"
    by (simp only: sq mult_1_right)
  have "(px p * si + py p * co) * co - (px p * co - py p * si) * si
          = py p * (co * co + si * si)"
    by (simp only: algebra_simps)
  then have y: "(px p * si + py p * co) * co - (px p * co - py p * si) * si = py p"
    by (simp only: sq mult_1_right)
  show ?thesis
    unfolding rotate_def Let_def neg
    by (simp add: x [unfolded co_def si_def] y [unfolded co_def si_def])
qed

lemma unoffset_offset: "unoffset_pos s (offset_pos s p) = p"
  by (simp add: unoffset_pos_def offset_pos_def)

text \<open>Rounding to the nearest double, and the doubles of the round trip below.\<close>

lemma expo_eq:
  assumes "2 powi e \<le> x" and "x < 2 powi (e + 1)"
  shows "expo x = e"
  using assms
proof (induction x arbitrary: e rule: expo.induct)
  case (1 x)
  have pos: "0 < x"
    using "1.prems"(1) by (smt (verit) zero_less_power_int)
  have up: "(2::real) powi (k + 1) = 2 * 2 powi k" for k
    by (simp add: power_int_add_1')
  show ?case
  proof (cases "x < 1")
    case True
    have "2 powi (e + 1) \<le> 2 * x" "2 * x < 2 powi (e + 1 + 1)"
      using "1.prems" unfolding up by simp_all
    then have "expo (2 * x) = e + 1"
      using "1.IH"(1) pos True by simp
    then show ?thesis
      using pos True by (subst expo.simps) simp
  next
    case False
    show ?thesis
    proof (cases "2 \<le> x")
      case True
      have "(2::real) powi e = 2 * 2 powi (e - 1)"
        using up [of "e - 1"] by simp
      then have "2 powi (e - 1) \<le> x / 2" "x / 2 < 2 powi (e - 1 + 1)"
        using "1.prems" unfolding up by simp_all
      then have "expo (x / 2) = e - 1"
        using "1.IH"(2) pos False True by simp
      then show ?thesis
        using pos False True by (subst expo.simps) simp
    next
      case small: False
      have "\<not> e < 0"
      proof
        assume "e < 0"
        then have "(2::real) powi (e + 1) \<le> 2 powi 0"
          by (intro power_int_increasing) simp_all
        with "1.prems"(2) False show False by simp
      qed
      moreover have "\<not> 0 < e"
      proof
        assume "0 < e"
        then have "(2::real) powi 1 \<le> 2 powi e"
          by (intro power_int_increasing) simp_all
        with "1.prems"(1) small show False by simp
      qed
      ultimately have "e = 0" by simp
      then show ?thesis
        using pos False small by (subst expo.simps) simp
    qed
  qed
qed

lemma rne_near:
  assumes "\<bar>x - of_int k\<bar> < 1 / 2"
  shows "rne x = k"
proof -
  have "\<lfloor>x\<rfloor> = k \<or> \<lfloor>x\<rfloor> = k - 1"
    using assms by linarith
  then show ?thesis
  proof
    assume f: "\<lfloor>x\<rfloor> = k"
    then have "x - of_int k < 1 / 2" using assms by linarith
    with f show ?thesis by (simp add: rne_def Let_def)
  next
    assume f: "\<lfloor>x\<rfloor> = k - 1"
    then have "x < of_int k" by linarith
    then have "1 / 2 < x - of_int (k - 1)" using assms by simp
    with f show ?thesis by (simp add: rne_def Let_def)
  qed
qed

lemma rne_of_int: "rne (of_int k) = k"
  by (rule rne_near) simp

lemma fl_normal:
  assumes "2 powi e \<le> \<bar>x\<bar>" and "\<bar>x\<bar> < 2 powi (e + 1)"
  shows "fl x = of_int (rne (x / 2 powi (e - 52))) * 2 powi (e - 52)"
proof -
  have "x \<noteq> 0" using assms(1) by (smt (verit) zero_less_power_int)
  then show ?thesis
    by (simp add: fl_def Let_def expo_eq [OF assms])
qed

lemma fl_round:
  assumes "2 powi e \<le> \<bar>x\<bar>" and "\<bar>x\<bar> < 2 powi (e + 1)"
    and "\<bar>x / 2 powi (e - 52) - of_int k\<bar> < 1 / 2"
  shows "fl x = of_int k * 2 powi (e - 52)"
  by (simp add: fl_normal [OF assms(1,2)] rne_near [OF assms(3)])

lemma fl_exact:
  assumes "x = of_int m * 2 powi (e - 52)" and "2 powi e \<le> \<bar>x\<bar>" and "\<bar>x\<bar> < 2 powi (e + 1)"
  shows "fl x = x"
proof -
  have q: "x / 2 powi (e - 52) = of_int m"
    by (simp add: assms(1))
  have "fl x = of_int (rne (x / 2 powi (e - 52))) * 2 powi (e - 52)"
    using assms(2,3) by (rule fl_normal)
  also have "\<dots> = of_int m * 2 powi (e - 52)"
    unfolding q rne_of_int ..
  finally show ?thesis
    unfolding assms(1) [symmetric] .
qed

lemma fl_zero: "fl 0 = 0"
  by (simp add: fl_def)

lemma fl_one: "fl 1 = 1"
  using fl_exact [of 1 "2 ^ 52" 0] by (simp add: power_int_minus)

lemma fl_tenth: "fl tenth = tenth"
  using fl_exact [of tenth 7205759403792794 "- 4"]
  by (simp add: tenth_def power_int_minus)

lemma fl_thousand: "fl 1000 = 1000"
  using fl_exact [of 1000 "1000 * 2 ^ 43" 9]
  by (simp add: power_int_minus)

lemma fl_sum: "fl (tenth + 1000) = shifted"
  using fl_round [of 9 "tenth + 1000" 8796972631510221]
  by (simp add: tenth_def shifted_def power_int_minus)

lemma fl_shifted: "fl shifted = shifted"
  using fl_exact [of shifted 8796972631510221 9]
  by (simp add: shifted_def power_int_minus)

lemma fl_difference: "fl (shifted - 1000) = returned"
  using fl_exact [of returned 7205759403794432 "- 4"]
  by (simp add: shifted_def returned_def power_int_minus)

lemma fl_returned: "fl returned = returned"
  using fl_exact [of returned 7205759403794432 "- 4"]
  by (simp add: returned_def power_int_minus)

lemma ulp_tenth: "ulp tenth = 1 / 2 ^ 56"
proof -
  have "expo \<bar>tenth\<bar> = - 4"
    by (rule expo_eq) (simp_all add: tenth_def power_int_minus)
  then show ?thesis
    by (simp add: ulp_def power_int_minus field_simps)
qed

lemma rotate_double_zero:
  assumes "fl x = x"
  shows "rotate_double exact_libm (zero_pose\<lparr>px := x\<rparr>) 0 = zero_pose\<lparr>px := x\<rparr>"
    and "rotate_double exact_libm (zero_pose\<lparr>px := x\<rparr>) (- 0) = zero_pose\<lparr>px := x\<rparr>"
  by (simp_all add: rotate_double_def D2R_double_def exact_libm_def fl_zero fl_one assms
      zero_pose_def Let_def)

lemma offset_tenth:
  "offset_pos_double origin_world (zero_pose\<lparr>px := tenth\<rparr>)
   = zero_pose\<lparr>px := shifted\<rparr>"
  by (simp add: offset_pos_double_def offset_double_def origin_world_def scenario_world_def
      zero_pose_def fl_zero fl_sum fl_shifted)

lemma unoffset_sum:
  "unoffset_pos_double origin_world (zero_pose\<lparr>px := shifted\<rparr>)
   = zero_pose\<lparr>px := returned\<rparr>"
  by (simp add: unoffset_pos_double_def unoffset_double_def origin_world_def scenario_world_def
      zero_pose_def fl_zero fl_difference fl_returned)

lemma fl_half: "fl (1 / 2) = 1 / 2"
  using fl_exact [of "1 / 2" "2 ^ 52" "- 1"] by (simp add: power_int_minus)

lemma fl_2001_half: "fl (2001 / 2) = 2001 / 2"
  using fl_exact [of "2001 / 2" "2001 * 2 ^ 42" 9] by (simp add: power_int_minus)

lemma round_trip_half_double:
  "rotate_and_offset_pos_double exact_libm origin_world (zero_pose\<lparr>px := 1 / 2\<rparr>)
     = zero_pose\<lparr>px := 2001 / 2\<rparr>"
  "unoffset_and_unrotate_pos_double exact_libm origin_world (zero_pose\<lparr>px := 2001 / 2\<rparr>)
     = zero_pose\<lparr>px := 1 / 2\<rparr>"
proof -
  have w: "xy_rotation origin_world = 0"
    by (simp add: origin_world_def scenario_world_def)
  have o: "offset_pos_double origin_world (zero_pose\<lparr>px := 1 / 2\<rparr>) = zero_pose\<lparr>px := 2001 / 2\<rparr>"
    by (simp add: offset_pos_double_def offset_double_def origin_world_def scenario_world_def
        zero_pose_def fl_zero fl_2001_half)
  have u: "unoffset_pos_double origin_world (zero_pose\<lparr>px := 2001 / 2\<rparr>) = zero_pose\<lparr>px := 1 / 2\<rparr>"
    by (simp add: unoffset_pos_double_def unoffset_double_def origin_world_def scenario_world_def
        zero_pose_def fl_zero fl_half)
  show "rotate_and_offset_pos_double exact_libm origin_world (zero_pose\<lparr>px := 1 / 2\<rparr>)
     = zero_pose\<lparr>px := 2001 / 2\<rparr>"
    unfolding rotate_and_offset_pos_double_def w rotate_double_zero(1) [OF fl_half] o ..
  show "unoffset_and_unrotate_pos_double exact_libm origin_world (zero_pose\<lparr>px := 2001 / 2\<rparr>)
     = zero_pose\<lparr>px := 1 / 2\<rparr>"
    unfolding unoffset_and_unrotate_pos_double_def w u
    using rotate_double_zero(2) [OF fl_half] by simp
qed

text \<open>
  C5, as amended. Rotating a pose by \<open>xy_rotation\<close> and adding
  \<open>programOrigin + toolOffset\<close> on all nine coordinates, then subtracting the offsets
  and rotating back, returns the pose exactly over the reals, for every pose, rotation and
  offsets.
\<close>

theorem rotation_round_trip:
  "unoffset_and_unrotate_pos s (rotate_and_offset_pos s p) = p"
  by (simp add: unoffset_and_unrotate_pos_def rotate_and_offset_pos_def unoffset_offset
      rotate_back)

theorem rotation_round_trip_witness:
  "rotate_and_offset_pos origin_world (zero_pose\<lparr>px := 1 / 2\<rparr>) = zero_pose\<lparr>px := 2001 / 2\<rparr>
   \<and> unoffset_and_unrotate_pos origin_world (zero_pose\<lparr>px := 2001 / 2\<rparr>)
       = zero_pose\<lparr>px := 1 / 2\<rparr>
   \<and> rotate_and_offset_pos_double exact_libm origin_world (zero_pose\<lparr>px := 1 / 2\<rparr>)
       = zero_pose\<lparr>px := 2001 / 2\<rparr>
   \<and> unoffset_and_unrotate_pos_double exact_libm origin_world (zero_pose\<lparr>px := 2001 / 2\<rparr>)
       = zero_pose\<lparr>px := 1 / 2\<rparr>"
proof -
  have r: "rotate_and_offset_pos origin_world (zero_pose\<lparr>px := 1 / 2\<rparr>)
           = zero_pose\<lparr>px := 2001 / 2\<rparr>"
    by (simp add: rotate_and_offset_pos_def rotate_def offset_pos_def D2R_def origin_world_def
        scenario_world_def zero_pose_def Let_def)
  show ?thesis
    using rotation_round_trip [of origin_world "zero_pose\<lparr>px := 1 / 2\<rparr>"]
    by (simp add: r round_trip_half_double)
qed

text \<open>
  C5 as stated fails in its floating-point half: in double arithmetic, without any
  rotation and with \<open>programOrigin.x = 1000\<close>, the round trip of the pose whose
  \<open>x\<close> is the double nearest to \<open>0.1\<close> returns a double that is 1638 units in the
  last place away from it, where the round trip over the reals is exact.
\<close>

theorem round_trip_double_off_by_1638_ulp:
  "fl tenth = tenth \<and> fl 1000 = 1000
   \<and> xy_rotation origin_world = 0
   \<and> programOrigin origin_world = zero_pose\<lparr>px := 1000\<rparr>
   \<and> toolOffset origin_world = zero_pose
   \<and> unoffset_and_unrotate_pos_double exact_libm origin_world
        (rotate_and_offset_pos_double exact_libm origin_world (zero_pose\<lparr>px := tenth\<rparr>))
      = zero_pose\<lparr>px := returned\<rparr>
   \<and> \<bar>returned - tenth\<bar> = 1638 * ulp tenth
   \<and> unoffset_and_unrotate_pos origin_world
        (rotate_and_offset_pos origin_world (zero_pose\<lparr>px := tenth\<rparr>))
      = zero_pose\<lparr>px := tenth\<rparr>"
proof -
  have w: "xy_rotation origin_world = 0" "programOrigin origin_world = zero_pose\<lparr>px := 1000\<rparr>"
    "toolOffset origin_world = zero_pose"
    by (simp_all add: origin_world_def scenario_world_def)
  have rt: "unoffset_and_unrotate_pos_double exact_libm origin_world
        (rotate_and_offset_pos_double exact_libm origin_world (zero_pose\<lparr>px := tenth\<rparr>))
      = zero_pose\<lparr>px := returned\<rparr>"
    unfolding rotate_and_offset_pos_double_def unoffset_and_unrotate_pos_double_def w
      rotate_double_zero(1) [OF fl_tenth] offset_tenth unoffset_sum
    using rotate_double_zero(2) [OF fl_returned] by simp
  have d: "\<bar>returned - tenth\<bar> = 1638 * ulp tenth"
    unfolding ulp_tenth by (simp add: tenth_def returned_def)
  have re: "unoffset_and_unrotate_pos origin_world
        (rotate_and_offset_pos origin_world (zero_pose\<lparr>px := tenth\<rparr>))
      = zero_pose\<lparr>px := tenth\<rparr>"
    by (simp add: unoffset_and_unrotate_pos_def rotate_and_offset_pos_def rotate_def
        offset_pos_def unoffset_pos_def D2R_def w zero_pose_def Let_def)
  show ?thesis
    using fl_tenth fl_thousand w rt d re by simp
qed

subsection \<open>Digital inputs\<close>

text \<open>
  C10. The value of \<open>GET_EXTERNAL_DIGITAL_INPUT\<close> is the same for any two \<open>def\<close>
  arguments under the same status, and it is \<open>-1\<close>, \<open>0\<close> or \<open>1\<close>.
\<close>

theorem digital_input_ignores_def:
  "GET_EXTERNAL_DIGITAL_INPUT env index def1 = GET_EXTERNAL_DIGITAL_INPUT env index def2
   \<and> GET_EXTERNAL_DIGITAL_INPUT env index def1 \<in> {- 1, 0, 1}"
  by (simp add: GET_EXTERNAL_DIGITAL_INPUT_def)

theorem digital_input_ignores_def_witness:
  "GET_EXTERNAL_DIGITAL_INPUT (scenario_env\<lparr>synch_di := (\<lambda>i. if i = 3 then 5 else 0)\<rparr>) 3 0 = 1
   \<and> GET_EXTERNAL_DIGITAL_INPUT (scenario_env\<lparr>synch_di := (\<lambda>i. if i = 3 then 5 else 0)\<rparr>) 3 7 = 1
   \<and> GET_EXTERNAL_DIGITAL_INPUT scenario_env 64 0 = - 1
   \<and> GET_EXTERNAL_DIGITAL_INPUT scenario_env 64 7 = - 1"
  using digital_input_ignores_def
      [of "scenario_env\<lparr>synch_di := (\<lambda>i. if i = 3 then 5 else 0)\<rparr>" 3 0 7]
    digital_input_ignores_def [of scenario_env 64 0 7]
  by (simp add: GET_EXTERNAL_DIGITAL_INPUT_def scenario_env_def)

subsection \<open>The scenario setup, evaluated\<close>

lemma axis_valid_scenario:
  "axis_valid scenario_env 0" "axis_valid scenario_env 1" "axis_valid scenario_env 2"
  "\<not> axis_valid scenario_env 3" "\<not> axis_valid scenario_env 4" "\<not> axis_valid scenario_env 5"
  "\<not> axis_valid scenario_env 6" "\<not> axis_valid scenario_env 7" "\<not> axis_valid scenario_env 8"
  by (simp_all add: axis_valid_def scenario_env_def)

lemma units_scenario:
  "TO_EXT_LEN scenario_env v = ret v" "TO_EXT_ANG scenario_env v = ret v"
  "FROM_EXT_LEN scenario_env v = ret v" "FROM_EXT_ANG scenario_env v = ret v"
  by (simp_all add: TO_EXT_LEN_def TO_EXT_ANG_def FROM_EXT_LEN_def FROM_EXT_ANG_def
      GET_EXTERNAL_LENGTH_UNITS_def GET_EXTERNAL_ANGLE_UNITS_def scenario_env_def bnd_ret)

lemma limits_scenario:
  "emcAxisGetMaxVelocity scenario_env = (\<lambda>_. 100)"
  "emcAxisGetMaxAcceleration scenario_env = (\<lambda>_. 1000)"
  "emcAxisGetMaxJerk scenario_env = (\<lambda>_. 10000)"
  by (simp_all add: scenario_env_def)

lemma toExtVel_scenario: "toExtVel scenario_env v = ret v"
  by (rule ext) (simp add: toExtVel_def units_scenario canon_simps)

lemma axis_delta_same: "axis_delta env n v v = 0"
  by (simp add: axis_delta_def tiny_def)

lemma axis_delta_scenario: "axis_delta scenario_env 0 10 0 = 10"
  by (simp add: axis_delta_def axis_valid_scenario tiny_def)

lemma straight_limit_scenario:
  assumes "endPoint w = zero_pose" and "0 < c" and "c < huge"
  shows "straight_limit scenario_env (\<lambda>_. c) nowhere feed_target w
         = Some (c, w\<lparr>cartesian_move := True, angular_move := False\<rparr>)"
  using assms
  by (simp add: straight_limit_def feed_target_def zero_pose_def axis_delta_scenario
      axis_delta_same canon_simps units_scenario axis_limit_def MIN2_def MIN3_def MIN4_def
      Let_def)

lemma getStraightVelocity_scenario:
  assumes "endPoint w = zero_pose"
  shows "getStraightVelocity scenario_env feed_target w
         = Some (MIN2 100 (linearFeedRate w),
                 w\<lparr>cartesian_move := True, angular_move := False\<rparr>)"
  using assms
  by (simp add: getStraightVelocity_def limits_scenario straight_limit_scenario huge_def
      canon_simps)

lemma getStraightJerk_scenario:
  assumes "endPoint w = zero_pose"
  shows "getStraightJerk scenario_env feed_target w
         = Some (10000, w\<lparr>cartesian_move := True, angular_move := False\<rparr>)"
  using assms
  by (simp add: getStraightJerk_def limits_scenario straight_limit_scenario huge_def)

lemma getStraightAcceleration_scenario:
  assumes "endPoint w = zero_pose"
  shows "getStraightAcceleration scenario_env feed_target w
         = Some (1000, w\<lparr>cartesian_move := True, angular_move := False\<rparr>)"
  using assms
  by (simp add: getStraightAcceleration_def limits_scenario straight_limit_scenario huge_def)

lemma flush_last_scenario:
  assumes ep: "endPoint w = zero_pose" and lfr: "linearFeedRate w = 10"
  shows "flush_last scenario_env \<lparr>pt_pose = feed_target, line_no = n\<rparr> w
   = Some ((), w\<lparr>endPoint := feed_target, cartesian_move := True, angular_move := False,
        chained_points := [], interp_line := n,
        interp_list := interp_list w @ [(n, EMC_TRAJ_LINEAR_MOVE
                \<lparr>lm_feed_mode = feed_mode w, lm_end = feed_target,
                 lm_vel = 10, lm_ini_maxvel = 10, lm_ini_maxjerk = 10000,
                 lm_acc = 1000, lm_type = EMC_MOTION_TYPE_FEED\<rparr>)]\<rparr>)"
  unfolding flush_last_def Let_def units_scenario toExtVel_scenario toExtAcc_def bnd_ret
  apply (simp add: bnd_apply getStraightVelocity_scenario ep lfr MIN2_def get_world_def)
  apply (simp add: bnd_apply getStraightJerk_scenario getStraightAcceleration_scenario ep lfr
      get_world_def)
  apply (simp add: feed_clamp_def lfr canon_simps interp_list_set_line_number_def
      interp_list_append_def canonUpdateEndPoint_def feed_target_def)
  done

lemma flush_scenario_one_point:
  assumes "endPoint w = zero_pose" and "linearFeedRate w = 10"
    and "chained_points w = [\<lparr>pt_pose = feed_target, line_no = 10\<rparr>]"
  shows "flush_segments scenario_env w
   = Some ((), w\<lparr>endPoint := feed_target, cartesian_move := True, angular_move := False,
        chained_points := [], interp_line := 10,
        interp_list := interp_list w @ [(10, EMC_TRAJ_LINEAR_MOVE
                \<lparr>lm_feed_mode = feed_mode w, lm_end = feed_target,
                 lm_vel = 10, lm_ini_maxvel = 10, lm_ini_maxjerk = 10000,
                 lm_acc = 1000, lm_type = EMC_MOTION_TYPE_FEED\<rparr>)]\<rparr>)"
  using assms by (simp add: flush_segments_nonempty flush_last_scenario)

lemma tap_world_fields:
  "endPoint tap_world = zero_pose" "linearFeedRate tap_world = 10"
  "chained_points tap_world = [\<lparr>pt_pose = feed_target, line_no = 10\<rparr>]"
  "feed_mode tap_world = 0" "css_maximum tap_world = 0" "lengthUnits tap_world = CANON_UNITS_MM"
  by (simp_all add: tap_world_def scenario_world_def)

lemma axis_delta_scenario_axes:
  "axis_delta scenario_env 0 t e = (if \<bar>t - e\<bar> < tiny then 0 else \<bar>t - e\<bar>)"
  "axis_delta scenario_env (Suc 0) t e = (if \<bar>t - e\<bar> < tiny then 0 else \<bar>t - e\<bar>)"
  "axis_delta scenario_env 2 t e = (if \<bar>t - e\<bar> < tiny then 0 else \<bar>t - e\<bar>)"
  "axis_delta scenario_env 3 t e = 0" "axis_delta scenario_env 4 t e = 0"
  "axis_delta scenario_env 5 t e = 0" "axis_delta scenario_env 6 t e = 0"
  "axis_delta scenario_env 7 t e = 0" "axis_delta scenario_env 8 t e = 0"
  using axis_valid_scenario by (simp_all add: axis_delta_def Let_def)

lemma envelope_scenario:
  assumes "0 \<le> dx" "0 \<le> dy" "0 \<le> dz" and "dx \<noteq> 0 \<or> dy \<noteq> 0 \<or> dz \<noteq> 0"
    and "0 < c" and "c < huge"
  shows "(\<not> (dx \<le> 0 \<and> dy \<le> 0 \<and> dz \<le> 0 \<and> (0::real) \<le> 0 \<and> (0::real) \<le> 0 \<and> (0::real) \<le> 0))
         = True"
    and "MIN4 (MIN3 (axis_limit (\<lambda>_. c) dx 0) (axis_limit (\<lambda>_. c) dy 1)
           (axis_limit (\<lambda>_. c) dz 2))
           (axis_limit (\<lambda>_. c) 0 6) (axis_limit (\<lambda>_. c) 0 7) (axis_limit (\<lambda>_. c) 0 8) = c"
  using assms by (auto simp: axis_limit_def MIN2_def MIN3_def MIN4_def)

lemma straight_limit_scenario_xyz:
  assumes mv: "\<not> (\<bar>px p - px (endPoint w)\<bar> < tiny \<and> \<bar>py p - py (endPoint w)\<bar> < tiny
              \<and> \<bar>pz p - pz (endPoint w)\<bar> < tiny)"
    and c: "0 < c" "c < huge"
  shows "straight_limit scenario_env (\<lambda>_. c) nowhere p w
         = Some (c, w\<lparr>cartesian_move := True, angular_move := False\<rparr>)"
proof -
  define dx where "dx = axis_delta scenario_env 0 (px p) (px (endPoint w))"
  define dy where "dy = axis_delta scenario_env 1 (py p) (py (endPoint w))"
  define dz where "dz = axis_delta scenario_env 2 (pz p) (pz (endPoint w))"
  have t: "0 < tiny" by (simp add: tiny_def)
  have nn: "0 \<le> dx" "0 \<le> dy" "0 \<le> dz"
    by (simp_all add: dx_def dy_def dz_def axis_delta_scenario_axes)
  have nz: "dx \<noteq> 0 \<or> dy \<noteq> 0 \<or> dz \<noteq> 0"
    using mv t unfolding dx_def dy_def dz_def One_nat_def axis_delta_scenario_axes
    by (auto split: if_splits)
  note e = envelope_scenario [OF nn nz c]
  show ?thesis
    unfolding straight_limit_def Let_def bnd_get_apply
    unfolding dx_def [symmetric] dy_def [symmetric] dz_def [symmetric]
    unfolding axis_delta_scenario_axes(4-9)
    unfolding e
    by (simp add: canon_simps units_scenario c)
qed

lemma flush_last_scenario_xyz:
  assumes mv: "\<not> (\<bar>px p - px (endPoint w)\<bar> < tiny \<and> \<bar>py p - py (endPoint w)\<bar> < tiny
              \<and> \<bar>pz p - pz (endPoint w)\<bar> < tiny)"
    and lfr: "linearFeedRate w = 10"
  shows "flush_last scenario_env \<lparr>pt_pose = p, line_no = n\<rparr> w
   = Some ((), w\<lparr>endPoint := p, cartesian_move := True, angular_move := False,
        chained_points := [], interp_line := n,
        interp_list := interp_list w @ [(n, EMC_TRAJ_LINEAR_MOVE
                \<lparr>lm_feed_mode = feed_mode w, lm_end = p,
                 lm_vel = 10, lm_ini_maxvel = 10, lm_ini_maxjerk = 10000,
                 lm_acc = 1000, lm_type = EMC_MOTION_TYPE_FEED\<rparr>)]\<rparr>)"
proof -
  let ?w1 = "w\<lparr>cartesian_move := True, angular_move := False\<rparr>"
  have mv1: "\<not> (\<bar>px p - px (endPoint ?w1)\<bar> < tiny \<and> \<bar>py p - py (endPoint ?w1)\<bar> < tiny
              \<and> \<bar>pz p - pz (endPoint ?w1)\<bar> < tiny)"
    using mv by simp
  have v: "getStraightVelocity scenario_env p w = Some (10, ?w1)"
    by (simp add: getStraightVelocity_def limits_scenario straight_limit_scenario_xyz [OF mv]
        huge_def canon_simps lfr MIN2_def)
  have j: "getStraightJerk scenario_env p ?w1 = Some (10000, ?w1)"
    by (simp add: getStraightJerk_def limits_scenario straight_limit_scenario_xyz [OF mv1] huge_def)
  have a: "getStraightAcceleration scenario_env p ?w1 = Some (1000, ?w1)"
    by (simp add: getStraightAcceleration_def limits_scenario straight_limit_scenario_xyz [OF mv1]
        huge_def)
  show ?thesis
    unfolding flush_last_def Let_def units_scenario toExtVel_scenario toExtAcc_def bnd_ret
    apply (simp add: bnd_apply v get_world_def)
    apply (simp add: bnd_apply j a get_world_def)
    apply (simp add: feed_clamp_def lfr canon_simps interp_list_set_line_number_def
        interp_list_append_def canonUpdateEndPoint_def)
    done
qed

lemma flush_tap_world:
  "flush_segments scenario_env tap_world
   = Some ((), tap_world\<lparr>endPoint := feed_target, cartesian_move := True, angular_move := False,
        chained_points := [], interp_line := 10, interp_list := [feed_move]\<rparr>)"
  by (simp add: flush_scenario_one_point tap_world_fields feed_move_def)
    (simp add: tap_world_def scenario_world_def)

subsection \<open>Scenario 1\<close>

lemma SET_FEED_RATE_scenario:
  "SET_FEED_RATE scenario_env 600 (scenario_world lfr afr) = Some ((), scenario_world 10 10)"
  by (simp add: SET_FEED_RATE_def scenario_world_def canon_simps flush_segments_empty
      FROM_PROG_LEN_def FROM_PROG_ANG_def prog_len_factor_def Let_def)

lemma STRAIGHT_FEED_scenario:
  "STRAIGHT_FEED scenario_env 10 feed_target (scenario_world 10 10)
   = Some ((), (scenario_world 10 10)
        \<lparr>chained_points := [\<lparr>pt_pose = feed_target, line_no = 10\<rparr>]\<rparr>)"
  by (simp add: STRAIGHT_FEED_def see_segment_def scenario_world_def canon_simps
      feed_target_def zero_pose_def rotate_and_offset_pos_def from_prog_def rotate_def
      offset_pos_def D2R_def FROM_PROG_LEN_def FROM_PROG_ANG_def prog_len_factor_def Let_def)

lemma FINISH_scenario:
  "FINISH scenario_env ((scenario_world 10 10)
        \<lparr>chained_points := [\<lparr>pt_pose = feed_target, line_no = 10\<rparr>]\<rparr>)
   = Some ((), (scenario_world 10 10)
        \<lparr>endPoint := feed_target, cartesian_move := True, interp_line := 10,
         interp_list := [(10, EMC_TRAJ_LINEAR_MOVE
                \<lparr>lm_feed_mode = 0, lm_end = feed_target,
                 lm_vel = 10, lm_ini_maxvel = 10, lm_ini_maxjerk = 10000,
                 lm_acc = 1000, lm_type = EMC_MOTION_TYPE_FEED\<rparr>)]\<rparr>)"
proof -
  let ?w = "(scenario_world 10 10)\<lparr>chained_points := [\<lparr>pt_pose = feed_target, line_no = 10\<rparr>]\<rparr>"
  have "FINISH scenario_env ?w = flush_last scenario_env \<lparr>pt_pose = feed_target, line_no = 10\<rparr> ?w"
    by (simp add: FINISH_def flush_segments_nonempty)
  also have "\<dots> = Some ((), ?w\<lparr>endPoint := feed_target, cartesian_move := True, angular_move := False,
        chained_points := [], interp_line := 10,
        interp_list := interp_list ?w @ [(10, EMC_TRAJ_LINEAR_MOVE
                \<lparr>lm_feed_mode = feed_mode ?w, lm_end = feed_target,
                 lm_vel = 10, lm_ini_maxvel = 10, lm_ini_maxjerk = 10000,
                 lm_acc = 1000, lm_type = EMC_MOTION_TYPE_FEED\<rparr>)]\<rparr>)"
    by (rule flush_last_scenario) (simp_all add: scenario_world_def)
  finally show ?thesis
    by (simp add: scenario_world_def)
qed

lemma scenario_1_run:
  "scenario_1 (scenario_world lfr afr)
   = Some ((), (scenario_world 10 10)
        \<lparr>endPoint := feed_target, cartesian_move := True, interp_line := 10,
         interp_list := [(10, EMC_TRAJ_LINEAR_MOVE
                \<lparr>lm_feed_mode = 0, lm_end = feed_target,
                 lm_vel = 10, lm_ini_maxvel = 10, lm_ini_maxjerk = 10000,
                 lm_acc = 1000, lm_type = EMC_MOTION_TYPE_FEED\<rparr>)]\<rparr>)"
  by (simp add: scenario_1_def bnd_apply SET_FEED_RATE_scenario STRAIGHT_FEED_scenario
      FINISH_scenario)

text \<open>
  C1, as amended. In the scenario setup, \<^verbatim>\<open>SET_FEED_RATE(600)\<close>, then
  \<^verbatim>\<open>STRAIGHT_FEED(10, 10, 0, 0, ...)\<close>, then a flush emit exactly one linear move, on
  line 10, with \<open>end.tran.x = 10\<close>, \<open>vel = 10\<close>, \<open>acc = 1000\<close>,
  \<open>ini_maxjerk = 10000\<close>, feed mode 0, and \<open>ini_maxvel = 10\<close>: the velocity that
  \<^verbatim>\<open>getStraightVelocity\<close> returns is already clamped by the feed rate.
\<close>

theorem scenario_1_emits:
  "\<exists>w. scenario_1 (scenario_world lfr afr) = Some ((), w)
     \<and> chained_points w = []
     \<and> interp_list w =
         [(10, EMC_TRAJ_LINEAR_MOVE
                \<lparr>lm_feed_mode = 0,
                 lm_end = \<lparr>px = 10, py = 0, pz = 0, pa = 0, pb = 0, pc = 0,
                           pu = 0, pv = 0, pw = 0\<rparr>,
                 lm_vel = 10, lm_ini_maxvel = 10, lm_ini_maxjerk = 10000,
                 lm_acc = 1000, lm_type = EMC_MOTION_TYPE_FEED\<rparr>)]"
  unfolding scenario_1_run by (simp add: feed_target_def scenario_world_def)

theorem scenario_1_emits_witness:
  "\<exists>w. scenario_1 (scenario_world 0 0) = Some ((), w)
     \<and> chained_points w = []
     \<and> interp_list w =
         [(10, EMC_TRAJ_LINEAR_MOVE
                \<lparr>lm_feed_mode = 0,
                 lm_end = \<lparr>px = 10, py = 0, pz = 0, pa = 0, pb = 0, pc = 0,
                           pu = 0, pv = 0, pw = 0\<rparr>,
                 lm_vel = 10, lm_ini_maxvel = 10, lm_ini_maxjerk = 10000,
                 lm_acc = 1000, lm_type = EMC_MOTION_TYPE_FEED\<rparr>)]"
  by (rule scenario_1_emits [of 0 0])

text \<open>
  C1 as stated fails: no run of the scenario emits a single linear move with
  \<open>ini_maxvel = 100\<close>.
\<close>

theorem scenario_1_ini_maxvel_not_100:
  "\<not> (\<exists>w m. scenario_1 (scenario_world 0 0) = Some ((), w)
        \<and> interp_list w = [(10, EMC_TRAJ_LINEAR_MOVE m)]
        \<and> px (lm_end m) = 10 \<and> lm_vel m = 10 \<and> lm_ini_maxvel m = 100
        \<and> lm_acc m = 1000 \<and> lm_ini_maxjerk m = 10000 \<and> lm_feed_mode m = 0)"
  by (simp add: scenario_1_run)

subsection \<open>Flushing twice\<close>

text \<open>
  C6. Two flushes in a row are one flush: from every world the composite call behaves as
  the single call does (the same messages, the same final world, or neither returns), and
  a flush that returns leaves an empty segment buffer, on which flushing again changes
  nothing.
\<close>

theorem flush_segments_idempotent:
  "bnd (flush_segments env) (\<lambda>_. flush_segments env) s = flush_segments env s
   \<and> (\<forall>v s'. flush_segments env s = Some (v, s')
         \<longrightarrow> chained_points s' = [] \<and> flush_segments env s' = Some ((), s'))"
proof (cases "flush_segments env s")
  case None
  then show ?thesis by (simp add: bnd_apply)
next
  case (Some r)
  obtain v s' where r: "r = (v, s')" by (cases r)
  have e: "chained_points s' = []"
    using Some r flush_segments_clears by blast
  then have again: "flush_segments env s' = Some ((), s')"
    by (rule flush_segments_empty)
  show ?thesis
    using Some r e again by (simp add: bnd_apply)
qed

theorem flush_segments_idempotent_witness:
  "\<exists>w'. flush_segments scenario_env
            ((scenario_world 10 10)\<lparr>chained_points := [\<lparr>pt_pose = feed_target, line_no = 10\<rparr>]\<rparr>)
          = Some ((), w')
        \<and> interp_list w' \<noteq> []
        \<and> chained_points w' = []
        \<and> flush_segments scenario_env w' = Some ((), w')
        \<and> bnd (flush_segments scenario_env) (\<lambda>_. flush_segments scenario_env)
            ((scenario_world 10 10)\<lparr>chained_points := [\<lparr>pt_pose = feed_target, line_no = 10\<rparr>]\<rparr>)
          = Some ((), w')"
  using flush_segments_idempotent [of scenario_env
      "(scenario_world 10 10)\<lparr>chained_points := [\<lparr>pt_pose = feed_target, line_no = 10\<rparr>]\<rparr>"]
    FINISH_scenario
  by (simp add: FINISH_def)

subsection \<open>The move to nowhere\<close>

text \<open>
  The move to nowhere: every per-axis delta is zeroed. \<^verbatim>\<open>getStraightVelocity\<close> then
  takes none of its three branches, so no assertion is reached and its local \<^verbatim>\<open>vel\<close>,
  declared without a value, is still unassigned when the last statement computes
  \<^verbatim>\<open>MIN(vel, canon.linearFeedRate)\<close>.
\<close>

lemma straight_limit_nowhere:
  assumes "axis_delta env 0 (px p) (px (endPoint s)) = 0"
    and "axis_delta env 1 (py p) (py (endPoint s)) = 0"
    and "axis_delta env 2 (pz p) (pz (endPoint s)) = 0"
    and "axis_delta env 3 (pa p) (pa (endPoint s)) = 0"
    and "axis_delta env 4 (pb p) (pb (endPoint s)) = 0"
    and "axis_delta env 5 (pc p) (pc (endPoint s)) = 0"
    and "axis_delta env 6 (pu p) (pu (endPoint s)) = 0"
    and "axis_delta env 7 (pv p) (pv (endPoint s)) = 0"
    and "axis_delta env 8 (pw p) (pw (endPoint s)) = 0"
  shows "straight_limit env lmt nowhere p s
         = Some (nowhere, s\<lparr>cartesian_move := False, angular_move := False\<rparr>)"
  using assms
  by (simp add: straight_limit_def Let_def canon_simps del: One_nat_def)

lemma getStraightVelocity_nowhere:
  assumes "axis_delta env 0 (px p) (px (endPoint s)) = 0"
    and "axis_delta env 1 (py p) (py (endPoint s)) = 0"
    and "axis_delta env 2 (pz p) (pz (endPoint s)) = 0"
    and "axis_delta env 3 (pa p) (pa (endPoint s)) = 0"
    and "axis_delta env 4 (pb p) (pb (endPoint s)) = 0"
    and "axis_delta env 5 (pc p) (pc (endPoint s)) = 0"
    and "axis_delta env 6 (pu p) (pu (endPoint s)) = 0"
    and "axis_delta env 7 (pv p) (pv (endPoint s)) = 0"
    and "axis_delta env 8 (pw p) (pw (endPoint s)) = 0"
  shows "getStraightVelocity env p s
         = Some (MIN2 (uninit_vel env) (linearFeedRate s),
                 s\<lparr>cartesian_move := False, angular_move := False\<rparr>)"
  by (simp add: getStraightVelocity_def bnd_apply straight_limit_nowhere [OF assms]
      get_world_def ret_def)

text \<open>
  C8. On the move to nowhere \<^verbatim>\<open>getStraightVelocity\<close> returns the feed rate only if
  the value found in its unassigned local \<^verbatim>\<open>vel\<close> is not below it. In the scenario
  setup with feed rate 10, a target equal to the end point and 0 found in \<^verbatim>\<open>vel\<close>, the
  function returns 0, not 10; no assertion fails.
\<close>

theorem getStraightVelocity_nowhere_garbage:
  "getStraightVelocity scenario_env zero_pose (scenario_world 10 10)
     = Some (0, scenario_world 10 10)
   \<and> linearFeedRate (scenario_world 10 10) = 10"
proof -
  have ep: "endPoint (scenario_world 10 10) = zero_pose"
    by (simp add: scenario_world_def)
  have "getStraightVelocity scenario_env zero_pose (scenario_world 10 10)
        = Some (MIN2 (uninit_vel scenario_env) (linearFeedRate (scenario_world 10 10)),
                (scenario_world 10 10)\<lparr>cartesian_move := False, angular_move := False\<rparr>)"
    by (rule getStraightVelocity_nowhere) (simp_all add: ep axis_delta_same)
  then show ?thesis
    by (simp add: scenario_world_def scenario_env_def MIN2_def)
qed

subsection \<open>Waiting for an input\<close>

text \<open>
  C9. With distinct codes for the two input types, \<^verbatim>\<open>WAIT\<close> on a bad index returns
  \<open>-1\<close> and leaves the world as it is; in every other case it flushes the segment buffer,
  appends one input-wait message carrying its four arguments, and returns 0 (when the
  flush does not return, neither does \<^verbatim>\<open>WAIT\<close>).
\<close>

theorem WAIT_atomic:
  assumes "DIGITAL_INPUT env \<noteq> ANALOG_INPUT env"
  shows "WAIT env index input_type wait_type timeout s =
     (if bad_index env index input_type then Some (- 1, s)
      else case flush_segments env s of
             None \<Rightarrow> None
           | Some (_, s1) \<Rightarrow>
               Some (0, s1\<lparr>interp_list := interp_list s1 @
                   [(interp_line s1, EMC_AUX_INPUT_WAIT
                      \<lparr>iw_index = index, iw_input_type = input_type,
                       iw_wait_type = wait_type, iw_timeout = timeout\<rparr>)]\<rparr>))"
  using assms
  by (auto simp: WAIT_def bad_index_def Let_def canon_simps interp_list_append_def
      split: option.splits)


theorem WAIT_atomic_witness:
  "WAIT scenario_env 64 1 0 5 tap_world = Some (- 1, tap_world)
   \<and> WAIT scenario_env 3 0 2 5 tap_world
       = Some (0, tap_world
           \<lparr>endPoint := feed_target, cartesian_move := True, angular_move := False,
            chained_points := [], interp_line := 10,
            interp_list :=
              [(10, EMC_TRAJ_LINEAR_MOVE
                  \<lparr>lm_feed_mode = 0, lm_end = feed_target,
                   lm_vel = 10, lm_ini_maxvel = 10, lm_ini_maxjerk = 10000,
                   lm_acc = 1000, lm_type = EMC_MOTION_TYPE_FEED\<rparr>),
               (10, EMC_AUX_INPUT_WAIT
                  \<lparr>iw_index = 3, iw_input_type = 0, iw_wait_type = 2,
                   iw_timeout = 5\<rparr>)]\<rparr>)"
proof -
  have d: "DIGITAL_INPUT scenario_env \<noteq> ANALOG_INPUT scenario_env"
    by (simp add: scenario_env_def)
  have f: "flush_segments scenario_env tap_world
    = Some ((), tap_world
        \<lparr>endPoint := feed_target, cartesian_move := True, angular_move := False,
         chained_points := [], interp_line := 10,
         interp_list := interp_list tap_world @ [(10, EMC_TRAJ_LINEAR_MOVE
                \<lparr>lm_feed_mode = feed_mode tap_world, lm_end = feed_target,
                 lm_vel = 10, lm_ini_maxvel = 10, lm_ini_maxjerk = 10000,
                 lm_acc = 1000, lm_type = EMC_MOTION_TYPE_FEED\<rparr>)]\<rparr>)"
    by (rule flush_scenario_one_point) (simp_all add: tap_world_fields)
  have il: "interp_list tap_world = []"
    by (simp add: tap_world_def scenario_world_def)
  have b1: "bad_index scenario_env 64 1" and b2: "\<not> bad_index scenario_env 3 0"
    by (simp_all add: bad_index_def scenario_env_def)
  show ?thesis
    using WAIT_atomic [OF d, of 64 1 0 5 tap_world] WAIT_atomic [OF d, of 3 0 2 5 tap_world]
      b1 b2
    by (simp add: f il tap_world_fields)
qed

subsection \<open>Linkability and the size of the segment buffer\<close>

lemma chord_distance_spec: "chord_distance s p it = spec_distance s p it"
  by (simp add: chord_distance_def spec_distance_def Let_def power2_eq_square max_def min_def)

lemma chord_distance_nonneg: "0 \<le> chord_distance s p it"
  by (simp add: chord_distance_spec spec_distance_def Let_def)

lemma linkable_loop_all:
  "linkable_loop s p pts = (\<forall>it \<in> set pts. chord_distance s p it \<le> naivecamTolerance s)"
  by (induction pts) (auto simp: not_less)

lemma linkable_characterised:
  assumes "chained_points s \<noteq> []"
  shows "linkable s p = Some (linkable_spec 101 s p)"
proof -
  obtain it where it: "it \<in> set (chained_points s)"
    using assms by (cases "chained_points s") auto
  have pos: "0 \<le> naivecamTolerance s"
    if "\<forall>P \<in> set (chained_points s). chord_distance s p P \<le> naivecamTolerance s"
    using that it chord_distance_nonneg [of s p it] by fastforce
  have "linkable_loop s p (chained_points s) \<and> naivecamTolerance s \<noteq> 0
        \<longleftrightarrow> (\<forall>P \<in> set (chained_points s). spec_distance s p P \<le> naivecamTolerance s)
            \<and> 0 < naivecamTolerance s"
    using pos by (auto simp: linkable_loop_all chord_distance_spec [symmetric])
  then show ?thesis
    using assms
    by (auto simp: linkable_def linkable_spec_def Let_def)
qed

lemma see_segment_bound:
  assumes len: "length (chained_points s) \<le> 101"
    and run: "see_segment env n p s = Some (v, s')"
  shows "length (chained_points s') \<le> 101"
proof -
  let ?c = "chained_points s \<noteq> [] \<and> linkable s p \<noteq> Some True"
  let ?ch = "(pa p \<noteq> pa (endPoint s) \<or> pb p \<noteq> pb (endPoint s) \<or> pc p \<noteq> pc (endPoint s))
             \<or> (pu p \<noteq> pu (endPoint s) \<or> pv p \<noteq> pv (endPoint s) \<or> pw p \<noteq> pw (endPoint s))"
  let ?push = "\<lambda>s. s\<lparr>chained_points := chained_points s @ [\<lparr>pt_pose = p, line_no = n\<rparr>]\<rparr>"
  from run have "bnd (if ?c then flush_segments env else ret ())
                   (\<lambda>_. bnd (modify ?push) (\<lambda>_. if ?ch then flush_segments env else ret ())) s
                 = Some (v, s')"
    by (simp add: see_segment_def Let_def bnd_get_apply)
  then obtain u s1 where first: "(if ?c then flush_segments env else ret ()) s = Some (u, s1)"
    and "bnd (modify ?push) (\<lambda>_. if ?ch then flush_segments env else ret ()) s1 = Some (v, s')"
    by (rule bnd_SomeE)
  then have rest: "(if ?ch then flush_segments env else ret ()) (?push s1) = Some (v, s')"
    by (simp add: bnd_modify_apply)
  have s1: "length (chained_points s1) \<le> 100"
  proof (cases ?c)
    case True
    with first have "chained_points s1 = []"
      by (auto dest: flush_segments_clears)
    then show ?thesis by simp
  next
    case False
    with first have eq: "s1 = s" by (simp add: ret_def)
    show ?thesis
    proof (cases "chained_points s = []")
      case True
      with eq show ?thesis by simp
    next
      case False
      with \<open>\<not> ?c\<close> have "linkable s p = Some True" by simp
      with False eq show ?thesis
        by (auto simp: linkable_def Let_def split: if_splits)
    qed
  qed
  show ?thesis
  proof (cases ?ch)
    case True
    with rest have "chained_points s' = []"
      by (auto dest: flush_segments_clears)
    then show ?thesis by simp
  next
    case False
    with rest have "s' = ?push s1" by (simp add: ret_def)
    with s1 show ?thesis by simp
  qed
qed


lemma spec_distance_unit_x:
  "spec_distance (unit_x_buffer n) unit_x \<lparr>pt_pose = unit_x, line_no = 1\<rparr> = 0"
  by (simp add: spec_distance_def unit_x_buffer_def scenario_world_def zero_pose_def unit_x_def)

lemma linkable_spec_unit_x:
  assumes "0 < n"
  shows "linkable_spec bound (unit_x_buffer n) unit_x \<longleftrightarrow> n < bound"
proof -
  have cp: "chained_points (unit_x_buffer n) = replicate n \<lparr>pt_pose = unit_x, line_no = 1\<rparr>"
    by (simp add: unit_x_buffer_def)
  have lst: "last (replicate n \<lparr>pt_pose = unit_x, line_no = 1\<rparr>) = \<lparr>pt_pose = unit_x, line_no = 1\<rparr>"
    using assms by (cases n) simp_all
  have st: "set (replicate n \<lparr>pt_pose = unit_x, line_no = 1\<rparr>) = {\<lparr>pt_pose = unit_x, line_no = 1\<rparr>}"
    using assms by simp
  have flds: "motionMode (unit_x_buffer n) = CANON_CONTINUOUS"
    "naivecamTolerance (unit_x_buffer n) = 1 / 10"
    "endPoint (unit_x_buffer n) = zero_pose"
    by (simp_all add: unit_x_buffer_def scenario_world_def)
  show ?thesis
    unfolding linkable_spec_def cp lst st flds
    by (simp add: spec_distance_unit_x) (simp add: unit_x_def zero_pose_def)
qed

lemma linkable_unit_x:
  assumes "0 < n"
  shows "linkable (unit_x_buffer n) unit_x = Some (n \<le> 100)"
proof -
  have "chained_points (unit_x_buffer n) \<noteq> []"
    using assms by (simp add: unit_x_buffer_def)
  then have "linkable (unit_x_buffer n) unit_x = Some (linkable_spec 101 (unit_x_buffer n) unit_x)"
    by (rule linkable_characterised)
  also have "\<dots> = Some (n \<le> 100)"
    using assms by (auto simp: linkable_spec_unit_x)
  finally show ?thesis .
qed

lemma transform_unit_x:
  "rotate_and_offset_pos (unit_x_buffer n) (from_prog (unit_x_buffer n) unit_x) = unit_x"
  by (simp add: unit_x_buffer_def scenario_world_def unit_x_def zero_pose_def
      rotate_and_offset_pos_def from_prog_def rotate_def offset_pos_def D2R_def
      FROM_PROG_LEN_def FROM_PROG_ANG_def prog_len_factor_def Let_def)

lemma STRAIGHT_FEED_unit_x:
  assumes "n \<le> 100"
  shows "STRAIGHT_FEED scenario_env 1 unit_x (unit_x_buffer n) = Some ((), unit_x_buffer (Suc n))"
proof -
  have same: "\<not> ((pa unit_x \<noteq> pa (endPoint (unit_x_buffer n))
                 \<or> pb unit_x \<noteq> pb (endPoint (unit_x_buffer n))
                 \<or> pc unit_x \<noteq> pc (endPoint (unit_x_buffer n)))
             \<or> (pu unit_x \<noteq> pu (endPoint (unit_x_buffer n))
                 \<or> pv unit_x \<noteq> pv (endPoint (unit_x_buffer n))
                 \<or> pw unit_x \<noteq> pw (endPoint (unit_x_buffer n))))"
    by (simp add: unit_x_buffer_def scenario_world_def unit_x_def zero_pose_def)
  have keep: "\<not> (chained_points (unit_x_buffer n) \<noteq> []
                \<and> linkable (unit_x_buffer n) unit_x \<noteq> Some True)"
  proof (cases "n = 0")
    case True
    then show ?thesis by (simp add: unit_x_buffer_def)
  next
    case False
    then show ?thesis using assms by (simp add: linkable_unit_x)
  qed
  have push: "(unit_x_buffer n)\<lparr>chained_points :=
                chained_points (unit_x_buffer n) @ [\<lparr>pt_pose = unit_x, line_no = 1\<rparr>]\<rparr>
              = unit_x_buffer (Suc n)"
    by (simp add: unit_x_buffer_def replicate_append_same)
  show ?thesis
    unfolding STRAIGHT_FEED_def see_segment_def Let_def bnd_get_apply transform_unit_x
    using same keep push
    by (simp only: if_False bnd_ret bnd_modify_apply ret_apply)
qed

lemma repeat_feed_unit_x:
  "n \<le> 101 \<Longrightarrow> repeat_feed n (scenario_world 10 10) = Some ((), unit_x_buffer n)"
proof (induction n)
  case 0
  show ?case by (simp add: ret_def unit_x_buffer_def scenario_world_def)
next
  case (Suc n)
  then show ?case by (simp add: bnd_apply STRAIGHT_FEED_unit_x)
qed

text \<open>
  C2, as amended. On a non-empty buffer (the only one \<^verbatim>\<open>linkable\<close> is called on) the
  candidate is linkable if and only if the motion mode is continuous, the naive-cam
  tolerance is positive, the buffer holds at most 100 points, the candidate's
  \<open>a, b, c, u, v, w\<close> are those of the last buffered point, its \<open>(x, y, z)\<close> differs
  from the end point, and every buffered point is within the tolerance of the chord.
  Consequently \<^verbatim>\<open>see_segment\<close>, the one function that adds to the buffer, never takes
  it beyond 101 points.
\<close>

theorem linkable_iff_and_buffer_bound:
  "(chained_points s \<noteq> [] \<longrightarrow> linkable s p = Some (linkable_spec 101 s p))
   \<and> (\<forall>v s'. length (chained_points s) \<le> 101 \<and> see_segment env n p s = Some (v, s')
          \<longrightarrow> length (chained_points s') \<le> 101)"
  using linkable_characterised see_segment_bound by blast

theorem linkable_iff_and_buffer_bound_witness:
  "chained_points (unit_x_buffer 1) \<noteq> []
   \<and> linkable (unit_x_buffer 1) unit_x = Some True
   \<and> linkable_spec 101 (unit_x_buffer 1) unit_x
   \<and> length (chained_points (unit_x_buffer 1)) \<le> 101
   \<and> see_segment scenario_env 1 unit_x (unit_x_buffer 1) = Some ((), unit_x_buffer 2)
   \<and> length (chained_points (unit_x_buffer 2)) \<le> 101"
proof -
  have ne: "chained_points (unit_x_buffer 1) \<noteq> []"
    and len: "length (chained_points (unit_x_buffer 1)) \<le> 101"
    by (simp_all add: unit_x_buffer_def)
  have "STRAIGHT_FEED scenario_env 1 unit_x (unit_x_buffer 1) = Some ((), unit_x_buffer 2)"
    using STRAIGHT_FEED_unit_x [of 1] by (simp add: numeral_2_eq_2)
  then have see: "see_segment scenario_env 1 unit_x (unit_x_buffer 1) = Some ((), unit_x_buffer 2)"
    by (simp add: STRAIGHT_FEED_def bnd_get_apply transform_unit_x)
  have lk: "linkable (unit_x_buffer 1) unit_x = Some True"
    by (simp add: linkable_unit_x)
  show ?thesis
    using linkable_iff_and_buffer_bound [of "unit_x_buffer 1" unit_x scenario_env 1] ne len see lk
    by auto
qed

text \<open>
  C2 as stated fails. With 100 points in the buffer the candidate is still linkable,
  against the bound "buffer size < 100", and 101 feeds to the same point leave 101
  points in the buffer.
\<close>

theorem buffer_holds_101:
  "linkable (unit_x_buffer 100) unit_x = Some True
   \<and> \<not> linkable_spec 100 (unit_x_buffer 100) unit_x
   \<and> (\<exists>w. repeat_feed 101 (scenario_world 10 10) = Some ((), w)
          \<and> length (chained_points w) = 101)"
  by (simp add: linkable_unit_x linkable_spec_unit_x repeat_feed_unit_x)
    (simp add: unit_x_buffer_def)

subsection \<open>Rigid tap\<close>

lemma GET_EXTERNAL_LENGTH_UNITS_value:
  "GET_EXTERNAL_LENGTH_UNITS env s = Some (r, s') \<Longrightarrow> r = ext_len env"
  by (auto simp: GET_EXTERNAL_LENGTH_UNITS_def ext_len_def Let_def ret_def
      elim!: bnd_SomeE split: if_splits)

lemma GET_EXTERNAL_ANGLE_UNITS_value:
  "GET_EXTERNAL_ANGLE_UNITS env s = Some (r, s') \<Longrightarrow> r = ext_ang env"
  by (auto simp: GET_EXTERNAL_ANGLE_UNITS_def ext_ang_def Let_def ret_def
      elim!: bnd_SomeE split: if_splits)

lemma TO_EXT_LEN_value: "TO_EXT_LEN env v s = Some (r, s') \<Longrightarrow> r = v * ext_len env"
  by (auto simp: TO_EXT_LEN_def ret_def elim!: bnd_SomeE dest: GET_EXTERNAL_LENGTH_UNITS_value)

lemma TO_EXT_ANG_value: "TO_EXT_ANG env v s = Some (r, s') \<Longrightarrow> r = v * ext_ang env"
  by (auto simp: TO_EXT_ANG_def ret_def elim!: bnd_SomeE dest: GET_EXTERNAL_ANGLE_UNITS_value)

lemma to_ext_pose_value: "to_ext_pose env p s = Some (r, s') \<Longrightarrow> r = ext_pose env p"
  unfolding to_ext_pose_def
  by (elim bnd_SomeE) (auto simp: ret_def ext_pose_def dest!: TO_EXT_LEN_value TO_EXT_ANG_value)

lemma only_flags_msgs_fields:
  assumes "only_flags_msgs s s'"
  shows "endPoint s' = endPoint s" "chained_points s' = chained_points s"
  using assms by (auto simp: only_flags_msgs_def)

lemma update_then_clear_endPoint:
  "frame (\<lambda>_ s'. endPoint s' = p)
     (bnd (canonUpdateEndPoint p) (\<lambda>_. modify (\<lambda>s. s\<lparr>chained_points := []\<rparr>)))"
  by (simp add: frame_def canonUpdateEndPoint_def canon_simps)

lemma flush_last_endPoint: "frame (\<lambda>_ s'. endPoint s' = pt_pose pos) (flush_last env pos)"
  unfolding flush_last_def Let_def
  by (intro update_then_clear_endPoint frame_bnd_post)

lemma flush_segments_endPoint:
  assumes "flush_segments env s = Some (v, s')"
  shows "endPoint s' = (if chained_points s = [] then endPoint s
                        else pt_pose (last (chained_points s)))"
proof (cases "chained_points s = []")
  case True
  with assms show ?thesis by (simp add: flush_segments_empty)
next
  case False
  with assms have "flush_last env (last (chained_points s)) s = Some (v, s')"
    by (simp add: flush_segments_nonempty)
  then have "endPoint s' = pt_pose (last (chained_points s))"
    using flush_last_endPoint by (rule frameD [rotated])
  with False show ?thesis by simp
qed

lemma TO_EXT_LEN_E:
  assumes "TO_EXT_LEN env v s = Some (r, s')"
  obtains il where "r = v * ext_len env" and "s' = s\<lparr>interp_list := il\<rparr>"
proof -
  have "r = v * ext_len env"
    using assms by (rule TO_EXT_LEN_value)
  moreover have "\<exists>il. s' = s\<lparr>interp_list := il\<rparr>"
    using assms
    by (auto simp: TO_EXT_LEN_def GET_EXTERNAL_LENGTH_UNITS_def CANON_ERROR_zero_units_def
        interp_list_append_def Let_def canon_simps
        split: if_splits option.splits intro: exI [of _ "interp_list s"])
  ultimately show ?thesis using that by blast
qed

lemma TO_EXT_ANG_E:
  assumes "TO_EXT_ANG env v s = Some (r, s')"
  obtains il where "r = v * ext_ang env" and "s' = s\<lparr>interp_list := il\<rparr>"
proof -
  have "r = v * ext_ang env"
    using assms by (rule TO_EXT_ANG_value)
  moreover have "\<exists>il. s' = s\<lparr>interp_list := il\<rparr>"
    using assms
    by (auto simp: TO_EXT_ANG_def GET_EXTERNAL_ANGLE_UNITS_def CANON_ERROR_zero_units_def
        interp_list_append_def Let_def canon_simps
        split: if_splits option.splits intro: exI [of _ "interp_list s"])
  ultimately show ?thesis using that by blast
qed

lemma toExtVel_E:
  assumes "toExtVel env v s = Some (r, s')"
  obtains il where "r = v * ext_vel_unit env s" and "s' = s\<lparr>interp_list := il\<rparr>"
  using assms
  by (auto simp: toExtVel_def bnd_get_apply ext_vel_unit_def split: if_splits
      elim!: TO_EXT_LEN_E TO_EXT_ANG_E)

lemma to_ext_pose_flags:
  assumes "to_ext_pose env p s = Some (r, s')"
  shows "cartesian_move s' = cartesian_move s \<and> angular_move s' = angular_move s"
  using assms unfolding to_ext_pose_def
  by (elim bnd_SomeE TO_EXT_LEN_E TO_EXT_ANG_E) (auto simp: ret_def)

lemma RIGID_TAP_prefix:
  assumes "bnd (tap_target q) (\<lambda>t1.
     bnd (getStraightVelocity env t1) (\<lambda>vel.
     bnd (tap_target q) (\<lambda>t2.
     bnd (getStraightAcceleration env t2) (\<lambda>acc.
     bnd (tap_target q) (\<lambda>t3.
     bnd (to_ext_pose env t3) (\<lambda>pos.
     bnd (toExtVel env vel) (\<lambda>mvel.
     bnd (toExtVel env vel) (\<lambda>mini.
     bnd (toExtAcc env acc) (\<lambda>macc. K vel acc pos mvel mini macc))))))))) s = Some (r, s')"
  obtains vel acc sa sb s1 where
    "getStraightVelocity env ((endPoint s)\<lparr>px := px q, py := py q, pz := pz q\<rparr>) s
       = Some (vel, sa)"
    and "getStraightAcceleration env ((endPoint s)\<lparr>px := px q, py := py q, pz := pz q\<rparr>) sa
       = Some (acc, sb)"
    and "only_flags_msgs s s1"
    and "K vel acc (ext_pose env ((endPoint s)\<lparr>px := px q, py := py q, pz := pz q\<rparr>))
           (vel * ext_vel_unit env sb) (vel * ext_vel_unit env sb) (acc * ext_vel_unit env sb) s1
         = Some (r, s')"
proof -
  have tt: "\<And>f w. bnd (tap_target q) f w = f ((endPoint w)\<lparr>px := px q, py := py q, pz := pz q\<rparr>) w"
    by (simp add: tap_target_def canon_simps)
  from assms obtain vel sa where
    a: "getStraightVelocity env ((endPoint s)\<lparr>px := px q, py := py q, pz := pz q\<rparr>) s = Some (vel, sa)"
    and ra: "bnd (tap_target q) (\<lambda>t2.
     bnd (getStraightAcceleration env t2) (\<lambda>acc.
     bnd (tap_target q) (\<lambda>t3.
     bnd (to_ext_pose env t3) (\<lambda>pos.
     bnd (toExtVel env vel) (\<lambda>mvel.
     bnd (toExtVel env vel) (\<lambda>mini.
     bnd (toExtAcc env acc) (\<lambda>macc. K vel acc pos mvel mini macc))))))) sa = Some (r, s')"
    unfolding tt by (rule bnd_SomeE)
  from ra obtain acc sb where
    b: "getStraightAcceleration env ((endPoint sa)\<lparr>px := px q, py := py q, pz := pz q\<rparr>) sa = Some (acc, sb)"
    and rb: "bnd (tap_target q) (\<lambda>t3.
     bnd (to_ext_pose env t3) (\<lambda>pos.
     bnd (toExtVel env vel) (\<lambda>mvel.
     bnd (toExtVel env vel) (\<lambda>mini.
     bnd (toExtAcc env acc) (\<lambda>macc. K vel acc pos mvel mini macc))))) sb = Some (r, s')"
    unfolding tt by (rule bnd_SomeE)
  from rb obtain pos sc where
    c: "to_ext_pose env ((endPoint sb)\<lparr>px := px q, py := py q, pz := pz q\<rparr>) sb = Some (pos, sc)"
    and rc: "bnd (toExtVel env vel) (\<lambda>mvel.
     bnd (toExtVel env vel) (\<lambda>mini.
     bnd (toExtAcc env acc) (\<lambda>macc. K vel acc pos mvel mini macc))) sc = Some (r, s')"
    unfolding tt by (rule bnd_SomeE)
  from rc obtain mvel sd where d: "toExtVel env vel sc = Some (mvel, sd)"
    and rd: "bnd (toExtVel env vel) (\<lambda>mini.
     bnd (toExtAcc env acc) (\<lambda>macc. K vel acc pos mvel mini macc)) sd = Some (r, s')"
    by (rule bnd_SomeE)
  from rd obtain mini se where e: "toExtVel env vel sd = Some (mini, se)"
    and re: "bnd (toExtAcc env acc) (\<lambda>macc. K vel acc pos mvel mini macc) se = Some (r, s')"
    by (rule bnd_SomeE)
  from re obtain macc sf where f: "toExtAcc env acc se = Some (macc, sf)"
    and rf: "K vel acc pos mvel mini macc sf = Some (r, s')"
    by (rule bnd_SomeE)
  have 1: "only_flags_msgs s sa" using frame_getStraightVelocity a by (rule frameD)
  have 2: "only_flags_msgs sa sb" using frame_getStraightAcceleration b by (rule frameD)
  have 3: "only_flags_msgs sb sc" using frame_to_ext_pose c by (rule frameD)
  have 4: "only_flags_msgs sc sd" using frame_toExtVel d by (rule frameD)
  have 5: "only_flags_msgs sd se" using frame_toExtVel e by (rule frameD)
  have 6: "only_flags_msgs se sf" using frame_toExtVel f [unfolded toExtAcc_def] by (rule frameD)
  have sb: "only_flags_msgs s sb" using 1 2 by (rule only_flags_msgs_trans)
  have all: "only_flags_msgs s sf"
    using sb 3 4 5 6 by (blast intro: only_flags_msgs_trans)
  have b': "getStraightAcceleration env ((endPoint s)\<lparr>px := px q, py := py q, pz := pz q\<rparr>) sa
            = Some (acc, sb)"
    using b only_flags_msgs_fields(1) [OF 1] by simp
  have "pos = ext_pose env ((endPoint sb)\<lparr>px := px q, py := py q, pz := pz q\<rparr>)"
    using c by (rule to_ext_pose_value)
  then have pos: "pos = ext_pose env ((endPoint s)\<lparr>px := px q, py := py q, pz := pz q\<rparr>)"
    using only_flags_msgs_fields(1) [OF sb] by simp
  have uc: "ext_vel_unit env sc = ext_vel_unit env sb"
    using to_ext_pose_flags [OF c] by (simp add: ext_vel_unit_def)
  from d obtain il1 where mvel: "mvel = vel * ext_vel_unit env sc" and sd: "sd = sc\<lparr>interp_list := il1\<rparr>"
    by (rule toExtVel_E)
  from e obtain il2 where mini: "mini = vel * ext_vel_unit env sd" and se: "se = sd\<lparr>interp_list := il2\<rparr>"
    by (rule toExtVel_E)
  from f [unfolded toExtAcc_def] obtain il3 where macc: "macc = acc * ext_vel_unit env se"
    by (rule toExtVel_E)
  have ud: "ext_vel_unit env sd = ext_vel_unit env sb" "ext_vel_unit env se = ext_vel_unit env sb"
    using uc by (simp_all add: sd se ext_vel_unit_def)
  from rf have "K vel acc (ext_pose env ((endPoint s)\<lparr>px := px q, py := py q, pz := pz q\<rparr>))
           (vel * ext_vel_unit env sb) (vel * ext_vel_unit env sb) (acc * ext_vel_unit env sb) sf
         = Some (r, s')"
    by (simp add: pos mvel mini macc uc ud)
  with a b' all show ?thesis by (rule that)
qed

text \<open>
  C7. \<^verbatim>\<open>RIGID_TAP\<close> never writes the tap target to the end point. Its only write to
  the end point is the one of its internal flush, which runs on the end point and the
  buffer found at entry: after the call the end point is the one found at entry when the
  buffer was empty, and the last buffered point otherwise. The flush runs on a state that
  differs from the one at entry only in the two move flags and in appended messages.
  With \<open>vel\<close> and \<open>acc\<close> the results of \<^verbatim>\<open>getStraightVelocity\<close> and
  \<^verbatim>\<open>getStraightAcceleration\<close> for the tap target at entry, the messages after the
  call are those of the flush, followed, exactly when \<open>vel\<close> and \<open>acc\<close> are both
  not zero, by one rigid-tap message on the line of the command: its \<open>x, y, z\<close> are
  the externalised tap target, its \<open>a, b, c, u, v, w\<close> are the externalised
  coordinates of the end point found at entry, and its velocities and acceleration are
  the externalised \<open>vel\<close> and \<open>acc\<close>.
\<close>

theorem RIGID_TAP_keeps_endPoint:
  assumes "RIGID_TAP env line_number x y z s = Some (v, s')"
  shows "endPoint s' = (if chained_points s = [] then endPoint s
                        else pt_pose (last (chained_points s)))
    \<and> (\<exists>q tgt vel acc sa sb s1 s2.
          q = rotate_and_offset_pos s (from_prog s
                \<lparr>px = x, py = y, pz = z, pa = 0, pb = 0, pc = 0, pu = 0, pv = 0, pw = 0\<rparr>)
          \<and> tgt = (endPoint s)\<lparr>px := px q, py := py q, pz := pz q\<rparr>
          \<and> getStraightVelocity env tgt s = Some (vel, sa)
          \<and> getStraightAcceleration env tgt sa = Some (acc, sb)
          \<and> only_flags_msgs s s1
          \<and> endPoint s1 = endPoint s \<and> chained_points s1 = chained_points s
          \<and> flush_segments env s1 = Some ((), s2)
          \<and> endPoint s' = endPoint s2
          \<and> interp_list s' = interp_list s2 @
               (if vel \<noteq> 0 \<and> acc \<noteq> 0
                then [(line_number, EMC_TRAJ_RIGID_TAP
                   \<lparr>rt_pos =
                      \<lparr>px = px q * ext_len env, py = py q * ext_len env, pz = pz q * ext_len env,
                       pa = pa (endPoint s) * ext_ang env, pb = pb (endPoint s) * ext_ang env,
                       pc = pc (endPoint s) * ext_ang env, pu = pu (endPoint s) * ext_len env,
                       pv = pv (endPoint s) * ext_len env, pw = pw (endPoint s) * ext_len env\<rparr>,
                    rt_vel = vel * ext_vel_unit env sb,
                    rt_ini_maxvel = vel * ext_vel_unit env sb,
                    rt_acc = acc * ext_vel_unit env sb\<rparr>)]
                else []))"
proof -
  define q where "q = rotate_and_offset_pos s (from_prog s
      \<lparr>px = x, py = y, pz = z, pa = 0, pb = 0, pc = 0, pu = 0, pv = 0, pw = 0\<rparr>)"
  define tgt where "tgt = (endPoint s)\<lparr>px := px q, py := py q, pz := pz q\<rparr>"
  define pos where "pos = ext_pose env tgt"
  from assms obtain vel acc :: real and sa sb s1 where
    vel: "getStraightVelocity env tgt s = Some (vel, sa)"
    and acc: "getStraightAcceleration env tgt sa = Some (acc, sb)"
    and pre: "only_flags_msgs s s1"
    and rest: "bnd (flush_segments env) (\<lambda>_.
       if vel \<noteq> 0 \<and> acc \<noteq> 0 then
         bnd (interp_list_set_line_number line_number) (\<lambda>_.
         interp_list_append (EMC_TRAJ_RIGID_TAP
           \<lparr>rt_pos = pos, rt_vel = vel * ext_vel_unit env sb,
            rt_ini_maxvel = vel * ext_vel_unit env sb, rt_acc = acc * ext_vel_unit env sb\<rparr>))
       else ret ()) s1 = Some (v, s')"
    unfolding RIGID_TAP_def Let_def bnd_get_apply q_def [symmetric] pos_def tgt_def
    by (rule RIGID_TAP_prefix)
  from rest obtain u s2 where fl: "flush_segments env s1 = Some (u, s2)"
    and emit: "(if vel \<noteq> 0 \<and> acc \<noteq> 0 then
         bnd (interp_list_set_line_number line_number) (\<lambda>_.
         interp_list_append (EMC_TRAJ_RIGID_TAP
           \<lparr>rt_pos = pos, rt_vel = vel * ext_vel_unit env sb,
            rt_ini_maxvel = vel * ext_vel_unit env sb, rt_acc = acc * ext_vel_unit env sb\<rparr>))
       else ret ()) s2 = Some (v, s')"
    by (rule bnd_SomeE)
  have ep1: "endPoint s1 = endPoint s" and cp1: "chained_points s1 = chained_points s"
    using pre by (simp_all add: only_flags_msgs_fields)
  have ep2: "endPoint s2 = (if chained_points s = [] then endPoint s
                            else pt_pose (last (chained_points s)))"
    using flush_segments_endPoint [OF fl] by (simp add: ep1 cp1)
  have ep': "endPoint s' = endPoint s2"
    using emit
    by (auto simp: canon_simps interp_list_set_line_number_def interp_list_append_def
        split: if_splits)
  have posv: "pos =
      \<lparr>px = px q * ext_len env, py = py q * ext_len env, pz = pz q * ext_len env,
       pa = pa (endPoint s) * ext_ang env, pb = pb (endPoint s) * ext_ang env,
       pc = pc (endPoint s) * ext_ang env, pu = pu (endPoint s) * ext_len env,
       pv = pv (endPoint s) * ext_len env, pw = pw (endPoint s) * ext_len env\<rparr>"
    by (simp add: pos_def tgt_def ext_pose_def)
  have msgs: "interp_list s' = interp_list s2 @
               (if vel \<noteq> 0 \<and> acc \<noteq> 0
                then [(line_number, EMC_TRAJ_RIGID_TAP
                   \<lparr>rt_pos = pos,
                    rt_vel = vel * ext_vel_unit env sb,
                    rt_ini_maxvel = vel * ext_vel_unit env sb,
                    rt_acc = acc * ext_vel_unit env sb\<rparr>)]
                else [])"
    using emit
    by (auto simp: canon_simps interp_list_set_line_number_def interp_list_append_def
        split: if_splits)
  have "\<exists>q tgt vel acc sa sb s1 s2.
          q = rotate_and_offset_pos s (from_prog s
                \<lparr>px = x, py = y, pz = z, pa = 0, pb = 0, pc = 0, pu = 0, pv = 0, pw = 0\<rparr>)
          \<and> tgt = (endPoint s)\<lparr>px := px q, py := py q, pz := pz q\<rparr>
          \<and> getStraightVelocity env tgt s = Some (vel, sa)
          \<and> getStraightAcceleration env tgt sa = Some (acc, sb)
          \<and> only_flags_msgs s s1
          \<and> endPoint s1 = endPoint s \<and> chained_points s1 = chained_points s
          \<and> flush_segments env s1 = Some ((), s2)
          \<and> endPoint s' = endPoint s2
          \<and> interp_list s' = interp_list s2 @
               (if vel \<noteq> 0 \<and> acc \<noteq> 0
                then [(line_number, EMC_TRAJ_RIGID_TAP
                   \<lparr>rt_pos =
                      \<lparr>px = px q * ext_len env, py = py q * ext_len env, pz = pz q * ext_len env,
                       pa = pa (endPoint s) * ext_ang env, pb = pb (endPoint s) * ext_ang env,
                       pc = pc (endPoint s) * ext_ang env, pu = pu (endPoint s) * ext_len env,
                       pv = pv (endPoint s) * ext_len env, pw = pw (endPoint s) * ext_len env\<rparr>,
                    rt_vel = vel * ext_vel_unit env sb,
                    rt_ini_maxvel = vel * ext_vel_unit env sb,
                    rt_acc = acc * ext_vel_unit env sb\<rparr>)]
                else [])"
  proof (intro exI conjI)
    show "q = rotate_and_offset_pos s (from_prog s
                \<lparr>px = x, py = y, pz = z, pa = 0, pb = 0, pc = 0, pu = 0, pv = 0, pw = 0\<rparr>)"
      by (rule q_def)
    show "tgt = (endPoint s)\<lparr>px := px q, py := py q, pz := pz q\<rparr>" by (rule tgt_def)
    show "getStraightVelocity env tgt s = Some (vel, sa)" by (rule vel)
    show "getStraightAcceleration env tgt sa = Some (acc, sb)" by (rule acc)
    show "only_flags_msgs s s1" by (rule pre)
    show "endPoint s1 = endPoint s" by (rule ep1)
    show "chained_points s1 = chained_points s" by (rule cp1)
    show "flush_segments env s1 = Some ((), s2)" using fl by simp
    show "endPoint s' = endPoint s2" by (rule ep')
    show "interp_list s' = interp_list s2 @
               (if vel \<noteq> 0 \<and> acc \<noteq> 0
                then [(line_number, EMC_TRAJ_RIGID_TAP
                   \<lparr>rt_pos =
                      \<lparr>px = px q * ext_len env, py = py q * ext_len env, pz = pz q * ext_len env,
                       pa = pa (endPoint s) * ext_ang env, pb = pb (endPoint s) * ext_ang env,
                       pc = pc (endPoint s) * ext_ang env, pu = pu (endPoint s) * ext_len env,
                       pv = pv (endPoint s) * ext_len env, pw = pw (endPoint s) * ext_len env\<rparr>,
                    rt_vel = vel * ext_vel_unit env sb,
                    rt_ini_maxvel = vel * ext_vel_unit env sb,
                    rt_acc = acc * ext_vel_unit env sb\<rparr>)]
                else [])"
      using msgs unfolding posv .
  qed
  with ep' ep2 show ?thesis by simp
qed

lemma RIGID_TAP_scenario:
  "RIGID_TAP scenario_env 20 0 0 (- 5) tap_world_abc
   = Some ((), (scenario_world 10 10)
        \<lparr>endPoint := rest_pose\<lparr>px := 10\<rparr>, cartesian_move := True, interp_line := 20,
         interp_list :=
           [(10, EMC_TRAJ_LINEAR_MOVE
                \<lparr>lm_feed_mode = 0, lm_end = rest_pose\<lparr>px := 10\<rparr>,
                 lm_vel = 10, lm_ini_maxvel = 10, lm_ini_maxjerk = 10000,
                 lm_acc = 1000, lm_type = EMC_MOTION_TYPE_FEED\<rparr>),
            (20, EMC_TRAJ_RIGID_TAP
                \<lparr>rt_pos = rest_pose\<lparr>pz := - 5\<rparr>, rt_vel = 10, rt_ini_maxvel = 10,
                 rt_acc = 1000\<rparr>)]\<rparr>)"
proof -
  have q: "rotate_and_offset_pos tap_world_abc (from_prog tap_world_abc
             \<lparr>px = 0, py = 0, pz = - 5, pa = 0, pb = 0, pc = 0, pu = 0, pv = 0, pw = 0\<rparr>)
           = tap_point"
    by (simp add: tap_world_abc_def scenario_world_def tap_point_def zero_pose_def
        rotate_and_offset_pos_def from_prog_def rotate_def offset_pos_def D2R_def
        FROM_PROG_LEN_def FROM_PROG_ANG_def prog_len_factor_def Let_def)
  have tgt: "\<And>w. endPoint w = rest_pose \<Longrightarrow>
      tap_target tap_point w = Some (rest_pose\<lparr>pz := - 5\<rparr>, w)"
    by (simp add: tap_target_def canon_simps tap_point_def rest_pose_def)
  have ep: "endPoint tap_world_abc = rest_pose" and lfr: "linearFeedRate tap_world_abc = 10"
    by (simp_all add: tap_world_abc_def scenario_world_def)
  let ?w1 = "tap_world_abc\<lparr>cartesian_move := True, angular_move := False\<rparr>"
  have mv: "\<And>w. endPoint w = rest_pose \<Longrightarrow>
     \<not> (\<bar>px (rest_pose\<lparr>pz := - 5\<rparr>) - px (endPoint w)\<bar> < tiny
        \<and> \<bar>py (rest_pose\<lparr>pz := - 5\<rparr>) - py (endPoint w)\<bar> < tiny
        \<and> \<bar>pz (rest_pose\<lparr>pz := - 5\<rparr>) - pz (endPoint w)\<bar> < tiny)"
    by (simp add: rest_pose_def tiny_def)
  have vel: "getStraightVelocity scenario_env (rest_pose\<lparr>pz := - 5\<rparr>) tap_world_abc
             = Some (10, ?w1)"
    by (simp add: getStraightVelocity_def limits_scenario straight_limit_scenario_xyz [OF mv]
        huge_def canon_simps ep lfr MIN2_def)
  have acc: "getStraightAcceleration scenario_env (rest_pose\<lparr>pz := - 5\<rparr>) ?w1 = Some (1000, ?w1)"
    by (simp add: getStraightAcceleration_def limits_scenario straight_limit_scenario_xyz [OF mv]
        huge_def ep)
  have pose: "to_ext_pose scenario_env p = ret p" for p
    by (cases p) (simp add: to_ext_pose_def units_scenario bnd_ret)
  have mvf: "\<not> (\<bar>px (rest_pose\<lparr>px := 10\<rparr>) - px (endPoint ?w1)\<bar> < tiny
        \<and> \<bar>py (rest_pose\<lparr>px := 10\<rparr>) - py (endPoint ?w1)\<bar> < tiny
        \<and> \<bar>pz (rest_pose\<lparr>px := 10\<rparr>) - pz (endPoint ?w1)\<bar> < tiny)"
    by (simp add: ep rest_pose_def tiny_def)
  have fl: "flush_segments scenario_env ?w1
    = Some ((), ?w1\<lparr>endPoint := rest_pose\<lparr>px := 10\<rparr>, cartesian_move := True,
        angular_move := False, chained_points := [], interp_line := 10,
        interp_list := interp_list ?w1 @ [(10, EMC_TRAJ_LINEAR_MOVE
                \<lparr>lm_feed_mode = feed_mode ?w1, lm_end = rest_pose\<lparr>px := 10\<rparr>,
                 lm_vel = 10, lm_ini_maxvel = 10, lm_ini_maxjerk = 10000,
                 lm_acc = 1000, lm_type = EMC_MOTION_TYPE_FEED\<rparr>)]\<rparr>)"
  proof -
    have "flush_segments scenario_env ?w1
          = flush_last scenario_env \<lparr>pt_pose = rest_pose\<lparr>px := 10\<rparr>, line_no = 10\<rparr> ?w1"
      by (simp add: flush_segments_nonempty tap_world_abc_def)
    then show ?thesis
      using flush_last_scenario_xyz [OF mvf, of 10] by (simp add: lfr)
  qed
  show ?thesis
    unfolding RIGID_TAP_def Let_def bnd_get_apply q
    by (simp add: bnd_apply tgt ep vel acc pose toExtVel_scenario toExtAcc_def ret_apply fl)
      (simp add: tap_world_abc_def scenario_world_def interp_list_set_line_number_def
        interp_list_append_def canon_simps)
qed

theorem RIGID_TAP_keeps_endPoint_witness:
  "\<exists>s'. RIGID_TAP scenario_env 20 0 0 (- 5) tap_world_abc = Some ((), s')
      \<and> endPoint tap_world_abc = \<lparr>px = 0, py = 0, pz = 0, pa = 1, pb = 2, pc = 3,
                                   pu = 4, pv = 5, pw = 6\<rparr>
      \<and> map (pt_pose) (chained_points tap_world_abc)
          = [\<lparr>px = 10, py = 0, pz = 0, pa = 1, pb = 2, pc = 3, pu = 4, pv = 5, pw = 6\<rparr>]
      \<and> endPoint s' = \<lparr>px = 10, py = 0, pz = 0, pa = 1, pb = 2, pc = 3, pu = 4, pv = 5, pw = 6\<rparr>
      \<and> interp_list s' =
           [(10, EMC_TRAJ_LINEAR_MOVE
                \<lparr>lm_feed_mode = 0,
                 lm_end = \<lparr>px = 10, py = 0, pz = 0, pa = 1, pb = 2, pc = 3,
                           pu = 4, pv = 5, pw = 6\<rparr>,
                 lm_vel = 10, lm_ini_maxvel = 10, lm_ini_maxjerk = 10000,
                 lm_acc = 1000, lm_type = EMC_MOTION_TYPE_FEED\<rparr>),
            (20, EMC_TRAJ_RIGID_TAP
                \<lparr>rt_pos = \<lparr>px = 0, py = 0, pz = - 5, pa = 1, pb = 2, pc = 3,
                           pu = 4, pv = 5, pw = 6\<rparr>,
                 rt_vel = 10, rt_ini_maxvel = 10, rt_acc = 1000\<rparr>)]"
  using RIGID_TAP_keeps_endPoint [of scenario_env 20 0 0 "- 5" tap_world_abc]
    RIGID_TAP_scenario
  by (simp add: tap_world_abc_def rest_pose_def scenario_world_def)

subsection \<open>The report of a zero unit\<close>

text \<open>
  Under a zero external unit a flush of a non-empty buffer does not return, and so
  \<^verbatim>\<open>CANON_ERROR\<close>, which flushes first, is \<open>CANON_ERROR_zero_units\<close>: the model of
  the two unit queries satisfies the recursion of the source.
\<close>

lemma GET_EXTERNAL_LENGTH_UNITS_zero:
  "linearUnits env = 0 \<Longrightarrow> chained_points s \<noteq> [] \<Longrightarrow> GET_EXTERNAL_LENGTH_UNITS env s = None"
  by (simp add: GET_EXTERNAL_LENGTH_UNITS_def CANON_ERROR_zero_units_def canon_simps)

lemma GET_EXTERNAL_ANGLE_UNITS_zero:
  "angularUnits env = 0 \<Longrightarrow> chained_points s \<noteq> [] \<Longrightarrow> GET_EXTERNAL_ANGLE_UNITS env s = None"
  by (simp add: GET_EXTERNAL_ANGLE_UNITS_def CANON_ERROR_zero_units_def canon_simps)

lemma TO_EXT_LEN_zero:
  "linearUnits env = 0 \<Longrightarrow> chained_points s \<noteq> [] \<Longrightarrow> TO_EXT_LEN env v s = None"
  by (simp add: TO_EXT_LEN_def bnd_apply GET_EXTERNAL_LENGTH_UNITS_zero)

lemma TO_EXT_ANG_zero:
  "angularUnits env = 0 \<Longrightarrow> chained_points s \<noteq> [] \<Longrightarrow> TO_EXT_ANG env v s = None"
  by (simp add: TO_EXT_ANG_def bnd_apply GET_EXTERNAL_ANGLE_UNITS_zero)

lemma TO_EXT_LEN_nonzero: "linearUnits env \<noteq> 0 \<Longrightarrow> TO_EXT_LEN env v = ret (v * linearUnits env)"
  by (simp add: TO_EXT_LEN_def GET_EXTERNAL_LENGTH_UNITS_def bnd_ret)

lemma flush_last_zero_units:
  assumes z: "linearUnits env = 0 \<or> angularUnits env = 0" and ne: "chained_points s \<noteq> []"
  shows "flush_last env pos s = None"
proof (cases "getStraightVelocity env (pt_pose pos) s")
  case None
  then show ?thesis by (simp add: flush_last_def Let_def bnd_apply)
next
  case (Some r)
  obtain ini s1 where r: "r = (ini, s1)" by (cases r)
  have "only_flags_msgs s s1"
    using frame_getStraightVelocity Some [unfolded r] by (rule frameD)
  then have ne1: "chained_points s1 \<noteq> []"
    using ne by (simp add: only_flags_msgs_fields)
  show ?thesis
  proof (cases "linearUnits env = 0")
    case True
    then show ?thesis
      using Some r ne1 by (simp add: flush_last_def Let_def bnd_apply get_world_def TO_EXT_LEN_zero)
  next
    case False
    with z have a: "angularUnits env = 0" by simp
    show ?thesis
      unfolding flush_last_def Let_def TO_EXT_LEN_nonzero [OF False] bnd_ret
      using Some r ne1 by (simp add: bnd_apply get_world_def TO_EXT_ANG_zero a)
  qed
qed

lemma flush_segments_zero_units:
  assumes "linearUnits env = 0 \<or> angularUnits env = 0" and "chained_points s \<noteq> []"
  shows "flush_segments env s = None"
  using assms by (simp add: flush_segments_nonempty flush_last_zero_units)

lemma CANON_ERROR_zero_units_eq:
  assumes "linearUnits env = 0 \<or> angularUnits env = 0"
  shows "CANON_ERROR env txt = CANON_ERROR_zero_units txt"
proof
  fix s
  show "CANON_ERROR env txt s = CANON_ERROR_zero_units txt s"
  proof (cases "chained_points s = []")
    case True
    then show ?thesis
      by (simp add: CANON_ERROR_def CANON_ERROR_zero_units_def bnd_apply flush_segments_empty
          get_world_def)
  next
    case False
    then show ?thesis
      using assms
      by (simp add: CANON_ERROR_def CANON_ERROR_zero_units_def bnd_apply
          flush_segments_zero_units get_world_def)
  qed
qed

subsection \<open>State mutators and the segment buffer\<close>

lemma indep_ret: "indep g (ret v)"
  by (simp add: indep_def ret_def)

lemma indep_fail: "indep g (\<lambda>_. None)"
  by (simp add: indep_def)

lemma indep_assert: "indep g (assert b)"
  by (simp add: indep_def assert_def)

lemma indep_if: "indep g a \<Longrightarrow> indep g b \<Longrightarrow> indep g (if c then a else b)"
  by simp

lemma indep_bnd: "indep g m \<Longrightarrow> (\<And>v. indep g (f v)) \<Longrightarrow> indep g (bnd m f)"
  by (auto simp: indep_def bnd_def split: option.splits)

lemma indep_get_bnd:
  "(\<And>s0. f (g s0) = f s0) \<Longrightarrow> (\<And>s0. indep g (f s0)) \<Longrightarrow> indep g (bnd get_world f)"
  by (simp add: indep_def bnd_get_apply)

lemma indep_modify: "(\<And>s. h (g s) = g (h s)) \<Longrightarrow> indep g (modify h)"
  by (simp add: indep_def modify_def)

lemmas indep_intros = indep_get_bnd indep_bnd indep_ret indep_fail indep_assert indep_if

lemma set_frame_fields:
  "endPoint (set_frame t un po sp s) = endPoint s"
  "chained_points (set_frame t un po sp s) = chained_points s"
  "cartesian_move (set_frame t un po sp s) = cartesian_move s"
  "angular_move (set_frame t un po sp s) = angular_move s"
  "linearFeedRate (set_frame t un po sp s) = linearFeedRate s"
  "angularFeedRate (set_frame t un po sp s) = angularFeedRate s"
  "feed_mode (set_frame t un po sp s) = feed_mode s"
  "synched (set_frame t un po sp s) = synched s"
  by (simp_all add: set_frame_def)

lemma indep_append: "indep (set_frame t un po sp) (interp_list_append m)"
  unfolding interp_list_append_def by (rule indep_modify) (simp add: set_frame_def)

lemma indep_set_line: "indep (set_frame t un po sp) (interp_list_set_line_number n)"
  unfolding interp_list_set_line_number_def by (rule indep_modify) (simp add: set_frame_def)

lemma indep_CANON_ERROR_zero_units: "indep (set_frame t un po sp) (CANON_ERROR_zero_units txt)"
  unfolding CANON_ERROR_zero_units_def
  by (intro indep_intros indep_append; simp add: set_frame_def)

lemma indep_GET_EXTERNAL_LENGTH_UNITS: "indep (set_frame t un po sp) (GET_EXTERNAL_LENGTH_UNITS env)"
  unfolding GET_EXTERNAL_LENGTH_UNITS_def Let_def
  by (intro indep_intros indep_CANON_ERROR_zero_units)

lemma indep_GET_EXTERNAL_ANGLE_UNITS: "indep (set_frame t un po sp) (GET_EXTERNAL_ANGLE_UNITS env)"
  unfolding GET_EXTERNAL_ANGLE_UNITS_def Let_def
  by (intro indep_intros indep_CANON_ERROR_zero_units)

lemma indep_units:
  "indep (set_frame t un po sp) (TO_EXT_LEN env v)" "indep (set_frame t un po sp) (TO_EXT_ANG env v)"
  "indep (set_frame t un po sp) (FROM_EXT_LEN env v)" "indep (set_frame t un po sp) (FROM_EXT_ANG env v)"
  unfolding TO_EXT_LEN_def TO_EXT_ANG_def FROM_EXT_LEN_def FROM_EXT_ANG_def
  by (intro indep_intros indep_GET_EXTERNAL_LENGTH_UNITS indep_GET_EXTERNAL_ANGLE_UNITS)+

lemma indep_toExtVel: "indep (set_frame t un po sp) (toExtVel env v)"
  unfolding toExtVel_def
  by (intro indep_intros indep_units; simp add: set_frame_def)

lemma indep_straight_limit: "indep (set_frame t un po sp) (straight_limit env lmt nowhere p)"
  unfolding straight_limit_def Let_def
  by (intro indep_intros indep_units indep_modify;
      simp add: set_frame_fields cong: if_cong; simp add: set_frame_def)

lemma indep_getStraightVelocity: "indep (set_frame t un po sp) (getStraightVelocity env p)"
  unfolding getStraightVelocity_def
  by (intro indep_intros indep_straight_limit; simp add: set_frame_def)

lemma indep_flush_last: "indep (set_frame t un po sp) (flush_last env pos)"
  unfolding flush_last_def Let_def toExtAcc_def getStraightJerk_def getStraightAcceleration_def
    canonUpdateEndPoint_def
  by (intro indep_intros indep_units indep_toExtVel indep_straight_limit
      indep_getStraightVelocity indep_append indep_set_line indep_modify;
      simp add: set_frame_fields feed_clamp_def cong: if_cong; simp add: set_frame_def)

lemma indep_flush_segments: "indep (set_frame t un po sp) (flush_segments env)"
  unfolding flush_segments_def
  by (intro indep_intros indep_flush_last; simp add: set_frame_def)

lemma flush_frame_fields:
  assumes "flush_frame s s'"
  shows "xy_rotation s' = xy_rotation s" "lengthUnits s' = lengthUnits s"
    "programOrigin s' = programOrigin s" "spindleSpeed s' = spindleSpeed s"
    "toolOffset s' = toolOffset s" "feed_mode s' = feed_mode s"
    "linearFeedRate s' = linearFeedRate s" "angularFeedRate s' = angularFeedRate s"
    "css_maximum s' = css_maximum s" "css_numerator s' = css_numerator s"
    "synched s' = synched s" "motionMode s' = motionMode s"
  using assms by (auto simp: flush_frame_def)

lemma flush_segments_fields:
  assumes "flush_segments env s = Some (u, s')"
  shows "xy_rotation s' = xy_rotation s" "lengthUnits s' = lengthUnits s"
    "programOrigin s' = programOrigin s" "spindleSpeed s' = spindleSpeed s"
    "toolOffset s' = toolOffset s" "feed_mode s' = feed_mode s"
    "linearFeedRate s' = linearFeedRate s" "angularFeedRate s' = angularFeedRate s"
    "css_maximum s' = css_maximum s" "css_numerator s' = css_numerator s"
    "synched s' = synched s" "motionMode s' = motionMode s"
  using flush_frame_fields [OF frameD [OF frame_flush_segments assms]] by simp_all

lemma flush_with_set_frame:
  "flush_segments env (set_frame t un po sp s)
   = map_option (\<lambda>(v, s'). (v, set_frame t un po sp s')) (flush_segments env s)"
  using indep_flush_segments [of t un po sp env] by (simp add: indep_def)

lemma flush_with_frame:
  "flush_segments env (s\<lparr>xy_rotation := t, lengthUnits := un\<rparr>)
   = map_option (\<lambda>(v, s'). (v, s'\<lparr>xy_rotation := t, lengthUnits := un\<rparr>)) (flush_segments env s)"
proof -
  have a: "flush_segments env (s\<lparr>xy_rotation := t, lengthUnits := un\<rparr>)
     = map_option (\<lambda>(v, s'). (v, s'\<lparr>xy_rotation := t, lengthUnits := un,
          programOrigin := programOrigin s, spindleSpeed := spindleSpeed s\<rparr>))
        (flush_segments env s)"
    using flush_with_set_frame [of env t un "programOrigin s" "spindleSpeed s" s]
    by (simp add: set_frame_def)
  show ?thesis
  proof (cases "flush_segments env s")
    case None
    then show ?thesis by (simp add: a)
  next
    case (Some r)
    obtain u s1 where r: "r = (u, s1)" by (cases r)
    note f = flush_segments_fields [OF Some [unfolded r]]
    show ?thesis
      by (simp add: a Some r f [symmetric])
  qed
qed

lemma flush_with_origin:
  "flush_segments env (s\<lparr>programOrigin := po\<rparr>)
   = map_option (\<lambda>(v, s'). (v, s'\<lparr>programOrigin := po\<rparr>)) (flush_segments env s)"
proof -
  have a: "flush_segments env (s\<lparr>programOrigin := po\<rparr>)
     = map_option (\<lambda>(v, s'). (v, s'\<lparr>xy_rotation := xy_rotation s, lengthUnits := lengthUnits s,
          programOrigin := po, spindleSpeed := spindleSpeed s\<rparr>))
        (flush_segments env s)"
    using flush_with_set_frame [of env "xy_rotation s" "lengthUnits s" po "spindleSpeed s" s]
    by (simp add: set_frame_def)
  show ?thesis
  proof (cases "flush_segments env s")
    case None
    then show ?thesis by (simp add: a)
  next
    case (Some r)
    obtain u s1 where r: "r = (u, s1)" by (cases r)
    note f = flush_segments_fields [OF Some [unfolded r]]
    show ?thesis
      by (simp add: a Some r f [symmetric])
  qed
qed

lemma flush_with_speed:
  "flush_segments env (s\<lparr>spindleSpeed := sp\<rparr>)
   = map_option (\<lambda>(v, s'). (v, s'\<lparr>spindleSpeed := sp\<rparr>)) (flush_segments env s)"
proof -
  have a: "flush_segments env (s\<lparr>spindleSpeed := sp\<rparr>)
     = map_option (\<lambda>(v, s'). (v, s'\<lparr>xy_rotation := xy_rotation s, lengthUnits := lengthUnits s,
          programOrigin := programOrigin s, spindleSpeed := sp\<rparr>))
        (flush_segments env s)"
    using flush_with_set_frame [of env "xy_rotation s" "lengthUnits s" "programOrigin s" sp s]
    by (simp add: set_frame_def)
  show ?thesis
  proof (cases "flush_segments env s")
    case None
    then show ?thesis by (simp add: a)
  next
    case (Some r)
    obtain u s1 where r: "r = (u, s1)" by (cases r)
    note f = flush_segments_fields [OF Some [unfolded r]]
    show ?thesis
      by (simp add: a Some r f [symmetric])
  qed
qed

lemma SET_XY_ROTATION_eq:
  "SET_XY_ROTATION t s
   = Some ((), s\<lparr>interp_list := interp_list s @ [(interp_line s, EMC_TRAJ_SET_ROTATION t)],
                 xy_rotation := t\<rparr>)"
  by (simp add: SET_XY_ROTATION_def interp_list_append_def canon_simps)

lemma USE_LENGTH_UNITS_eq:
  "USE_LENGTH_UNITS un s = Some ((), s\<lparr>lengthUnits := un, programUnits := un\<rparr>)"
  by (simp add: USE_LENGTH_UNITS_def canon_simps)

lemma reflp_stays_empty: "reflp stays_empty"
  by (simp add: reflp_def stays_empty_def)

lemma transp_stays_empty: "transp stays_empty"
  by (auto simp: transp_def stays_empty_def)

lemma only_flags_msgs_stays_empty: "only_flags_msgs s s' \<Longrightarrow> stays_empty s s'"
  by (auto simp: only_flags_msgs_def stays_empty_def)

lemma frame_flush_emptied: "frame emptied (flush_segments env)"
  by (auto simp: frame_def emptied_def dest: flush_segments_clears)

lemma frame_emptied_stays: "frame emptied m \<Longrightarrow> frame stays_empty m"
  by (auto simp: frame_def emptied_def stays_empty_def)

lemma frame_emptied_bnd:
  "frame emptied m \<Longrightarrow> (\<And>v. frame stays_empty (f v)) \<Longrightarrow> frame emptied (bnd m f)"
  unfolding frame_def emptied_def stays_empty_def by (metis bnd_SomeE)

lemma frame_emptied_bnd2:
  "(\<And>v. frame emptied (f v)) \<Longrightarrow> frame emptied (bnd m f)"
  unfolding frame_def emptied_def by (metis bnd_SomeE)

lemma frame_stays_modify:
  "(\<And>s. chained_points (g s) = chained_points s) \<Longrightarrow> frame stays_empty (modify g)"
  by (rule frame_modify) (simp add: stays_empty_def)

lemmas frame_se_intros =
  frame_bnd [OF transp_stays_empty] frame_ret [OF reflp_stays_empty]
  frame_get [OF reflp_stays_empty] frame_if
  frame_units [THEN frame_mono, OF only_flags_msgs_stays_empty]
  frame_append_ofm [THEN frame_mono, OF only_flags_msgs_stays_empty]
  frame_flush_emptied [THEN frame_emptied_stays]

lemma STOP_SPEED_FEED_SYNCH_clears: "frame emptied (STOP_SPEED_FEED_SYNCH env)"
  unfolding STOP_SPEED_FEED_SYNCH_def
  by (intro frame_emptied_bnd frame_flush_emptied frame_se_intros frame_stays_modify; simp)

lemma START_SPEED_FEED_SYNCH_clears: "frame emptied (START_SPEED_FEED_SYNCH env fpr vm)"
  unfolding START_SPEED_FEED_SYNCH_def
  by (intro frame_emptied_bnd frame_flush_emptied frame_se_intros frame_stays_modify; simp)

lemma SET_FEED_MODE_clears: "frame emptied (SET_FEED_MODE env mode)"
  unfolding SET_FEED_MODE_def
  by (intro frame_emptied_bnd frame_flush_emptied frame_se_intros frame_stays_modify
      STOP_SPEED_FEED_SYNCH_clears [THEN frame_emptied_stays]; simp)

lemma SET_MOTION_CONTROL_MODE_clears: "frame emptied (SET_MOTION_CONTROL_MODE env mode tol)"
  unfolding SET_MOTION_CONTROL_MODE_def
  by (intro frame_emptied_bnd frame_flush_emptied frame_se_intros frame_stays_modify;
      (simp split: CANON_MOTION_MODE.split)?;
      intro conjI impI frame_se_intros)

lemma USE_TOOL_LENGTH_OFFSET_clears: "frame emptied (USE_TOOL_LENGTH_OFFSET env offset)"
  unfolding USE_TOOL_LENGTH_OFFSET_def
  by (intro frame_emptied_bnd frame_flush_emptied frame_se_intros frame_stays_modify; simp)

lemma send_origin_msg_clears: "frame emptied (send_origin_msg env)"
  unfolding send_origin_msg_def
  by (intro frame_emptied_bnd frame_flush_emptied frame_se_intros)

lemma SET_ORIGIN_OFFSETS_clears: "frame emptied (SET_ORIGIN_OFFSETS env p)"
  unfolding SET_ORIGIN_OFFSETS_def
  by (intro frame_emptied_bnd2 send_origin_msg_clears)

lemma SET_SPINDLE_SPEED_clears: "frame emptied (SET_SPINDLE_SPEED env r)"
  unfolding SET_SPINDLE_SPEED_def
  by (intro frame_emptied_bnd2 frame_emptied_bnd frame_flush_emptied frame_se_intros
      frame_stays_modify; simp)

lemma SET_FEED_RATE_flushes:
  assumes "SET_FEED_RATE env rate s = Some (v, s')"
  shows "chained_points s' = [] \<or> s' = s"
proof (cases "feed_mode s \<noteq> 0")
  case True
  have "frame emptied (bnd (START_SPEED_FEED_SYNCH env rate True)
          (\<lambda>_. modify (\<lambda>s. s\<lparr>linearFeedRate := rate\<rparr>)))"
    by (intro frame_emptied_bnd START_SPEED_FEED_SYNCH_clears frame_stays_modify; simp)
  moreover from True assms have "bnd (START_SPEED_FEED_SYNCH env rate True)
          (\<lambda>_. modify (\<lambda>s. s\<lparr>linearFeedRate := rate\<rparr>)) s = Some (v, s')"
    by (simp add: SET_FEED_RATE_def bnd_get_apply)
  ultimately show ?thesis
    by (auto simp: frame_def emptied_def)
next
  case False
  show ?thesis
  proof (cases "FROM_PROG_LEN s (rate / 60) \<noteq> linearFeedRate s
                \<or> FROM_PROG_ANG (rate / 60) \<noteq> angularFeedRate s")
    case True
    have "frame emptied (bnd (flush_segments env) (\<lambda>_.
            bnd (modify (\<lambda>s'. s'\<lparr>linearFeedRate := FROM_PROG_LEN s (rate / 60)\<rparr>)) (\<lambda>_.
            modify (\<lambda>s'. s'\<lparr>angularFeedRate := FROM_PROG_ANG (rate / 60)\<rparr>))))"
      by (intro frame_emptied_bnd frame_flush_emptied frame_se_intros frame_stays_modify; simp)
    moreover from True \<open>\<not> feed_mode s \<noteq> 0\<close> assms
    have "bnd (flush_segments env) (\<lambda>_.
            bnd (modify (\<lambda>s'. s'\<lparr>linearFeedRate := FROM_PROG_LEN s (rate / 60)\<rparr>)) (\<lambda>_.
            modify (\<lambda>s'. s'\<lparr>angularFeedRate := FROM_PROG_ANG (rate / 60)\<rparr>))) s = Some (v, s')"
      by (simp add: SET_FEED_RATE_def bnd_get_apply Let_def)
    ultimately show ?thesis
      by (auto simp: frame_def emptied_def)
  next
    case same: False
    with \<open>\<not> feed_mode s \<noteq> 0\<close> assms have "s' = s"
      by (simp add: SET_FEED_RATE_def bnd_get_apply Let_def canon_simps)
    then show ?thesis by simp
  qed
qed

lemma flush_twice:
  "bnd (flush_segments env) (\<lambda>_. bnd (flush_segments env) f) = bnd (flush_segments env) f"
proof
  fix s
  show "bnd (flush_segments env) (\<lambda>_. bnd (flush_segments env) f) s = bnd (flush_segments env) f s"
  proof (cases "flush_segments env s")
    case None
    then show ?thesis by (simp add: bnd_apply)
  next
    case (Some r)
    obtain u s1 where r: "r = (u, s1)" by (cases r)
    have "flush_segments env s1 = Some ((), s1)"
      using flush_segments_clears [OF Some [unfolded r]] by (rule flush_segments_empty)
    then show ?thesis
      using Some r by (simp add: bnd_apply)
  qed
qed

lemma SET_FEED_MODE_flush_first:
  "SET_FEED_MODE env mode = bnd (flush_segments env) (\<lambda>_. SET_FEED_MODE env mode)"
  unfolding SET_FEED_MODE_def flush_twice ..

lemma SET_MOTION_CONTROL_MODE_flush_first:
  "SET_MOTION_CONTROL_MODE env mode tol
   = bnd (flush_segments env) (\<lambda>_. SET_MOTION_CONTROL_MODE env mode tol)"
  unfolding SET_MOTION_CONTROL_MODE_def flush_twice ..

lemma USE_TOOL_LENGTH_OFFSET_flush_first:
  "USE_TOOL_LENGTH_OFFSET env offset
   = bnd (flush_segments env) (\<lambda>_. USE_TOOL_LENGTH_OFFSET env offset)"
  unfolding USE_TOOL_LENGTH_OFFSET_def flush_twice ..

lemma START_SPEED_FEED_SYNCH_flush_first:
  "START_SPEED_FEED_SYNCH env fpr vm
   = bnd (flush_segments env) (\<lambda>_. START_SPEED_FEED_SYNCH env fpr vm)"
  unfolding START_SPEED_FEED_SYNCH_def flush_twice ..

lemma send_origin_msg_flush_first:
  "send_origin_msg env = bnd (flush_segments env) (\<lambda>_. send_origin_msg env)"
  unfolding send_origin_msg_def flush_twice ..

lemma SET_ORIGIN_OFFSETS_flush_first:
  "SET_ORIGIN_OFFSETS env p s = bnd (flush_segments env) (\<lambda>_. SET_ORIGIN_OFFSETS env p) s"
proof (cases "flush_segments env s")
  case None
  then show ?thesis
    by (simp add: SET_ORIGIN_OFFSETS_def send_origin_msg_def bnd_apply modify_def
        flush_with_origin)
next
  case (Some r)
  obtain u s1 where r: "r = (u, s1)" by (cases r)
  have fl: "flush_segments env s = Some ((), s1)" using Some r by simp
  have e: "chained_points s1 = []" using fl by (rule flush_segments_clears)
  have lu: "lengthUnits s1 = lengthUnits s" using fl by (rule flush_segments_fields)
  have fp: "from_prog s1 p = from_prog s p"
    by (simp add: from_prog_def FROM_PROG_LEN_def prog_len_factor_def lu)
  have e2: "flush_segments env (s1\<lparr>programOrigin := from_prog s p\<rparr>)
            = Some ((), s1\<lparr>programOrigin := from_prog s p\<rparr>)"
    by (rule flush_segments_empty) (simp add: e)
  have l: "SET_ORIGIN_OFFSETS env p s = send_origin_msg env (s1\<lparr>programOrigin := from_prog s p\<rparr>)"
    unfolding SET_ORIGIN_OFFSETS_def bnd_modify_apply
    by (subst send_origin_msg_flush_first) (simp add: bnd_apply flush_with_origin fl)
  have r: "bnd (flush_segments env) (\<lambda>_. SET_ORIGIN_OFFSETS env p) s
           = send_origin_msg env (s1\<lparr>programOrigin := from_prog s p\<rparr>)"
    by (simp add: bnd_apply fl SET_ORIGIN_OFFSETS_def modify_def fp)
  show ?thesis by (simp only: l r)
qed

lemma SET_SPINDLE_SPEED_flush_first:
  "SET_SPINDLE_SPEED env r s = bnd (flush_segments env) (\<lambda>_. SET_SPINDLE_SPEED env r) s"
proof (cases "flush_segments env s")
  case None
  then show ?thesis
    by (simp add: SET_SPINDLE_SPEED_def bnd_apply modify_def flush_with_speed)
next
  case (Some x)
  obtain u s1 where x: "x = (u, s1)" by (cases x)
  have fl: "flush_segments env s = Some ((), s1)" using Some x by simp
  have e: "chained_points s1 = []" using fl by (rule flush_segments_clears)
  have e1: "flush_segments env s1 = Some ((), s1)"
    using e by (rule flush_segments_empty)
  show ?thesis
    unfolding SET_SPINDLE_SPEED_def
    by (simp add: bnd_apply modify_def flush_with_speed fl e1)
qed

lemma SET_FEED_RATE_flush_first:
  assumes "feed_mode s \<noteq> 0 \<or> FROM_PROG_LEN s (rate / 60) \<noteq> linearFeedRate s
           \<or> FROM_PROG_ANG (rate / 60) \<noteq> angularFeedRate s"
  shows "SET_FEED_RATE env rate s = bnd (flush_segments env) (\<lambda>_. SET_FEED_RATE env rate) s"
proof (cases "flush_segments env s")
  case None
  then show ?thesis
    using assms
    by (auto simp: SET_FEED_RATE_def START_SPEED_FEED_SYNCH_def bnd_apply get_world_def Let_def)
next
  case (Some x)
  obtain u s1 where x: "x = (u, s1)" by (cases x)
  have fl: "flush_segments env s = Some ((), s1)" using Some x by simp
  have e: "flush_segments env s1 = Some ((), s1)"
    using flush_segments_clears [OF fl] by (rule flush_segments_empty)
  note f = flush_segments_fields [OF fl]
  have fp: "FROM_PROG_LEN s1 = FROM_PROG_LEN s"
    by (rule ext) (simp add: FROM_PROG_LEN_def prog_len_factor_def f)
  show ?thesis
    using assms
    by (auto simp: SET_FEED_RATE_def START_SPEED_FEED_SYNCH_def bnd_apply get_world_def Let_def
        fl e f fp)
qed

lemma SET_FEED_RATE_unchanged:
  assumes "feed_mode s = 0" and "FROM_PROG_LEN s (rate / 60) = linearFeedRate s"
    and "FROM_PROG_ANG (rate / 60) = angularFeedRate s"
  shows "SET_FEED_RATE env rate s = Some ((), s)"
  using assms by (simp add: SET_FEED_RATE_def Let_def canon_simps)

lemma SET_FEED_MODE_eq:
  "SET_FEED_MODE env mode s =
     (case flush_segments env s of None \<Rightarrow> None
      | Some (_, s1) \<Rightarrow> Some ((),
          if mode = 0
          then s1\<lparr>feed_mode := 0,
                  interp_list := interp_list s1 @ [(interp_line s1, EMC_TRAJ_SET_SPINDLESYNC
                     \<lparr>feed_per_revolution = 0, velocity_mode = False\<rparr>)],
                  synched := False\<rparr>
          else s1\<lparr>feed_mode := mode\<rparr>))"
proof (cases "flush_segments env s")
  case None
  then show ?thesis by (simp add: SET_FEED_MODE_def bnd_apply)
next
  case (Some x)
  obtain u s1 where x: "x = (u, s1)" by (cases x)
  have e: "flush_segments env (s1\<lparr>feed_mode := m\<rparr>) = Some ((), s1\<lparr>feed_mode := m\<rparr>)" for m
    using flush_segments_clears [OF Some [unfolded x]] by (simp add: flush_segments_empty)
  show ?thesis
    using Some x e
    by (simp add: SET_FEED_MODE_def STOP_SPEED_FEED_SYNCH_def bnd_def modify_def get_world_def
        ret_def interp_list_append_def)
qed

lemma SET_FEED_RATE_eq:
  assumes "feed_mode s = 0"
  shows "SET_FEED_RATE env rate s =
     (if FROM_PROG_LEN s (rate / 60) = linearFeedRate s
         \<and> FROM_PROG_ANG (rate / 60) = angularFeedRate s
      then Some ((), s)
      else case flush_segments env s of None \<Rightarrow> None
           | Some (_, s1) \<Rightarrow> Some ((), s1\<lparr>linearFeedRate := FROM_PROG_LEN s (rate / 60),
                                         angularFeedRate := FROM_PROG_ANG (rate / 60)\<rparr>))"
  using assms
  by (auto simp: SET_FEED_RATE_def Let_def bnd_apply get_world_def modify_def ret_def
      split: option.splits)

lemma TO_EXT_LEN_empty:
  assumes "chained_points s = []"
  shows "TO_EXT_LEN env v s
         = Some (v * ext_len env, s\<lparr>interp_list := interp_list s @ len_report env s\<rparr>)"
  using assms
  by (simp add: TO_EXT_LEN_def GET_EXTERNAL_LENGTH_UNITS_def CANON_ERROR_zero_units_def
      interp_list_append_def Let_def canon_simps ext_len_def len_report_def)

lemma SET_FEED_RATE_synched_eq:
  assumes "feed_mode s \<noteq> 0"
  shows "SET_FEED_RATE env rate s =
     (case flush_segments env s of None \<Rightarrow> None
      | Some (_, s1) \<Rightarrow> Some ((),
          s1\<lparr>interp_list := interp_list s1 @ len_report env s1 @
                 [(interp_line s1, EMC_TRAJ_SET_SPINDLESYNC
                    \<lparr>feed_per_revolution = FROM_PROG_LEN s rate * ext_len env,
                     velocity_mode = True\<rparr>)],
               synched := True, linearFeedRate := rate\<rparr>))"
proof (cases "flush_segments env s")
  case None
  then show ?thesis
    using assms by (simp add: SET_FEED_RATE_def START_SPEED_FEED_SYNCH_def bnd_apply get_world_def)
next
  case (Some x)
  obtain u s1 where x: "x = (u, s1)" by (cases x)
  have fl: "flush_segments env s = Some ((), s1)" using Some x by simp
  have e: "chained_points s1 = []" using fl by (rule flush_segments_clears)
  have fp: "FROM_PROG_LEN s1 = FROM_PROG_LEN s"
    by (rule ext) (simp add: FROM_PROG_LEN_def prog_len_factor_def flush_segments_fields [OF fl])
  show ?thesis
    using assms
    by (simp add: SET_FEED_RATE_def START_SPEED_FEED_SYNCH_def bnd_apply get_world_def fl
        TO_EXT_LEN_empty [OF e] fp interp_list_append_def modify_def len_report_def)
qed

lemma SET_FEED_MODE_scenario:
  "\<exists>s'. SET_FEED_MODE scenario_env 1 tap_world = Some ((), s')
      \<and> chained_points s' = [] \<and> interp_list s' = [feed_move] \<and> feed_mode s' = 1"
  by (simp add: SET_FEED_MODE_eq flush_tap_world)

lemma SET_FEED_RATE_scenario_tap:
  "\<exists>s'. SET_FEED_RATE scenario_env 1200 tap_world = Some ((), s')
      \<and> chained_points s' = [] \<and> interp_list s' = [feed_move] \<and> linearFeedRate s' = 20
      \<and> angularFeedRate s' = 20"
  by (simp add: SET_FEED_RATE_eq tap_world_fields flush_tap_world FROM_PROG_LEN_def
      FROM_PROG_ANG_def prog_len_factor_def)

lemma SET_MOTION_CONTROL_MODE_scenario:
  "\<exists>s'. SET_MOTION_CONTROL_MODE scenario_env CANON_EXACT_STOP 0 tap_world = Some ((), s')
      \<and> chained_points s' = [] \<and> hd (interp_list s') = feed_move
      \<and> motionMode s' = CANON_EXACT_STOP"
  unfolding SET_MOTION_CONTROL_MODE_def
  by (simp add: bnd_apply flush_tap_world canon_simps interp_list_append_def)

lemma SET_SPINDLE_SPEED_scenario_tap:
  "\<exists>s'. SET_SPINDLE_SPEED scenario_env 300 tap_world = Some ((), s')
      \<and> chained_points s' = [] \<and> hd (interp_list s') = feed_move \<and> spindleSpeed s' = 300"
  unfolding SET_SPINDLE_SPEED_def
  by (simp add: bnd_apply modify_def flush_with_speed flush_tap_world get_world_def
      tap_world_fields interp_list_append_def)

lemma USE_TOOL_LENGTH_OFFSET_scenario:
  "\<exists>s'. USE_TOOL_LENGTH_OFFSET scenario_env unit_x tap_world = Some ((), s')
      \<and> chained_points s' = [] \<and> hd (interp_list s') = feed_move \<and> toolOffset s' = unit_x"
  unfolding USE_TOOL_LENGTH_OFFSET_def units_scenario bnd_ret
  by (simp add: bnd_apply flush_tap_world canon_simps interp_list_append_def tap_world_fields
      from_prog_def FROM_PROG_LEN_def FROM_PROG_ANG_def prog_len_factor_def unit_x_def)

lemma SET_ORIGIN_OFFSETS_scenario:
  "\<exists>s'. SET_ORIGIN_OFFSETS scenario_env unit_x tap_world = Some ((), s')
      \<and> chained_points s' = [] \<and> hd (interp_list s') = feed_move \<and> programOrigin s' = unit_x"
  unfolding SET_ORIGIN_OFFSETS_def send_origin_msg_def units_scenario bnd_ret
  by (simp add: bnd_apply modify_def flush_with_origin flush_tap_world get_world_def ret_def
      tap_world_fields interp_list_append_def
      from_prog_def FROM_PROG_LEN_def FROM_PROG_ANG_def prog_len_factor_def unit_x_def)

text \<open>
  C4, as amended. \<^verbatim>\<open>SET_XY_ROTATION\<close> and \<^verbatim>\<open>USE_LENGTH_UNITS\<close> do not flush:
  the first appends its rotation message and installs the angle, the second installs the
  unit, and both leave the segment buffer and the end point as they are. The buffered
  points are stored converted and rotated, and \<^verbatim>\<open>flush_segments\<close> reads neither the
  rotation nor the length unit: flushing after they have changed emits what flushing
  before would have emitted. The other mutators flush before they install.
  \<^verbatim>\<open>SET_FEED_MODE\<close> is the flush of the state found at entry, followed by the new
  feed mode (and, for mode 0, the message that ends the synchronisation) on the flushed
  state. \<^verbatim>\<open>SET_FEED_RATE\<close> changes nothing and does not flush when the feed mode is 0
  and both rates are the ones already there; otherwise it is the flush of the state found
  at entry, followed by the new rates (in a feed mode other than 0, by the synchronisation
  message and the new linear rate) on the flushed state. Each of
  \<^verbatim>\<open>SET_MOTION_CONTROL_MODE\<close>, \<^verbatim>\<open>USE_TOOL_LENGTH_OFFSET\<close>, \<^verbatim>\<open>SET_ORIGIN_OFFSETS\<close>
  and \<^verbatim>\<open>SET_SPINDLE_SPEED\<close> is the flush of the state found at entry followed by
  itself on the flushed state, whose buffer is empty; the last two store their value
  before they flush, which comes to the same since the flush reads neither the program
  origin nor the spindle speed. All six return with an empty buffer, \<^verbatim>\<open>SET_FEED_RATE\<close>
  unless it changes nothing.
\<close>

theorem mutators_and_the_buffer:
  "SET_XY_ROTATION t s
     = Some ((), s\<lparr>interp_list := interp_list s @ [(interp_line s, EMC_TRAJ_SET_ROTATION t)],
                   xy_rotation := t\<rparr>)
   \<and> USE_LENGTH_UNITS un s = Some ((), s\<lparr>lengthUnits := un, programUnits := un\<rparr>)
   \<and> flush_segments env (s\<lparr>xy_rotation := t, lengthUnits := un\<rparr>)
       = map_option (\<lambda>(v, s'). (v, s'\<lparr>xy_rotation := t, lengthUnits := un\<rparr>))
           (flush_segments env s)
   \<and> SET_FEED_MODE env mode s =
       (case flush_segments env s of None \<Rightarrow> None
        | Some (_, s1) \<Rightarrow> Some ((),
            if mode = 0
            then s1\<lparr>feed_mode := 0,
                    interp_list := interp_list s1 @ [(interp_line s1, EMC_TRAJ_SET_SPINDLESYNC
                       \<lparr>feed_per_revolution = 0, velocity_mode = False\<rparr>)],
                    synched := False\<rparr>
            else s1\<lparr>feed_mode := mode\<rparr>))
   \<and> SET_FEED_RATE env rate s =
       (if feed_mode s = 0 \<and> FROM_PROG_LEN s (rate / 60) = linearFeedRate s
           \<and> FROM_PROG_ANG (rate / 60) = angularFeedRate s
        then Some ((), s)
        else case flush_segments env s of None \<Rightarrow> None
             | Some (_, s1) \<Rightarrow> Some ((),
                 if feed_mode s = 0
                 then s1\<lparr>linearFeedRate := FROM_PROG_LEN s (rate / 60),
                         angularFeedRate := FROM_PROG_ANG (rate / 60)\<rparr>
                 else s1\<lparr>interp_list := interp_list s1 @ len_report env s1 @
                           [(interp_line s1, EMC_TRAJ_SET_SPINDLESYNC
                              \<lparr>feed_per_revolution = FROM_PROG_LEN s rate * ext_len env,
                               velocity_mode = True\<rparr>)],
                         synched := True, linearFeedRate := rate\<rparr>))
   \<and> SET_MOTION_CONTROL_MODE env mm tol s
       = bnd (flush_segments env) (\<lambda>_. SET_MOTION_CONTROL_MODE env mm tol) s
   \<and> USE_TOOL_LENGTH_OFFSET env offset s
       = bnd (flush_segments env) (\<lambda>_. USE_TOOL_LENGTH_OFFSET env offset) s
   \<and> SET_ORIGIN_OFFSETS env p s = bnd (flush_segments env) (\<lambda>_. SET_ORIGIN_OFFSETS env p) s
   \<and> SET_SPINDLE_SPEED env r s = bnd (flush_segments env) (\<lambda>_. SET_SPINDLE_SPEED env r) s
   \<and> (\<forall>v s'. SET_ORIGIN_OFFSETS env p s = Some (v, s') \<longrightarrow> chained_points s' = [])
   \<and> (\<forall>v s'. SET_FEED_MODE env mode s = Some (v, s') \<longrightarrow> chained_points s' = [])
   \<and> (\<forall>v s'. SET_MOTION_CONTROL_MODE env mm tol s = Some (v, s') \<longrightarrow> chained_points s' = [])
   \<and> (\<forall>v s'. SET_SPINDLE_SPEED env r s = Some (v, s') \<longrightarrow> chained_points s' = [])
   \<and> (\<forall>v s'. USE_TOOL_LENGTH_OFFSET env offset s = Some (v, s') \<longrightarrow> chained_points s' = [])
   \<and> (\<forall>v s'. SET_FEED_RATE env rate s = Some (v, s') \<longrightarrow> chained_points s' = [] \<or> s' = s)"
proof -
  have fr: "SET_FEED_RATE env rate s =
       (if feed_mode s = 0 \<and> FROM_PROG_LEN s (rate / 60) = linearFeedRate s
           \<and> FROM_PROG_ANG (rate / 60) = angularFeedRate s
        then Some ((), s)
        else case flush_segments env s of None \<Rightarrow> None
             | Some (_, s1) \<Rightarrow> Some ((),
                 if feed_mode s = 0
                 then s1\<lparr>linearFeedRate := FROM_PROG_LEN s (rate / 60),
                         angularFeedRate := FROM_PROG_ANG (rate / 60)\<rparr>
                 else s1\<lparr>interp_list := interp_list s1 @ len_report env s1 @
                           [(interp_line s1, EMC_TRAJ_SET_SPINDLESYNC
                              \<lparr>feed_per_revolution = FROM_PROG_LEN s rate * ext_len env,
                               velocity_mode = True\<rparr>)],
                         synched := True, linearFeedRate := rate\<rparr>))"
  proof (cases "feed_mode s = 0")
    case True
    then show ?thesis
      by (simp add: SET_FEED_RATE_eq split: option.splits)
  next
    case False
    then show ?thesis
      by (simp add: SET_FEED_RATE_synched_eq split: option.splits)
  qed
  have fm: "SET_FEED_MODE env mode s =
       (case flush_segments env s of None \<Rightarrow> None
        | Some (_, s1) \<Rightarrow> Some ((),
            if mode = 0
            then s1\<lparr>feed_mode := 0,
                    interp_list := interp_list s1 @ [(interp_line s1, EMC_TRAJ_SET_SPINDLESYNC
                       \<lparr>feed_per_revolution = 0, velocity_mode = False\<rparr>)],
                    synched := False\<rparr>
            else s1\<lparr>feed_mode := mode\<rparr>))"
    by (rule SET_FEED_MODE_eq)
  have mc: "SET_MOTION_CONTROL_MODE env mm tol s
       = bnd (flush_segments env) (\<lambda>_. SET_MOTION_CONTROL_MODE env mm tol) s"
    by (subst SET_MOTION_CONTROL_MODE_flush_first) (rule refl)
  have tl: "USE_TOOL_LENGTH_OFFSET env offset s
       = bnd (flush_segments env) (\<lambda>_. USE_TOOL_LENGTH_OFFSET env offset) s"
    by (subst USE_TOOL_LENGTH_OFFSET_flush_first) (rule refl)
  note rest = SET_ORIGIN_OFFSETS_clears [of env p] SET_FEED_MODE_clears [of env mode]
    SET_MOTION_CONTROL_MODE_clears [of env mm tol] SET_SPINDLE_SPEED_clears [of env r]
    USE_TOOL_LENGTH_OFFSET_clears [of env offset] SET_FEED_RATE_flushes [of env rate s]
  show ?thesis
    apply (intro conjI)
                  apply (rule SET_XY_ROTATION_eq)
                 apply (rule USE_LENGTH_UNITS_eq)
                apply (rule flush_with_frame)
               apply (rule fm)
              apply (rule fr)
             apply (rule mc)
            apply (rule tl)
           apply (rule SET_ORIGIN_OFFSETS_flush_first)
          apply (rule SET_SPINDLE_SPEED_flush_first)
    using rest by (auto simp: frame_def emptied_def)
qed

theorem mutators_and_the_buffer_witness:
  "chained_points tap_world \<noteq> [] \<and> interp_list tap_world = []
   \<and> feed_mode tap_world = 0 \<and> linearFeedRate tap_world = 10
   \<and> (\<exists>s'. SET_XY_ROTATION 90 tap_world = Some ((), s')
         \<and> chained_points s' = chained_points tap_world \<and> xy_rotation s' = 90)
   \<and> (\<exists>s'. USE_LENGTH_UNITS CANON_UNITS_INCHES tap_world = Some ((), s')
         \<and> chained_points s' = chained_points tap_world \<and> lengthUnits s' = CANON_UNITS_INCHES)
   \<and> (\<exists>s'. SET_FEED_MODE scenario_env 1 tap_world = Some ((), s')
         \<and> chained_points s' = [] \<and> interp_list s' = [feed_move] \<and> feed_mode s' = 1)
   \<and> (\<exists>s'. SET_FEED_RATE scenario_env 1200 tap_world = Some ((), s')
         \<and> chained_points s' = [] \<and> interp_list s' = [feed_move] \<and> linearFeedRate s' = 20
         \<and> angularFeedRate s' = 20)
   \<and> (\<exists>s'. SET_MOTION_CONTROL_MODE scenario_env CANON_EXACT_STOP 0 tap_world = Some ((), s')
         \<and> chained_points s' = [] \<and> hd (interp_list s') = feed_move
         \<and> motionMode s' = CANON_EXACT_STOP)
   \<and> (\<exists>s'. USE_TOOL_LENGTH_OFFSET scenario_env unit_x tap_world = Some ((), s')
         \<and> chained_points s' = [] \<and> hd (interp_list s') = feed_move \<and> toolOffset s' = unit_x)
   \<and> (\<exists>s'. SET_ORIGIN_OFFSETS scenario_env unit_x tap_world = Some ((), s')
         \<and> chained_points s' = [] \<and> hd (interp_list s') = feed_move \<and> programOrigin s' = unit_x)
   \<and> (\<exists>s'. SET_SPINDLE_SPEED scenario_env 300 tap_world = Some ((), s')
         \<and> chained_points s' = [] \<and> hd (interp_list s') = feed_move \<and> spindleSpeed s' = 300)"
  using mutators_and_the_buffer [of 90 tap_world CANON_UNITS_INCHES scenario_env 1 1200
      CANON_EXACT_STOP 0 unit_x unit_x 300]
    SET_FEED_MODE_scenario SET_FEED_RATE_scenario_tap SET_MOTION_CONTROL_MODE_scenario
    USE_TOOL_LENGTH_OFFSET_scenario SET_ORIGIN_OFFSETS_scenario SET_SPINDLE_SPEED_scenario_tap
  by (simp add: tap_world_def scenario_world_def)

text \<open>
  C4 as stated fails: with a feed waiting in the buffer, the buffer is not empty after
  \<^verbatim>\<open>SET_XY_ROTATION\<close> or \<^verbatim>\<open>USE_LENGTH_UNITS\<close> has returned.
\<close>

theorem rotation_and_units_do_not_flush:
  "chained_points tap_world \<noteq> []
   \<and> (\<exists>s'. SET_XY_ROTATION 90 tap_world = Some ((), s') \<and> chained_points s' \<noteq> [])
   \<and> (\<exists>s'. USE_LENGTH_UNITS CANON_UNITS_INCHES tap_world = Some ((), s')
          \<and> chained_points s' \<noteq> [])"
  by (simp add: SET_XY_ROTATION_eq USE_LENGTH_UNITS_eq tap_world_def)

subsection \<open>Constant surface speed\<close>




















end
